theory Spec2Isabelle
  imports Main "HOL-Library.Word"
begin

unbundle bit_operations_syntax

section \<open>Machine integers, byte order and error codes\<close>

text \<open>
  The pcapng reader and writer of \<^verbatim>\<open>pcapng.c\<close> work on \<^verbatim>\<open>guint8\<close>,
  \<^verbatim>\<open>guint16\<close>, \<^verbatim>\<open>guint32\<close> and \<^verbatim>\<open>guint64\<close> values. They are words here, so that
  every addition, subtraction and multiplication wraps as it does in C.
\<close>

type_synonym guint8 = "8 word"
type_synonym guint16 = "16 word"
type_synonym guint32 = "32 word"
type_synonym guint64 = "64 word"

text \<open>The byte-swapping macros of GLib, written out as the macros are.\<close>

definition GUINT16_SWAP_LE_BE :: "guint16 \<Rightarrow> guint16" where
  "GUINT16_SWAP_LE_BE v = (drop_bit 8 v) OR (push_bit 8 v)"

definition GUINT32_SWAP_LE_BE :: "guint32 \<Rightarrow> guint32" where
  "GUINT32_SWAP_LE_BE v =
     (push_bit 24 (v AND 0x000000ff)) OR (push_bit 8 (v AND 0x0000ff00)) OR
     (drop_bit 8 (v AND 0x00ff0000)) OR (drop_bit 24 (v AND 0xff000000))"

definition GUINT64_SWAP_LE_BE :: "guint64 \<Rightarrow> guint64" where
  "GUINT64_SWAP_LE_BE v =
     (push_bit 56 (v AND 0x00000000000000ff)) OR (push_bit 40 (v AND 0x000000000000ff00)) OR
     (push_bit 24 (v AND 0x0000000000ff0000)) OR (push_bit 8 (v AND 0x00000000ff000000)) OR
     (drop_bit 8 (v AND 0x000000ff00000000)) OR (drop_bit 24 (v AND 0x0000ff0000000000)) OR
     (drop_bit 40 (v AND 0x00ff000000000000)) OR (drop_bit 56 (v AND 0xff00000000000000))"

text \<open>
  A structure is filled by copying bytes of the file over it, so a multi-byte field
  holds the file's bytes in the byte order of the machine that runs the reader.
  \<open>load_le\<close> reads bytes least significant first; \<open>load_host be\<close> is the
  value a field holds on a big-endian (\<open>be\<close>) or little-endian host.
\<close>

fun load_le :: "guint8 list \<Rightarrow> 'a::len word" where
  "load_le [] = 0"
| "load_le (b # bs) = ucast b OR push_bit 8 (load_le bs)"

definition load_host :: "bool \<Rightarrow> guint8 list \<Rightarrow> 'a::len word" where
  "load_host be bs = load_le (if be then rev bs else bs)"

fun store_le :: "nat \<Rightarrow> 'a::len word \<Rightarrow> guint8 list" where
  "store_le 0 w = []"
| "store_le (Suc n) w = ucast w # store_le n (drop_bit 8 w)"

definition store_host :: "bool \<Rightarrow> nat \<Rightarrow> 'a::len word \<Rightarrow> guint8 list" where
  "store_host be n w = (if be then rev (store_le n w) else store_le n w)"

text \<open>
  The error code left in \<^verbatim>\<open>*err\<close> when a routine returns \<^verbatim>\<open>FALSE\<close>.
  \<open>ERR_NONE\<close> is the value 0, which the read primitives leave at a clean end of
  file. \<open>ERR_PLUGIN\<close> stands for whatever code a plugin's handler reports.
\<close>

datatype wtap_err =
    ERR_NONE
  | WTAP_ERR_SHORT_READ
  | WTAP_ERR_BAD_FILE
  | WTAP_ERR_UNSUPPORTED
  | WTAP_ERR_SHORT_WRITE
  | ENOMEM
  | ERR_PLUGIN nat

text \<open>
  A routine that returns \<^verbatim>\<open>gboolean\<close> and sets \<^verbatim>\<open>*err\<close> is a function into
  \<open>wtap_err + 'a\<close>; \<open>rbind\<close> is the early \<^verbatim>\<open>return FALSE\<close> on a failed call.
\<close>

definition rbind :: "'e + 'a \<Rightarrow> ('a \<Rightarrow> 'e + 'b) \<Rightarrow> 'e + 'b" where
  "rbind m f = (case m of Inl e \<Rightarrow> Inl e | Inr x \<Rightarrow> f x)"

section \<open>The input stream\<close>

text \<open>
  \<^verbatim>\<open>FILE_T\<close>: the bytes of the file and the read position. Errors of the device
  itself are outside this model; a read fails only by running out of bytes.
\<close>

record FILE_T =
  contents :: "guint8 list"
  pos :: nat

text \<open>
  Modelled from the spec: \<^verbatim>\<open>wtap_read_bytes_or_eof\<close> and \<^verbatim>\<open>wtap_read_bytes\<close> live in
  the wiretap core, outside these sources ("Primitive I/O: length-checked read of
  bounded byte runs from a stream, with short-read detected as end-of-file only at
  block boundaries"). A read of \<open>n\<close> bytes either delivers all of them and advances,
  or fails: with code 0 when not a single byte was left (\<^verbatim>\<open>_or_eof\<close> only), with
  \<open>WTAP_ERR_SHORT_READ\<close> otherwise.
\<close>

definition wtap_read_bytes_or_eof :: "FILE_T \<Rightarrow> nat \<Rightarrow> wtap_err + (guint8 list \<times> FILE_T)" where
  "wtap_read_bytes_or_eof fh n =
     (if pos fh + n \<le> length (contents fh)
      then Inr (take n (drop (pos fh) (contents fh)), fh\<lparr>pos := pos fh + n\<rparr>)
      else if length (contents fh) \<le> pos fh then Inl ERR_NONE
      else Inl WTAP_ERR_SHORT_READ)"

definition wtap_read_bytes :: "FILE_T \<Rightarrow> nat \<Rightarrow> wtap_err + (guint8 list \<times> FILE_T)" where
  "wtap_read_bytes fh n =
     (case wtap_read_bytes_or_eof fh n of
        Inl e \<Rightarrow> Inl (if e = ERR_NONE then WTAP_ERR_SHORT_READ else e)
      | Inr r \<Rightarrow> Inr r)"

section \<open>The data model\<close>

text \<open>
  \<^verbatim>\<open>pcapng_block_header_t\<close> (type and total length) and the per-section state
  \<^verbatim>\<open>section_info_t\<close> with the per-interface data \<^verbatim>\<open>interface_info_t\<close>.
  \<open>tsprecision\<close> is one of the \<^verbatim>\<open>WTAP_TSPREC_\<close> values, and an encapsulation
  one of the \<^verbatim>\<open>WTAP_ENCAP_\<close> values: the two sentinels, or a link-layer type.
\<close>

record pcapng_block_header_t =
  block_type :: guint32
  block_total_length :: guint32

datatype wtap_tsprec =
    WTAP_TSPREC_UNKNOWN
  | WTAP_TSPREC_PER_PACKET
  | WTAP_TSPREC_SEC
  | WTAP_TSPREC_DSEC
  | WTAP_TSPREC_CSEC
  | WTAP_TSPREC_MSEC
  | WTAP_TSPREC_USEC
  | WTAP_TSPREC_NSEC

datatype wtap_encap_t = WTAP_ENCAP_PER_PACKET | WTAP_ENCAP_UNKNOWN | WTAP_ENCAP int

record interface_info_t =
  wtap_encap :: wtap_encap_t
  snap_len :: guint32
  time_units_per_second :: guint64
  tsprecision :: wtap_tsprec
  fcslen :: int

record section_info_t =
  byte_swapped :: bool
  version_major :: guint16
  version_minor :: guint16
  interfaces :: "interface_info_t list"
  shb_off :: int

text \<open>
  Blocks as the wiretap core keeps them (\<^verbatim>\<open>wtap_block_t\<close>): the mandatory data of
  the block's kind, and its options. The option store itself is outside these
  sources; here a block keeps every option the reader adds, in the order of the
  calls, as a pair of the option code and the value.
\<close>

record wtap_bpf_insn_t =
  bpf_code :: guint16
  bpf_jt :: guint8
  bpf_jf :: guint8
  bpf_k :: guint32

datatype if_filter_opt_t =
    If_filter_pcap "guint8 list"
  | If_filter_bpf "wtap_bpf_insn_t list"

datatype wtap_optval =
    OptString (stringval: "guint8 list")
  | OptUInt8 guint8
  | OptUInt64 guint64
  | OptIfFilter if_filter_opt_t
  | OptCustom "guint8 list"

type_synonym wtap_options = "(guint32 \<times> wtap_optval) list"

record wtapng_if_stats_mandatory_t =
  isb_interface_id :: guint32
  isb_ts_high :: guint32
  isb_ts_low :: guint32

record wtapng_if_descr_mandatory_t =
  if_wtap_encap :: wtap_encap_t
  if_time_units_per_second :: guint64
  if_tsprecision :: wtap_tsprec
  if_snap_len :: guint32
  num_stat_entries :: guint8
  interface_statistics :: "(wtapng_if_stats_mandatory_t \<times> wtap_options) list"

record wtapng_dsb_mandatory_t =
  secrets_type :: guint32
  secrets_len :: guint32
  secrets_data :: "guint8 list"

datatype wtap_mandatory =
    Mand_Section (section_length: guint64)
  | Mand_If_Descr (the_if_descr: wtapng_if_descr_mandatory_t)
  | Mand_If_Stats (the_if_stats: wtapng_if_stats_mandatory_t)
  | Mand_Name_Resolution
  | Mand_Decryption_Secrets (the_dsb: wtapng_dsb_mandatory_t)

record wtap_block =
  mandatory :: wtap_mandatory
  options :: wtap_options

definition wtap_block_add_option :: "wtap_block \<Rightarrow> guint32 \<Rightarrow> wtap_optval \<Rightarrow> wtap_block" where
  "wtap_block_add_option b option_id v = b\<lparr>options := options b @ [(option_id, v)]\<rparr>"

text \<open>\<^verbatim>\<open>g_strndup\<close>: at most \<open>n\<close> bytes, up to the first NUL.\<close>

definition g_strndup :: "guint8 list \<Rightarrow> nat \<Rightarrow> guint8 list" where
  "g_strndup bs n = takeWhile (\<lambda>b. b \<noteq> 0) (take n bs)"

text \<open>
  Modelled from the spec: the option codes are declared in \<^verbatim>\<open>pcapng.h\<close> and
  \<^verbatim>\<open>wtap_opttypes.h\<close>, outside these sources. The spec fixes "End-of-options = 0,
  Comment = 1" and asks for "bit-exact compatibility with the published pcapng
  specification", whose numbering the remaining codes follow.
\<close>

definition OPT_EOFOPT :: guint16 where "OPT_EOFOPT = 0"
definition OPT_COMMENT :: guint16 where "OPT_COMMENT = 1"
definition OPT_SHB_HARDWARE :: guint16 where "OPT_SHB_HARDWARE = 2"
definition OPT_SHB_OS :: guint16 where "OPT_SHB_OS = 3"
definition OPT_SHB_USERAPPL :: guint16 where "OPT_SHB_USERAPPL = 4"
definition OPT_IDB_NAME :: guint16 where "OPT_IDB_NAME = 2"
definition OPT_IDB_DESCR :: guint16 where "OPT_IDB_DESCR = 3"
definition OPT_IDB_IP4ADDR :: guint16 where "OPT_IDB_IP4ADDR = 4"
definition OPT_IDB_IP6ADDR :: guint16 where "OPT_IDB_IP6ADDR = 5"
definition OPT_IDB_MACADDR :: guint16 where "OPT_IDB_MACADDR = 6"
definition OPT_IDB_EUIADDR :: guint16 where "OPT_IDB_EUIADDR = 7"
definition OPT_IDB_SPEED :: guint16 where "OPT_IDB_SPEED = 8"
definition OPT_IDB_TSRESOL :: guint16 where "OPT_IDB_TSRESOL = 9"
definition OPT_IDB_TZONE :: guint16 where "OPT_IDB_TZONE = 10"
definition OPT_IDB_FILTER :: guint16 where "OPT_IDB_FILTER = 11"
definition OPT_IDB_OS :: guint16 where "OPT_IDB_OS = 12"
definition OPT_IDB_FCSLEN :: guint16 where "OPT_IDB_FCSLEN = 13"
definition OPT_IDB_TSOFFSET :: guint16 where "OPT_IDB_TSOFFSET = 14"
definition OPT_IDB_HARDWARE :: guint16 where "OPT_IDB_HARDWARE = 15"
definition OPT_ISB_STARTTIME :: guint16 where "OPT_ISB_STARTTIME = 2"
definition OPT_ISB_ENDTIME :: guint16 where "OPT_ISB_ENDTIME = 3"
definition OPT_ISB_IFRECV :: guint16 where "OPT_ISB_IFRECV = 4"
definition OPT_ISB_IFDROP :: guint16 where "OPT_ISB_IFDROP = 5"
definition OPT_ISB_FILTERACCEPT :: guint16 where "OPT_ISB_FILTERACCEPT = 6"
definition OPT_ISB_OSDROP :: guint16 where "OPT_ISB_OSDROP = 7"
definition OPT_ISB_USRDELIV :: guint16 where "OPT_ISB_USRDELIV = 8"

text \<open>The option codes of the packet blocks, as \<^verbatim>\<open>pcapng.c\<close> defines them.\<close>

definition OPT_EPB_FLAGS :: guint16 where "OPT_EPB_FLAGS = 0x0002"
definition OPT_EPB_HASH :: guint16 where "OPT_EPB_HASH = 0x0003"
definition OPT_EPB_DROPCOUNT :: guint16 where "OPT_EPB_DROPCOUNT = 0x0004"
definition OPT_EPB_PACKETID :: guint16 where "OPT_EPB_PACKETID = 0x0005"
definition OPT_EPB_QUEUE :: guint16 where "OPT_EPB_QUEUE = 0x0006"
definition OPT_EPB_VERDICT :: guint16 where "OPT_EPB_VERDICT = 0x0007"
definition OPT_VERDICT_TYPE_HW :: guint8 where "OPT_VERDICT_TYPE_HW = 0"
definition OPT_VERDICT_TYPE_TC :: guint8 where "OPT_VERDICT_TYPE_TC = 1"
definition OPT_VERDICT_TYPE_XDP :: guint8 where "OPT_VERDICT_TYPE_XDP = 2"

text \<open>
  Modelled from the spec: the block type codes are declared in
  \<^verbatim>\<open>pcapng_module.h\<close>, outside these sources; the values are those of the spec's list
  of standard block types, and for the journal and host event blocks, which the spec
  leaves open, those of the published pcapng block type registry.
\<close>

definition BLOCK_TYPE_SHB :: guint32 where "BLOCK_TYPE_SHB = 0x0A0D0D0A"
definition BLOCK_TYPE_IDB :: guint32 where "BLOCK_TYPE_IDB = 0x00000001"
definition BLOCK_TYPE_PB :: guint32 where "BLOCK_TYPE_PB = 0x00000002"
definition BLOCK_TYPE_SPB :: guint32 where "BLOCK_TYPE_SPB = 0x00000003"
definition BLOCK_TYPE_NRB :: guint32 where "BLOCK_TYPE_NRB = 0x00000004"
definition BLOCK_TYPE_ISB :: guint32 where "BLOCK_TYPE_ISB = 0x00000005"
definition BLOCK_TYPE_EPB :: guint32 where "BLOCK_TYPE_EPB = 0x00000006"
definition BLOCK_TYPE_DSB :: guint32 where "BLOCK_TYPE_DSB = 0x0000000A"
definition BLOCK_TYPE_SYSTEMD_JOURNAL :: guint32 where "BLOCK_TYPE_SYSTEMD_JOURNAL = 0x00000009"
definition BLOCK_TYPE_SYSDIG_EVENT :: guint32 where "BLOCK_TYPE_SYSDIG_EVENT = 0x00000204"
definition BLOCK_TYPE_SYSDIG_EVENT_V2 :: guint32 where "BLOCK_TYPE_SYSDIG_EVENT_V2 = 0x00000216"

text \<open>
  The record handed to the caller (\<^verbatim>\<open>wtap_rec\<close>), with the members of the
  \<^verbatim>\<open>rec_header\<close> union the reader writes side by side. \<^verbatim>\<open>presence_flags\<close> is the
  set of the \<^verbatim>\<open>WTAP_HAS_\<close> bits. \<open>ts_secs\<close> is a \<^verbatim>\<open>time_t\<close> and \<open>ts_nsecs\<close> an
  \<^verbatim>\<open>int\<close>; a cast to either keeps the low 64 or 32 bits. The pseudo-header belongs
  to the link-layer codec, and is opaque here.
\<close>

datatype rec_type_t = REC_TYPE_UNSET | REC_TYPE_PACKET | REC_TYPE_SYSCALL | REC_TYPE_SYSTEMD_JOURNAL

datatype presence_flag =
    WTAP_HAS_TS
  | WTAP_HAS_CAP_LEN
  | WTAP_HAS_INTERFACE_ID
  | WTAP_HAS_COMMENTS
  | WTAP_HAS_DROP_COUNT
  | WTAP_HAS_PACK_FLAGS
  | WTAP_HAS_PACKET_ID
  | WTAP_HAS_INT_QUEUE
  | WTAP_HAS_VERDICT

datatype wtap_pseudo_header = Pseudo_header_zeroed | Pseudo_header "guint8 list"

record wtap_rec =
  rec_type :: rec_type_t
  presence_flags :: "presence_flag set"
  ts_secs :: "64 word"
  ts_nsecs :: "32 word"
  rec_tsprec :: wtap_tsprec
  opt_comment :: "guint8 list option"
  packet_verdict :: "guint8 list list option"
  caplen :: guint32
  pkt_len :: guint32
  pkt_encap :: wtap_encap_t
  interface_id :: guint32
  drop_count :: guint64
  pack_flags :: guint32
  interface_queue :: guint32
  packet_id :: guint64
  pseudo_header :: wtap_pseudo_header
  sys_record_type :: guint32
  sys_big_endian :: bool
  sys_cpu_id :: guint16
  sys_thread_id :: guint64
  sys_event_len :: guint32
  sys_event_filelen :: guint32
  sys_event_type :: guint16
  sys_nparams :: guint32
  sdj_record_len :: guint32

text \<open>
  \<^verbatim>\<open>wtapng_block_t\<close>: what a block reader fills in. \<open>wb_internal\<close> says that the
  block is consumed by the reader itself and not handed to the caller.
\<close>

record wtapng_block_t =
  wb_type :: guint32
  wb_internal :: bool
  wb_block :: "wtap_block option"
  wb_rec :: wtap_rec
  wb_frame_buffer :: "guint8 list"

text \<open>
  \<^verbatim>\<open>pcapng_t\<close>, the reader's private state. \<open>add_new_ipv4\<close> and \<open>add_new_ipv6\<close>
  say whether the caller registered a name-resolution callback; \<open>names_ipv4\<close> and
  \<open>names_ipv6\<close> list the (address, name) pairs the callbacks were called with.
\<close>

record pcapng_t =
  current_section_number :: nat
  sections :: "section_info_t list"
  add_new_ipv4 :: bool
  add_new_ipv6 :: bool
  names_ipv4 :: "(guint8 list \<times> guint8 list) list"
  names_ipv6 :: "(guint8 list \<times> guint8 list) list"

text \<open>
  \<^verbatim>\<open>wtap\<close>, the capture file as the wiretap core holds it: the stream, the
  file-wide encapsulation and time stamp precision, the interfaces, section headers,
  name-resolution and secrets blocks collected so far, the callbacks the caller
  registered, and the reader's private state.
\<close>

record wtap =
  wth_fh :: FILE_T
  file_encap :: wtap_encap_t
  file_tsprec :: wtap_tsprec
  snapshot_length :: int
  interface_data :: "wtap_block list"
  shb_hdrs :: "wtap_block list"
  nrb_hdrs :: "wtap_block list option"
  dsbs :: "wtap_block list"
  wth_add_new_ipv4 :: bool
  wth_add_new_ipv6 :: bool
  priv :: pcapng_t

section \<open>What the codec takes from its environment\<close>

text \<open>
  The collaborators the spec keeps out of scope, and the choices of the build and the
  host, are parameters of the model:
  \<^item> \<open>host_be\<close>: the host is big-endian;
  \<^item> \<open>dump_fails off n\<close>: writing \<open>n\<close> bytes at offset \<open>off\<close> of the output fails;
  \<^item> \<open>alloc_fails n\<close>: \<^verbatim>\<open>g_try_malloc\<close> of \<open>n\<close> bytes returns \<^verbatim>\<open>NULL\<close>;
  \<^item> \<open>max_packet_size_dbus\<close>: the constant \<^verbatim>\<open>WTAP_MAX_PACKET_SIZE_DBUS\<close> of
    \<^verbatim>\<open>wtap.h\<close>;
  \<^item> \<open>wtap_pcap_encap_to_wtap_encap\<close> and \<open>wtap_max_snaplen_for_encap\<close>: the
    tables of the encapsulation registry;
  \<^item> \<open>pcap_process_pseudo_header encap cap_len bytes\<close>: the link-layer codec reads
    a pseudo-header from the bytes at the read position, and answers its length and
    value, or fails;
  \<^item> \<open>pcap_read_post_process encap phdr data byte_swapped fcslen\<close>: the link-layer
    codec's fix-up of pseudo-header and packet data;
  \<^item> \<open>ws_strtou64\<close>: the number parser of \<^verbatim>\<open>wsutil\<close>;
  \<^item> \<open>block_handlers\<close> and \<open>option_handlers\<close>: the plugin registries (empty in
    a build without plugins). A block reader gets the stream, the length of the
    body, the byte order and the block under construction; it answers the block and
    the number of bytes it consumed. An option parser gets the block, the byte order,
    the option's length and content.
\<close>

record externals =
  host_be :: bool
  dump_fails :: "nat \<Rightarrow> nat \<Rightarrow> bool"
  alloc_fails :: "nat \<Rightarrow> bool"
  max_packet_size_dbus :: guint32
  wtap_pcap_encap_to_wtap_encap :: "guint32 \<Rightarrow> wtap_encap_t"
  wtap_max_snaplen_for_encap :: "wtap_encap_t \<Rightarrow> guint32"
  pcap_process_pseudo_header ::
    "wtap_encap_t \<Rightarrow> guint32 \<Rightarrow> guint8 list \<Rightarrow> wtap_err + (nat \<times> wtap_pseudo_header)"
  pcap_read_post_process ::
    "wtap_encap_t \<Rightarrow> wtap_pseudo_header \<Rightarrow> guint8 list \<Rightarrow> bool \<Rightarrow> int \<Rightarrow>
     wtap_pseudo_header \<times> guint8 list"
  ws_strtou64 :: "guint8 list \<Rightarrow> guint64 option"
  block_handlers ::
    "guint32 \<Rightarrow> (FILE_T \<Rightarrow> guint32 \<Rightarrow> bool \<Rightarrow> wtapng_block_t \<Rightarrow> wtap_err + (wtapng_block_t \<times> nat)) option"
  option_handlers ::
    "nat \<Rightarrow> guint16 \<Rightarrow> (wtap_block \<Rightarrow> bool \<Rightarrow> guint16 \<Rightarrow> guint8 list \<Rightarrow> wtap_err + wtap_block) option"

text \<open>
  A structure read from the file: \<open>field16 ext bytes off\<close>, \<open>field32\<close> and \<open>field64\<close>
  are the 16-, 32- and 64-bit members at byte offset \<open>off\<close>, as the host loads
  them. \<open>swap16\<close>, \<open>swap32\<close> and \<open>swap64\<close> are the conditional byte swaps
  \<^verbatim>\<open>if (section_info->byte_swapped) x = GUINTnn_SWAP_LE_BE(x)\<close>.
\<close>

definition field16 :: "externals \<Rightarrow> guint8 list \<Rightarrow> nat \<Rightarrow> guint16" where
  "field16 ext bytes off = load_host (host_be ext) (take 2 (drop off bytes))"

definition field32 :: "externals \<Rightarrow> guint8 list \<Rightarrow> nat \<Rightarrow> guint32" where
  "field32 ext bytes off = load_host (host_be ext) (take 4 (drop off bytes))"

definition field64 :: "externals \<Rightarrow> guint8 list \<Rightarrow> nat \<Rightarrow> guint64" where
  "field64 ext bytes off = load_host (host_be ext) (take 8 (drop off bytes))"

definition swap16 :: "bool \<Rightarrow> guint16 \<Rightarrow> guint16" where
  "swap16 swapped v = (if swapped then GUINT16_SWAP_LE_BE v else v)"

definition swap32 :: "bool \<Rightarrow> guint32 \<Rightarrow> guint32" where
  "swap32 swapped v = (if swapped then GUINT32_SWAP_LE_BE v else v)"

definition swap64 :: "bool \<Rightarrow> guint64 \<Rightarrow> guint64" where
  "swap64 swapped v = (if swapped then GUINT64_SWAP_LE_BE v else v)"

text \<open>The sizes of the fixed parts, as the \<^verbatim>\<open>MIN_..._SIZE\<close> macros compute them.\<close>

definition MIN_BLOCK_SIZE :: guint32 where "MIN_BLOCK_SIZE = 8 + 4"
definition MIN_SHB_SIZE :: guint32 where "MIN_SHB_SIZE = MIN_BLOCK_SIZE + 16"
definition MIN_PB_SIZE :: guint32 where "MIN_PB_SIZE = MIN_BLOCK_SIZE + 20"
definition MIN_EPB_SIZE :: guint32 where "MIN_EPB_SIZE = MIN_BLOCK_SIZE + 20"
definition MIN_SPB_SIZE :: guint32 where "MIN_SPB_SIZE = MIN_BLOCK_SIZE + 4"
definition MIN_NRB_SIZE :: guint32 where "MIN_NRB_SIZE = MIN_BLOCK_SIZE + 4"
definition MIN_ISB_SIZE :: guint32 where "MIN_ISB_SIZE = MIN_BLOCK_SIZE + 12"
definition SYSDIG_EVENT_HEADER_SIZE :: guint32 where
  "SYSDIG_EVENT_HEADER_SIZE = (16 + 64 + 64 + 32 + 16) div 8"
definition MIN_SYSDIG_EVENT_SIZE :: guint32 where
  "MIN_SYSDIG_EVENT_SIZE = MIN_BLOCK_SIZE + SYSDIG_EVENT_HEADER_SIZE"
definition SYSDIG_EVENT_V2_HEADER_SIZE :: guint32 where
  "SYSDIG_EVENT_V2_HEADER_SIZE = (16 + 64 + 64 + 32 + 16 + 32) div 8"
definition MIN_SYSDIG_EVENT_V2_SIZE :: guint32 where
  "MIN_SYSDIG_EVENT_V2_SIZE = MIN_BLOCK_SIZE + SYSDIG_EVENT_V2_HEADER_SIZE"
definition MIN_SYSTEMD_JOURNAL_EXPORT_ENTRY_SIZE :: guint32 where
  "MIN_SYSTEMD_JOURNAL_EXPORT_ENTRY_SIZE = 23"
definition MIN_SYSTEMD_JOURNAL_EXPORT_BLOCK_SIZE :: guint32 where
  "MIN_SYSTEMD_JOURNAL_EXPORT_BLOCK_SIZE = MIN_SYSTEMD_JOURNAL_EXPORT_ENTRY_SIZE + MIN_BLOCK_SIZE"

text \<open>
  Modelled from the spec: \<^verbatim>\<open>MIN_IDB_SIZE\<close> and \<^verbatim>\<open>MIN_DSB_SIZE\<close> are macros of
  \<^verbatim>\<open>pcapng.h\<close>, outside these sources; like their siblings they are the minimum
  block size plus the fixed body, which the spec gives as
  \<open>{link_type:u16, reserved:u16, snap_len:u32}\<close> and
  \<open>{secrets_type:u32, secrets_len:u32}\<close>.
\<close>

definition MIN_IDB_SIZE :: guint32 where "MIN_IDB_SIZE = MIN_BLOCK_SIZE + 8"
definition MIN_DSB_SIZE :: guint32 where "MIN_DSB_SIZE = MIN_BLOCK_SIZE + 8"

definition MAX_BLOCK_SIZE :: "externals \<Rightarrow> guint32" where
  "MAX_BLOCK_SIZE ext = MIN_EPB_SIZE + max_packet_size_dbus ext + 131072"

section \<open>Block framing\<close>

text \<open>
  \<^verbatim>\<open>pcapng_read_and_check_block_trailer\<close>: read the second copy of the block's total
  length, swap it when the section is byte-swapped, and compare it with the first.
\<close>

definition pcapng_read_and_check_block_trailer ::
  "externals \<Rightarrow> FILE_T \<Rightarrow> pcapng_block_header_t \<Rightarrow> section_info_t \<Rightarrow> wtap_err + FILE_T" where
  "pcapng_read_and_check_block_trailer ext fh bh section_info =
     rbind (wtap_read_bytes fh 4) (\<lambda>(bytes, fh').
       let trailer = swap32 (byte_swapped section_info) (field32 ext bytes 0)
       in if trailer \<noteq> block_total_length bh then Inl WTAP_ERR_BAD_FILE else Inr fh')"

section \<open>The write path: string options and the section header block\<close>

text \<open>
  \<^verbatim>\<open>wtap_dumper\<close>: the bytes written so far, the running count
  \<^verbatim>\<open>bytes_dumped\<close> and the section header blocks to write (\<^verbatim>\<open>shb_hdrs\<close>).
\<close>

record wtap_dumper =
  dumped :: "guint8 list"
  bytes_dumped :: guint64
  dump_shb_hdrs :: "wtap_block list"

text \<open>
  Modelled from the spec: \<^verbatim>\<open>wtap_dump_file_write\<close> is the wiretap core's
  length-checked write, outside these sources. It appends the bytes, or fails
  and writes nothing.
\<close>

definition wtap_dump_file_write ::
  "externals \<Rightarrow> wtap_dumper \<Rightarrow> guint8 list \<Rightarrow> wtap_err + wtap_dumper" where
  "wtap_dump_file_write ext wdh bytes =
     (if dump_fails ext (length (dumped wdh)) (length bytes) then Inl WTAP_ERR_SHORT_WRITE
      else Inr (wdh\<lparr>dumped := dumped wdh @ bytes\<rparr>))"

text \<open>
  A C string is the list of its bytes before the terminating NUL, so that
  \<^verbatim>\<open>strlen\<close> is \<open>length\<close>. \<^verbatim>\<open>pcapng_compute_option_string_size\<close> masks the
  length, cast to 32 bits, to its low 16 bits and pads it to a multiple of 4.
\<close>

definition pcapng_compute_option_string_size :: "guint8 list \<Rightarrow> guint32" where
  "pcapng_compute_option_string_size str =
     (let size = (of_nat (length str) :: guint32) AND 0xffff;
          pad = (if size mod 4 \<noteq> 0 then 4 - (size mod 4) else 0)
      in size + pad)"

definition compute_shb_option_size :: "guint32 \<Rightarrow> wtap_optval \<Rightarrow> guint32 \<Rightarrow> guint32" where
  "compute_shb_option_size option_id optval block_size =
     (let size =
            (if option_id = ucast OPT_COMMENT \<or> option_id = ucast OPT_SHB_HARDWARE \<or>
                option_id = ucast OPT_SHB_OS \<or> option_id = ucast OPT_SHB_USERAPPL
             then pcapng_compute_option_string_size (stringval optval)
             else 0);
          block_size = block_size + size
      in if size > 0
         then (if block_size AND 0x03 \<noteq> 0
               then block_size + (4 - (block_size AND 0x03))
               else block_size) + 4
         else block_size)"

text \<open>
  \<^verbatim>\<open>pcapng_write_option_string\<close>: nothing for the empty string and for a string of
  more than 65535 bytes; otherwise the option header (code and length, two bytes
  each, in host order), the string and the padding.
\<close>

definition pcapng_write_option_string ::
  "externals \<Rightarrow> wtap_dumper \<Rightarrow> guint32 \<Rightarrow> guint8 list \<Rightarrow> wtap_err + wtap_dumper" where
  "pcapng_write_option_string ext wdh option_id str =
     (let size = length str in
      if size = 0 then Inr wdh
      else if size > 65535 then Inr wdh
      else
        rbind (wtap_dump_file_write ext wdh
                 (store_host (host_be ext) 2 (ucast option_id :: guint16) @
                  store_host (host_be ext) 2 (of_nat size :: guint16))) (\<lambda>wdh.
        let wdh = wdh\<lparr>bytes_dumped := bytes_dumped wdh + 4\<rparr> in
        rbind (wtap_dump_file_write ext wdh str) (\<lambda>wdh.
        let wdh = wdh\<lparr>bytes_dumped := bytes_dumped wdh + of_nat size\<rparr>;
            pad = (if size mod 4 \<noteq> 0 then 4 - size mod 4 else 0)
        in if pad \<noteq> 0
           then rbind (wtap_dump_file_write ext wdh (replicate pad 0)) (\<lambda>wdh.
                  Inr (wdh\<lparr>bytes_dumped := bytes_dumped wdh + of_nat pad\<rparr>))
           else Inr wdh)))"

text \<open>
  \<^verbatim>\<open>write_wtap_shb_option\<close>, called for each option of the block in turn; the
  \<^verbatim>\<open>success\<close> flag of \<^verbatim>\<open>pcapng_write_block_t\<close> is the \<open>Inr\<close> of the state.
\<close>

definition write_wtap_shb_option ::
  "externals \<Rightarrow> guint32 \<Rightarrow> wtap_optval \<Rightarrow> wtap_err + wtap_dumper \<Rightarrow> wtap_err + wtap_dumper" where
  "write_wtap_shb_option ext option_id optval write_block =
     (case write_block of
        Inl e \<Rightarrow> Inl e
      | Inr wdh \<Rightarrow>
          if option_id = ucast OPT_COMMENT \<or> option_id = ucast OPT_SHB_HARDWARE \<or>
             option_id = ucast OPT_SHB_OS \<or> option_id = ucast OPT_SHB_USERAPPL
          then pcapng_write_option_string ext wdh option_id (stringval optval)
          else Inr wdh)"

text \<open>
  \<^verbatim>\<open>pcapng_write_section_header_block\<close>: the sizer runs over the options first and
  fixes \<^verbatim>\<open>block_total_length\<close>; then header, fixed part, options, end-of-options
  and trailer are written.
\<close>

definition pcapng_write_section_header_block ::
  "externals \<Rightarrow> wtap_dumper \<Rightarrow> wtap_err + wtap_dumper" where
  "pcapng_write_section_header_block ext wdh =
     (let be = host_be ext;
          wdh_shb = (case dump_shb_hdrs wdh of [] \<Rightarrow> None | b # _ \<Rightarrow> Some b);
          block_size =
            (case wdh_shb of
               None \<Rightarrow> 0
             | Some b \<Rightarrow>
                 let s = fold (\<lambda>(option_id, optval). compute_shb_option_size option_id optval)
                           (options b) (0 :: guint32)
                 in if s > 0 then s + 4 else s);
          total = (8 + 16 + 4 :: guint32) + block_size
      in
      rbind (wtap_dump_file_write ext wdh
               (store_host be 4 BLOCK_TYPE_SHB @ store_host be 4 total)) (\<lambda>wdh.
      let wdh = wdh\<lparr>bytes_dumped := bytes_dumped wdh + 8\<rparr>;
          sect_len = (case wdh_shb of None \<Rightarrow> (- 1 :: guint64)
                      | Some b \<Rightarrow> section_length (mandatory b))
      in
      rbind (wtap_dump_file_write ext wdh
               (store_host be 4 (0x1A2B3C4D :: guint32) @ store_host be 2 (1 :: guint16) @
                store_host be 2 (0 :: guint16) @ store_host be 8 sect_len)) (\<lambda>wdh.
      let wdh = wdh\<lparr>bytes_dumped := bytes_dumped wdh + 16\<rparr> in
      rbind (case wdh_shb of
               None \<Rightarrow> Inr wdh
             | Some b \<Rightarrow>
                 if block_size > 0
                 then rbind (fold (\<lambda>(option_id, optval). write_wtap_shb_option ext option_id optval)
                               (options b) (Inr wdh)) (\<lambda>wdh.
                      rbind (wtap_dump_file_write ext wdh
                               (store_host be 2 OPT_EOFOPT @ store_host be 2 (0 :: guint16))) (\<lambda>wdh.
                      Inr (wdh\<lparr>bytes_dumped := bytes_dumped wdh + 4\<rparr>)))
                 else Inr wdh) (\<lambda>wdh.
      rbind (wtap_dump_file_write ext wdh (store_host be 4 total)) (\<lambda>wdh.
      Inr (wdh\<lparr>bytes_dumped := bytes_dumped wdh + 4\<rparr>))))))"

section \<open>Sequencing and the stream: basic facts\<close>

lemma rbind_Inl [simp]: "rbind (Inl e) f = Inl e"
  by (simp add: rbind_def)

lemma rbind_Inr [simp]: "rbind (Inr x) f = f x"
  by (simp add: rbind_def)

lemma rbind_eq_Inr: "rbind m f = Inr y \<longleftrightarrow> (\<exists>x. m = Inr x \<and> f x = Inr y)"
  by (cases m) simp_all

lemma rbind_eq_Inl: "rbind m f = Inl e \<longleftrightarrow> m = Inl e \<or> (\<exists>x. m = Inr x \<and> f x = Inl e)"
  by (cases m) simp_all

lemma rbind_cong [fundef_cong]:
  "m = m' \<Longrightarrow> (\<And>x. m' = Inr x \<Longrightarrow> f x = f' x) \<Longrightarrow> rbind m f = rbind m' f'"
  by (cases m') simp_all

text \<open>
  \<open>fwd n fh fh'\<close>: \<open>fh'\<close> is the stream \<open>fh\<close> at least \<open>n\<close> bytes further on; when
  \<open>n\<close> is positive, \<open>fh\<close> was not at the end of the file.
\<close>

definition fwd :: "nat \<Rightarrow> FILE_T \<Rightarrow> FILE_T \<Rightarrow> bool" where
  "fwd n fh fh' \<longleftrightarrow>
     contents fh' = contents fh \<and> pos fh + n \<le> pos fh' \<and>
     (0 < n \<longrightarrow> pos fh < length (contents fh))"

lemma fwd_trans: "fwd n fh fh' \<Longrightarrow> fwd m fh' fh'' \<Longrightarrow> fwd (n + m) fh fh''"
  by (auto simp: fwd_def)

lemma fwd_weaken: "fwd n fh fh' \<Longrightarrow> m \<le> n \<Longrightarrow> fwd m fh fh'"
  by (auto simp: fwd_def)

lemma fwd_refl [simp]: "fwd 0 fh fh"
  by (simp add: fwd_def)

lemma wtap_read_bytes_or_eof_Inr:
  "wtap_read_bytes_or_eof fh n = Inr (bs, fh') \<longleftrightarrow>
     pos fh + n \<le> length (contents fh) \<and> bs = take n (drop (pos fh) (contents fh)) \<and>
     fh' = fh\<lparr>pos := pos fh + n\<rparr>"
  by (auto simp: wtap_read_bytes_or_eof_def)

lemma wtap_read_bytes_Inr:
  "wtap_read_bytes fh n = Inr (bs, fh') \<longleftrightarrow>
     pos fh + n \<le> length (contents fh) \<and> bs = take n (drop (pos fh) (contents fh)) \<and>
     fh' = fh\<lparr>pos := pos fh + n\<rparr>"
  by (auto simp: wtap_read_bytes_def wtap_read_bytes_or_eof_def split: sum.splits)

lemma wtap_read_bytes_Inl:
  "wtap_read_bytes fh n = Inl e \<longleftrightarrow> length (contents fh) < pos fh + n \<and> e = WTAP_ERR_SHORT_READ"
  by (auto simp: wtap_read_bytes_def wtap_read_bytes_or_eof_def split: sum.splits)

lemma wtap_read_bytes_fwd:
  "wtap_read_bytes fh n = Inr (bs, fh') \<Longrightarrow> fwd n fh fh'"
  by (auto simp: wtap_read_bytes_Inr fwd_def)

lemma wtap_read_bytes_length:
  "wtap_read_bytes fh n = Inr (bs, fh') \<Longrightarrow> length bs = n"
  by (auto simp: wtap_read_bytes_Inr)

text \<open>
  \<open>adv n fh0 m p\<close>: if the computation \<open>m\<close> succeeds, the stream \<open>p\<close> selects from
  its result is \<open>fh0\<close> at least \<open>n\<close> bytes further on. The rules below follow the
  shape of a reader, one construct at a time.
\<close>

definition adv :: "nat \<Rightarrow> FILE_T \<Rightarrow> 'e + 'a \<Rightarrow> ('a \<Rightarrow> FILE_T) \<Rightarrow> bool" where
  "adv n fh0 m p \<longleftrightarrow> (\<forall>y. m = Inr y \<longrightarrow> fwd n fh0 (p y))"

lemma advD: "adv n fh0 m p \<Longrightarrow> m = Inr y \<Longrightarrow> fwd n fh0 (p y)"
  by (simp add: adv_def)

lemma fwd_step: "fwd m fh0 fh \<Longrightarrow> fwd k fh fh' \<Longrightarrow> fwd m fh0 fh'"
  by (auto simp: fwd_def)

lemma fwd_skip: "fwd m fh0 fh \<Longrightarrow> fwd m fh0 (fh\<lparr>pos := pos fh + k\<rparr>)"
  by (auto simp: fwd_def)

lemma adv_Inl: "adv n fh0 (Inl e) p"
  by (simp add: adv_def)

lemma adv_Inr1: "fwd n fh0 fh \<Longrightarrow> adv n fh0 (Inr fh) (\<lambda>x. x)"
  by (simp add: adv_def)

lemma adv_Inr2: "fwd n fh0 fh \<Longrightarrow> adv n fh0 (Inr (a, fh)) snd"
  by (simp add: adv_def)

lemma adv_Inr3: "fwd n fh0 fh \<Longrightarrow> adv n fh0 (Inr (a, b, fh)) (\<lambda>x. snd (snd x))"
  by (simp add: adv_def)

lemma adv_Inr4: "fwd n fh0 fh \<Longrightarrow> adv n fh0 (Inr (a, b, c, fh)) (\<lambda>x. snd (snd (snd x)))"
  by (simp add: adv_def)

lemma adv_if:
  "(c \<Longrightarrow> adv n fh0 a p) \<Longrightarrow> (\<not> c \<Longrightarrow> adv n fh0 b p) \<Longrightarrow> adv n fh0 (if c then a else b) p"
  by simp

lemma adv_Let: "adv n fh0 (f x) p \<Longrightarrow> adv n fh0 (Let x f) p"
  by simp

lemma adv_case_prod: "(\<And>a b. adv n fh0 (f a b) p) \<Longrightarrow> adv n fh0 (case_prod f x) p"
  by (cases x) simp

lemma adv_case_option:
  "adv n fh0 a p \<Longrightarrow> (\<And>v. adv n fh0 (f v) p) \<Longrightarrow>
   adv n fh0 (case x of None \<Rightarrow> a | Some v \<Rightarrow> f v) p"
  by (cases x) simp_all

lemma adv_pure_bind: "(\<And>x. adv n fh0 (f x) p) \<Longrightarrow> adv n fh0 (rbind c f) p"
  by (auto simp: adv_def rbind_eq_Inr)

lemma adv_read_bind:
  "fwd m fh0 fh \<Longrightarrow> (\<And>bs fh'. fwd m fh0 fh' \<Longrightarrow> adv n fh0 (f bs fh') p) \<Longrightarrow>
   adv n fh0 (rbind (wtap_read_bytes fh k) (\<lambda>(bs, fh'). f bs fh')) p"
  by (auto simp: adv_def rbind_eq_Inr dest!: wtap_read_bytes_fwd dest: fwd_step)

lemma adv_first_read_bind:
  "(\<And>bs fh'. fwd k fh0 fh' \<Longrightarrow> adv n fh0 (f bs fh') p) \<Longrightarrow>
   adv n fh0 (rbind (wtap_read_bytes fh0 k) (\<lambda>(bs, fh'). f bs fh')) p"
  by (auto simp: adv_def rbind_eq_Inr dest!: wtap_read_bytes_fwd)

lemmas adv_basic = adv_Inl adv_Inr1 adv_Inr2 adv_Inr3 adv_Inr4 adv_if adv_Let adv_read_bind

section \<open>Reading one option, and the option loop\<close>

record pcapng_option_header_t =
  option_code :: guint16
  option_length :: guint16

text \<open>
  The option header \<open>{option_code:u16, option_length:u16}\<close> as
  \<^verbatim>\<open>pcapng_read_option\<close> leaves it: swapped when the section is byte-swapped.
\<close>

definition decode_option_header ::
  "externals \<Rightarrow> section_info_t \<Rightarrow> guint8 list \<Rightarrow> pcapng_option_header_t" where
  "decode_option_header ext section_info hdr =
     \<lparr>option_code = swap16 (byte_swapped section_info) (field16 ext hdr 0),
      option_length = swap16 (byte_swapped section_info) (field16 ext hdr 2)\<rparr>"

text \<open>
  \<^verbatim>\<open>pcapng_read_option\<close>: \<open>len\<close> is the size of the content buffer and
  \<open>to_read\<close> what is left of the block. The result is the option header (in host
  order), the option's content, the number of bytes consumed (header, content and
  padding) and the stream.
\<close>

definition pcapng_read_option ::
  "externals \<Rightarrow> FILE_T \<Rightarrow> section_info_t \<Rightarrow> guint32 \<Rightarrow> guint32 \<Rightarrow>
   wtap_err + (pcapng_option_header_t \<times> guint8 list \<times> nat \<times> FILE_T)" where
  "pcapng_read_option ext fh section_info len to_read =
     (if unat to_read < 4 then Inl WTAP_ERR_BAD_FILE
      else
        rbind (wtap_read_bytes fh 4) (\<lambda>(hdr, fh).
        let oh = decode_option_header ext section_info hdr;
            n = unat (option_length oh)
        in
        if unat to_read < 4 + n then Inl WTAP_ERR_BAD_FILE
        else if unat len < n then Inl WTAP_ERR_BAD_FILE
        else
          rbind (wtap_read_bytes fh n) (\<lambda>(content, fh).
          if n mod 4 \<noteq> 0
          then rbind (wtap_read_bytes fh (4 - n mod 4)) (\<lambda>(padding, fh).
                 Inr (oh, content, 4 + n + (4 - n mod 4), fh))
          else Inr (oh, content, 4 + n, fh))))"

lemma pcapng_read_option_adv:
  "adv 4 fh (pcapng_read_option ext fh si len to_read) (\<lambda>x. snd (snd (snd x)))"
  unfolding pcapng_read_option_def
  by (rule adv_Inl adv_Inr4 adv_if adv_Let adv_first_read_bind adv_read_bind | assumption)+

lemma pcapng_read_option_fwd:
  "pcapng_read_option ext fh si len to_read = Inr (oh, content, n, fh') \<Longrightarrow> fwd 4 fh fh'"
  by (drule advD [OF pcapng_read_option_adv]) simp

text \<open>
  The loop every block reader runs over the options of its block:
  \<^verbatim>\<open>while (to_read != 0) { read an option; to_read -= bytes_read; switch (code) ... }\<close>.
  \<open>handle\<close> is the body of the \<^verbatim>\<open>switch\<close>: from the option, what is left to read
  and the reader's state to the new state and what is then left to read (an
  end-of-options option sets it to 0).
\<close>

function read_options_loop ::
  "externals \<Rightarrow> section_info_t \<Rightarrow> guint32 \<Rightarrow>
   (pcapng_option_header_t \<Rightarrow> guint8 list \<Rightarrow> guint32 \<Rightarrow> 's \<Rightarrow> wtap_err + ('s \<times> guint32)) \<Rightarrow>
   FILE_T \<Rightarrow> guint32 \<Rightarrow> 's \<Rightarrow> wtap_err + ('s \<times> FILE_T)" where
  "read_options_loop ext section_info opt_cont_buf_len handle fh to_read st =
     (if to_read = 0 then Inr (st, fh)
      else
        rbind (pcapng_read_option ext fh section_info opt_cont_buf_len to_read)
          (\<lambda>(oh, content, bytes_read, fh').
        rbind (handle oh content (to_read - of_nat bytes_read) st) (\<lambda>(st', to_read').
        read_options_loop ext section_info opt_cont_buf_len handle fh' to_read' st')))"
  by pat_completeness auto
termination
proof (relation "measure (\<lambda>(ext, si, len, handle, fh, to_read, st). length (contents fh) - pos fh)")
  show "wf (measure (\<lambda>(ext, si, len, handle, fh, to_read, st). length (contents fh) - pos fh))"
    by simp
next
  fix ext :: externals and section_info opt_cont_buf_len
    and handle :: "pcapng_option_header_t \<Rightarrow> guint8 list \<Rightarrow> guint32 \<Rightarrow> 's \<Rightarrow> wtap_err + ('s \<times> guint32)"
    and fh to_read and st :: 's and x oh y content z bytes_read fh' xa st' to_read'
  assume "pcapng_read_option ext fh section_info opt_cont_buf_len to_read = Inr x"
    and "(oh, y) = x" and "(content, z) = y" and "(bytes_read, fh') = z"
  then have "pcapng_read_option ext fh section_info opt_cont_buf_len to_read =
      Inr (oh, content, bytes_read, fh')"
    by simp
  from pcapng_read_option_fwd [OF this]
  show "((ext, section_info, opt_cont_buf_len, handle, fh', to_read', st'),
         (ext, section_info, opt_cont_buf_len, handle, fh, to_read, st))
        \<in> measure (\<lambda>(ext, si, len, handle, fh, to_read, st). length (contents fh) - pos fh)"
    by (auto simp: fwd_def)
qed

declare read_options_loop.simps [simp del]

lemma read_options_loop_fwd:
  "read_options_loop ext si len handle fh to_read st = Inr (st', fh') \<Longrightarrow> fwd 0 fh fh'"
proof (induction ext si len handle fh to_read st rule: read_options_loop.induct)
  case (1 ext si len handle fh to_read st)
  show ?case
  proof (cases "to_read = 0")
    case True
    with "1.prems" show ?thesis
      by (simp add: read_options_loop.simps)
  next
    case False
    with "1.prems" obtain oh content bytes_read fh1 st1 to_read1
      where ro: "pcapng_read_option ext fh si len to_read = Inr (oh, content, bytes_read, fh1)"
        and h: "handle oh content (to_read - of_nat bytes_read) st = Inr (st1, to_read1)"
        and rest: "read_options_loop ext si len handle fh1 to_read1 st1 = Inr (st', fh')"
      by (subst (asm) read_options_loop.simps) (auto simp: rbind_eq_Inr)
    from "1.IH" [OF False ro refl refl refl h refl rest] have "fwd 0 fh1 fh'" .
    moreover from pcapng_read_option_fwd [OF ro] have "fwd 4 fh fh1" .
    ultimately show ?thesis
      by (auto simp: fwd_def)
  qed
qed

lemma adv_options_bind:
  "fwd m fh0 fh \<Longrightarrow> (\<And>st fh'. fwd m fh0 fh' \<Longrightarrow> adv n fh0 (f st fh') p) \<Longrightarrow>
   adv n fh0 (rbind (read_options_loop ext si len h fh to_read st0) (\<lambda>(st, fh'). f st fh')) p"
  by (auto simp: adv_def rbind_eq_Inr dest!: read_options_loop_fwd dest: fwd_step)

section \<open>Option values shared by the block readers\<close>

definition BT_INDEX_SHB :: nat where "BT_INDEX_SHB = 0"
definition BT_INDEX_IDB :: nat where "BT_INDEX_IDB = 1"
definition BT_INDEX_PBS :: nat where "BT_INDEX_PBS = 2"
definition BT_INDEX_NRB :: nat where "BT_INDEX_NRB = 3"
definition BT_INDEX_ISB :: nat where "BT_INDEX_ISB = 4"
definition BT_INDEX_EVT :: nat where "BT_INDEX_EVT = 5"
definition BT_INDEX_DSB :: nat where "BT_INDEX_DSB = 6"

definition pcapng_process_string_option ::
  "wtap_block \<Rightarrow> pcapng_option_header_t \<Rightarrow> guint8 list \<Rightarrow> guint32 \<Rightarrow> wtap_block" where
  "pcapng_process_string_option blk ohp option_content opt_cont_buf_len =
     (if option_length ohp > 0 \<and> ucast (option_length ohp) < opt_cont_buf_len
      then wtap_block_add_option blk (ucast (option_code ohp))
             (OptString (g_strndup option_content (unat (option_length ohp))))
      else blk)"

definition pcapng_process_timestamp_option ::
  "externals \<Rightarrow> wtap_block \<Rightarrow> section_info_t \<Rightarrow> pcapng_option_header_t \<Rightarrow> guint8 list \<Rightarrow>
   guint32 \<Rightarrow> wtap_block" where
  "pcapng_process_timestamp_option ext blk section_info ohp option_content opt_cont_buf_len =
     (if option_length ohp = 8 \<and> ucast (option_length ohp) < opt_cont_buf_len
      then
        let high = swap32 (byte_swapped section_info) (field32 ext option_content 0);
            low = swap32 (byte_swapped section_info) (field32 ext option_content 4);
            timestamp = push_bit 32 (ucast high :: guint64) + ucast low
        in wtap_block_add_option blk (ucast (option_code ohp)) (OptUInt64 timestamp)
      else blk)"

definition pcapng_process_uint64_option ::
  "externals \<Rightarrow> wtap_block \<Rightarrow> section_info_t \<Rightarrow> pcapng_option_header_t \<Rightarrow> guint8 list \<Rightarrow>
   guint32 \<Rightarrow> wtap_block" where
  "pcapng_process_uint64_option ext blk section_info ohp option_content opt_cont_buf_len =
     (if option_length ohp = 8 \<and> ucast (option_length ohp) < opt_cont_buf_len
      then
        let v = swap64 (byte_swapped section_info) (field64 ext option_content 0)
        in wtap_block_add_option blk (ucast (option_code ohp)) (OptUInt64 v)
      else blk)"

text \<open>
  \<^verbatim>\<open>pcap_process_unhandled_option\<close>: an option code the reader does not know goes to
  the plugin registered for it, if there is one; otherwise it is ignored.
\<close>

definition pcap_process_unhandled_option ::
  "externals \<Rightarrow> wtap_block \<Rightarrow> nat \<Rightarrow> section_info_t \<Rightarrow> pcapng_option_header_t \<Rightarrow>
   guint8 list \<Rightarrow> wtap_err + wtap_block" where
  "pcap_process_unhandled_option ext blk bt_index section_info ohp option_content =
     (case option_handlers ext bt_index (option_code ohp) of
        None \<Rightarrow> Inr blk
      | Some parser \<Rightarrow> parser blk (byte_swapped section_info) (option_length ohp) option_content)"

section \<open>The section header block\<close>

datatype block_return_val = PCAPNG_BLOCK_OK | PCAPNG_BLOCK_NOT_SHB | PCAPNG_BLOCK_ERROR

text \<open>
  The result of \<^verbatim>\<open>pcapng_read_section_header_block\<close> is \<open>Inr\<close> for
  \<^verbatim>\<open>PCAPNG_BLOCK_OK\<close>, and \<open>Inl\<close> of the return value and the error code otherwise.
  \<open>as_block_error\<close> is \<^verbatim>\<open>return PCAPNG_BLOCK_ERROR\<close> after a failed call.
\<close>

definition as_block_error :: "wtap_err + 'a \<Rightarrow> (block_return_val \<times> wtap_err) + 'a" where
  "as_block_error m = (case m of Inl e \<Rightarrow> Inl (PCAPNG_BLOCK_ERROR, e) | Inr x \<Rightarrow> Inr x)"

text \<open>The \<^verbatim>\<open>switch\<close> over the option code in the section header block's option loop.\<close>

definition shb_process_option ::
  "externals \<Rightarrow> section_info_t \<Rightarrow> guint32 \<Rightarrow> pcapng_option_header_t \<Rightarrow> guint8 list \<Rightarrow>
   guint32 \<Rightarrow> wtap_block \<Rightarrow> wtap_err + (wtap_block \<times> guint32)" where
  "shb_process_option ext section_info opt_cont_buf_len oh option_content to_read blk =
     (if option_code oh = OPT_EOFOPT then Inr (blk, 0)
      else if option_code oh = OPT_COMMENT \<or> option_code oh = OPT_SHB_HARDWARE \<or>
              option_code oh = OPT_SHB_OS \<or> option_code oh = OPT_SHB_USERAPPL
      then Inr (pcapng_process_string_option blk oh option_content opt_cont_buf_len, to_read)
      else rbind (pcap_process_unhandled_option ext blk BT_INDEX_SHB section_info oh option_content)
             (\<lambda>blk. Inr (blk, to_read)))"

text \<open>
  \<^verbatim>\<open>pcapng_read_section_header_block\<close>, after the \<^verbatim>\<open>switch\<close> on the magic number has
  fixed the byte order, the version and the block's total length: the checks of the
  length and the version, then the options.
\<close>

definition shb_after_magic ::
  "externals \<Rightarrow> FILE_T \<Rightarrow> pcapng_block_header_t \<Rightarrow> section_info_t \<Rightarrow> wtapng_block_t \<Rightarrow>
   guint8 list \<Rightarrow> bool \<Rightarrow> guint16 \<Rightarrow> guint16 \<Rightarrow>
   (block_return_val \<times> wtap_err) +
   (pcapng_block_header_t \<times> section_info_t \<times> wtapng_block_t \<times> FILE_T)" where
  "shb_after_magic ext fh bh section_info wblock shb swapped v_major v_minor =
     (if block_total_length bh < MIN_SHB_SIZE then Inl (PCAPNG_BLOCK_ERROR, WTAP_ERR_BAD_FILE)
      else if block_total_length bh > MAX_BLOCK_SIZE ext
      then Inl (PCAPNG_BLOCK_ERROR, WTAP_ERR_BAD_FILE)
      else if \<not> (v_major = 1 \<and> (v_minor = 0 \<or> v_minor = 2))
      then Inl (PCAPNG_BLOCK_ERROR, WTAP_ERR_UNSUPPORTED)
      else
        let section_info = section_info\<lparr>byte_swapped := swapped, version_major := v_major,
                                         version_minor := v_minor\<rparr>;
            blk = \<lparr>mandatory =
                     Mand_Section (swap64 (byte_swapped section_info) (field64 ext shb 8)),
                   options = []\<rparr>;
            to_read = block_total_length bh - MIN_SHB_SIZE;
            opt_cont_buf_len = to_read
        in
        if opt_cont_buf_len \<noteq> 0 \<and> alloc_fails ext (unat opt_cont_buf_len)
        then Inl (PCAPNG_BLOCK_ERROR, ENOMEM)
        else
          rbind (as_block_error
                   (read_options_loop ext section_info opt_cont_buf_len
                      (shb_process_option ext section_info opt_cont_buf_len) fh to_read blk))
            (\<lambda>(blk, fh).
          Inr (bh, section_info, wblock\<lparr>wb_block := Some blk, wb_internal := True\<rparr>, fh)))"

text \<open>
  \<^verbatim>\<open>pcapng_read_section_header_block\<close>: the fixed part
  \<open>{magic:u32, version_major:u16, version_minor:u16, section_length:u64}\<close> is read, and
  the magic number, as the host loads it, selects the byte order.
\<close>

definition pcapng_read_section_header_block ::
  "externals \<Rightarrow> FILE_T \<Rightarrow> pcapng_block_header_t \<Rightarrow> section_info_t \<Rightarrow> wtapng_block_t \<Rightarrow>
   (block_return_val \<times> wtap_err) +
   (pcapng_block_header_t \<times> section_info_t \<times> wtapng_block_t \<times> FILE_T)" where
  "pcapng_read_section_header_block ext fh bh section_info wblock =
     rbind (as_block_error (wtap_read_bytes fh 16)) (\<lambda>(shb, fh).
     let magic = field32 ext shb 0 in
     if magic = 0x1A2B3C4D
     then shb_after_magic ext fh bh section_info wblock shb False
            (field16 ext shb 4) (field16 ext shb 6)
     else if magic = 0x4D3C2B1A
     then shb_after_magic ext fh
            (bh\<lparr>block_total_length := GUINT32_SWAP_LE_BE (block_total_length bh)\<rparr>)
            section_info wblock shb True
            (GUINT16_SWAP_LE_BE (field16 ext shb 4)) (GUINT16_SWAP_LE_BE (field16 ext shb 6))
     else Inl (PCAPNG_BLOCK_NOT_SHB, WTAP_ERR_BAD_FILE))"

lemma as_block_error_Inr [simp]: "as_block_error m = Inr x \<longleftrightarrow> m = Inr x"
  by (cases m) (simp_all add: as_block_error_def)

lemma as_block_error_Inl:
  "as_block_error m = Inl r \<longleftrightarrow> (\<exists>e. m = Inl e \<and> r = (PCAPNG_BLOCK_ERROR, e))"
  by (cases m) (auto simp: as_block_error_def)

lemma shb_after_magic_fwd:
  "shb_after_magic ext fh bh si wblock shb sw vj vn = Inr (bh', si', wblock', fh') \<Longrightarrow> fwd 0 fh fh'"
  by (auto simp: shb_after_magic_def rbind_eq_Inr Let_def split: if_splits
           dest: read_options_loop_fwd)

lemma pcapng_read_section_header_block_fwd:
  assumes "pcapng_read_section_header_block ext fh bh si wblock = Inr (bh', si', wblock', fh')"
  shows "fwd 16 fh fh'"
proof -
  from assms obtain shb fh1 where r: "wtap_read_bytes fh 16 = Inr (shb, fh1)"
    and "\<exists>bh1 sw vj vn. shb_after_magic ext fh1 bh1 si wblock shb sw vj vn = Inr (bh', si', wblock', fh')"
    by (auto simp: pcapng_read_section_header_block_def rbind_eq_Inr Let_def split: if_splits)
  then have "fwd 0 fh1 fh'"
    by (auto dest: shb_after_magic_fwd)
  with wtap_read_bytes_fwd [OF r] show ?thesis
    by (auto simp: fwd_def)
qed

section \<open>The interface description block\<close>

text \<open>
  The \<^verbatim>\<open>if_tsresol\<close> option: bit 7 of the byte selects the base, the low seven bits
  are the exponent. \<open>tsresol_power\<close> is the loop
  \<^verbatim>\<open>for (i = 0; i < exponent; i++) result *= base\<close> on 64-bit values.
\<close>

primrec tsresol_power :: "guint64 \<Rightarrow> nat \<Rightarrow> guint64 \<Rightarrow> guint64" where
  "tsresol_power base 0 result = result"
| "tsresol_power base (Suc i) result = tsresol_power base i (result * base)"

definition G_MAXUINT64 :: guint64 where "G_MAXUINT64 = 0xffffffffffffffff"

definition tsresol_time_units :: "guint8 \<Rightarrow> guint64" where
  "tsresol_time_units if_tsresol =
     (let base = (if if_tsresol AND 0x80 \<noteq> 0 then 2 else 10 :: guint64);
          exponent = if_tsresol AND 0x7f
      in if (base = 2 \<and> exponent < 64) \<or> (base = 10 \<and> exponent < 20)
         then tsresol_power base (unat exponent) 1
         else G_MAXUINT64)"

definition tsresol_tsprecision :: "guint64 \<Rightarrow> wtap_tsprec" where
  "tsresol_tsprecision units =
     (if units \<ge> 1000000000 then WTAP_TSPREC_NSEC
      else if units \<ge> 1000000 then WTAP_TSPREC_USEC
      else if units \<ge> 1000 then WTAP_TSPREC_MSEC
      else if units \<ge> 100 then WTAP_TSPREC_CSEC
      else if units \<ge> 10 then WTAP_TSPREC_DSEC
      else WTAP_TSPREC_SEC)"

text \<open>
  The \<^verbatim>\<open>OPT_IDB_TSRESOL\<close> case: with a length of 1 the option sets the interface's
  time units per second and precision, and is kept as an 8-bit option; with any other
  length it is ignored.
\<close>

definition idb_tsresol_option ::
  "wtap_block \<Rightarrow> pcapng_option_header_t \<Rightarrow> guint8 list \<Rightarrow> wtap_block" where
  "idb_tsresol_option blk oh option_content =
     (if option_length oh = 1
      then
        let if_tsresol = hd option_content;
            units = tsresol_time_units if_tsresol;
            if_descr_mand = (the_if_descr (mandatory blk))\<lparr>if_time_units_per_second := units\<rparr>;
            blk = wtap_block_add_option (blk\<lparr>mandatory := Mand_If_Descr if_descr_mand\<rparr>)
                    (ucast (option_code oh)) (OptUInt8 if_tsresol);
            if_descr_mand = if_descr_mand\<lparr>if_tsprecision := tsresol_tsprecision units\<rparr>
        in blk\<lparr>mandatory := Mand_If_Descr if_descr_mand\<rparr>
      else blk)"

text \<open>
  The \<^verbatim>\<open>OPT_IDB_FILTER\<close> case: the first byte of the option says whether a libpcap
  filter string or a BPF program follows; each BPF instruction is
  \<open>{code:u16, jt:u8, jf:u8, k:u32}\<close>.
\<close>

primrec bpf_insns :: "externals \<Rightarrow> bool \<Rightarrow> nat \<Rightarrow> guint8 list \<Rightarrow> wtap_bpf_insn_t list" where
  "bpf_insns ext swapped 0 insn_in = []"
| "bpf_insns ext swapped (Suc n) insn_in =
     \<lparr>bpf_code = swap16 swapped (field16 ext insn_in 0),
      bpf_jt = insn_in ! 2, bpf_jf = insn_in ! 3,
      bpf_k = swap32 swapped (field32 ext insn_in 4)\<rparr>
     # bpf_insns ext swapped n (drop 8 insn_in)"

definition idb_filter_option ::
  "externals \<Rightarrow> section_info_t \<Rightarrow> guint32 \<Rightarrow> wtap_block \<Rightarrow> pcapng_option_header_t \<Rightarrow>
   guint8 list \<Rightarrow> wtap_block" where
  "idb_filter_option ext section_info opt_cont_buf_len blk oh option_content =
     (if option_length oh > 0 \<and> ucast (option_length oh) < opt_cont_buf_len
      then
        if hd option_content = 0
        then wtap_block_add_option blk (ucast (option_code oh))
               (OptIfFilter (If_filter_pcap
                  (g_strndup (tl option_content) (unat (option_length oh) - 1))))
        else if hd option_content = 1
        then wtap_block_add_option blk (ucast (option_code oh))
               (OptIfFilter (If_filter_bpf
                  (bpf_insns ext (byte_swapped section_info)
                     ((unat (option_length oh) - 1) div 8) (tl option_content))))
        else blk
      else blk)"

text \<open>The \<^verbatim>\<open>switch\<close> over the option code in the interface description block.\<close>

definition idb_process_option ::
  "externals \<Rightarrow> section_info_t \<Rightarrow> guint32 \<Rightarrow> pcapng_option_header_t \<Rightarrow> guint8 list \<Rightarrow>
   guint32 \<Rightarrow> wtap_block \<Rightarrow> wtap_err + (wtap_block \<times> guint32)" where
  "idb_process_option ext section_info opt_cont_buf_len oh option_content to_read blk =
     (if option_code oh = OPT_EOFOPT then Inr (blk, 0)
      else if option_code oh = OPT_COMMENT \<or> option_code oh = OPT_IDB_NAME \<or>
              option_code oh = OPT_IDB_DESCR
      then Inr (pcapng_process_string_option blk oh option_content opt_cont_buf_len, to_read)
      else if option_code oh = OPT_IDB_SPEED
      then Inr (pcapng_process_uint64_option ext blk section_info oh option_content
                  opt_cont_buf_len, to_read)
      else if option_code oh = OPT_IDB_TSRESOL
      then Inr (idb_tsresol_option blk oh option_content, to_read)
      else if option_code oh = OPT_IDB_FILTER
      then Inr (idb_filter_option ext section_info opt_cont_buf_len blk oh option_content, to_read)
      else if option_code oh = OPT_IDB_OS
      then Inr (pcapng_process_string_option blk oh option_content opt_cont_buf_len, to_read)
      else if option_code oh = OPT_IDB_FCSLEN
      then Inr (if option_length oh = 1
                then wtap_block_add_option blk (ucast (option_code oh))
                       (OptUInt8 (hd option_content))
                else blk, to_read)
      else if option_code oh = OPT_IDB_HARDWARE
      then Inr (pcapng_process_string_option blk oh option_content opt_cont_buf_len, to_read)
      else rbind (pcap_process_unhandled_option ext blk BT_INDEX_IDB section_info oh option_content)
             (\<lambda>blk. Inr (blk, to_read)))"

text \<open>
  \<^verbatim>\<open>pcapng_read_if_descr_block\<close>. The fixed part is
  \<open>{linktype:u16, reserved:u16, snaplen:u32}\<close>; the interface starts with 10^6 time
  units per second. After the options the file-wide encapsulation and time stamp
  precision of \<open>wth\<close> are brought up to date.
\<close>

definition pcapng_read_if_descr_block ::
  "externals \<Rightarrow> wtap \<Rightarrow> FILE_T \<Rightarrow> pcapng_block_header_t \<Rightarrow> section_info_t \<Rightarrow> wtapng_block_t \<Rightarrow>
   wtap_err + (wtap \<times> wtapng_block_t \<times> FILE_T)" where
  "pcapng_read_if_descr_block ext wth fh bh section_info wblock =
     (if block_total_length bh < MIN_IDB_SIZE then Inl WTAP_ERR_BAD_FILE
      else
        rbind (wtap_read_bytes fh 8) (\<lambda>(idb, fh).
        let link_type = ucast (swap16 (byte_swapped section_info) (field16 ext idb 0));
            if_descr_mand =
              \<lparr>if_wtap_encap = wtap_pcap_encap_to_wtap_encap ext link_type,
               if_time_units_per_second = 1000000,
               if_tsprecision = WTAP_TSPREC_USEC,
               if_snap_len = swap32 (byte_swapped section_info) (field32 ext idb 4),
               num_stat_entries = 0,
               interface_statistics = []\<rparr>;
            blk = \<lparr>mandatory = Mand_If_Descr if_descr_mand, options = []\<rparr>;
            to_read = block_total_length bh - MIN_IDB_SIZE;
            opt_cont_buf_len = to_read
        in
        if opt_cont_buf_len \<noteq> 0 \<and> alloc_fails ext (unat opt_cont_buf_len) then Inl ENOMEM
        else
          rbind (read_options_loop ext section_info opt_cont_buf_len
                   (idb_process_option ext section_info opt_cont_buf_len) fh to_read blk)
            (\<lambda>(blk, fh).
          let if_descr_mand = the_if_descr (mandatory blk);
              wth = wth\<lparr>file_encap :=
                      (if file_encap wth = WTAP_ENCAP_UNKNOWN then if_wtap_encap if_descr_mand
                       else if file_encap wth \<noteq> if_wtap_encap if_descr_mand
                       then WTAP_ENCAP_PER_PACKET else file_encap wth)\<rparr>;
              wth = wth\<lparr>file_tsprec :=
                      (if file_tsprec wth = WTAP_TSPREC_UNKNOWN then if_tsprecision if_descr_mand
                       else if file_tsprec wth \<noteq> if_tsprecision if_descr_mand
                       then WTAP_TSPREC_PER_PACKET else file_tsprec wth)\<rparr>
          in Inr (wth, wblock\<lparr>wb_block := Some blk, wb_internal := True\<rparr>, fh))))"

lemma pcapng_read_if_descr_block_adv:
  "adv 0 fh (pcapng_read_if_descr_block ext wth fh bh si wblock) (\<lambda>x. snd (snd x))"
  unfolding pcapng_read_if_descr_block_def
  by (rule adv_basic adv_options_bind | assumption | rule fwd_refl)+

lemma pcapng_read_if_descr_block_fwd:
  "pcapng_read_if_descr_block ext wth fh bh si wblock = Inr (wth', wblock', fh') \<Longrightarrow> fwd 0 fh fh'"
  by (drule advD [OF pcapng_read_if_descr_block_adv]) simp

section \<open>The packet blocks\<close>

text \<open>
  \<^verbatim>\<open>wtapng_packet_t\<close>: the fixed part of an enhanced packet block
  \<open>{interface_id:u32, timestamp_high:u32, timestamp_low:u32, captured_len:u32, packet_len:u32}\<close>
  or of an obsolete packet block
  \<open>{interface_id:u16, drops_count:u16, timestamp_high:u32, ...}\<close>, in host order.
\<close>

record wtapng_packet_t =
  ts_high :: guint32
  ts_low :: guint32
  cap_len :: guint32
  packet_len :: guint32
  pkt_interface_id :: guint32
  drops_count :: guint16

definition decode_epb :: "externals \<Rightarrow> bool \<Rightarrow> guint8 list \<Rightarrow> wtapng_packet_t" where
  "decode_epb ext swapped epb =
     \<lparr>ts_high = swap32 swapped (field32 ext epb 4),
      ts_low = swap32 swapped (field32 ext epb 8),
      cap_len = swap32 swapped (field32 ext epb 12),
      packet_len = swap32 swapped (field32 ext epb 16),
      pkt_interface_id = swap32 swapped (field32 ext epb 0),
      drops_count = - 1\<rparr>"

definition decode_pb :: "externals \<Rightarrow> bool \<Rightarrow> guint8 list \<Rightarrow> wtapng_packet_t" where
  "decode_pb ext swapped pb =
     \<lparr>ts_high = swap32 swapped (field32 ext pb 4),
      ts_low = swap32 swapped (field32 ext pb 8),
      cap_len = swap32 swapped (field32 ext pb 12),
      packet_len = swap32 swapped (field32 ext pb 16),
      pkt_interface_id = ucast (swap16 swapped (field16 ext pb 0)),
      drops_count = swap16 swapped (field16 ext pb 2)\<rparr>"

text \<open>\<open>pad4 n\<close>: the padding after \<open>n\<close> bytes; \<open>round4 n\<close>: \<open>n\<close> with its padding added.\<close>

definition pad4 :: "guint32 \<Rightarrow> guint32" where
  "pad4 n = (if n mod 4 \<noteq> 0 then 4 - n mod 4 else 0)"

definition round4 :: "guint32 \<Rightarrow> guint32" where
  "round4 n = (if n mod 4 \<noteq> 0 then n + 4 - n mod 4 else n)"

definition wtap_read_packet_bytes :: "FILE_T \<Rightarrow> nat \<Rightarrow> wtap_err + (guint8 list \<times> FILE_T)" where
  "wtap_read_packet_bytes fh n = wtap_read_bytes fh n"

text \<open>\<^verbatim>\<open>if (padding != 0) wtap_read_bytes(fh, NULL, padding, ...)\<close>.\<close>

definition skip_padding :: "FILE_T \<Rightarrow> nat \<Rightarrow> wtap_err + FILE_T" where
  "skip_padding fh padding =
     (if padding \<noteq> 0 then rbind (wtap_read_bytes fh padding) (\<lambda>(bs, fh). Inr fh) else Inr fh)"

text \<open>
  Modelled from the spec: \<^verbatim>\<open>PACK_FLAGS_FCS_LENGTH\<close> is a macro of \<^verbatim>\<open>wtap.h\<close>, outside
  these sources; the flags word carries the "FCS length" in bits 5 to 8 of the
  published format.
\<close>

definition PACK_FLAGS_FCS_LENGTH :: "guint32 \<Rightarrow> guint32" where
  "PACK_FLAGS_FCS_LENGTH flags = drop_bit 5 (flags AND 0x000001E0)"

text \<open>
  The two halves of the time stamp, put together and scaled: the seconds are cast
  to \<^verbatim>\<open>time_t\<close>, the nanoseconds to \<^verbatim>\<open>int\<close>; the product is a 64-bit one.
\<close>

definition packet_ts :: "wtapng_packet_t \<Rightarrow> guint64" where
  "packet_ts packet = push_bit 32 (ucast (ts_high packet)) OR ucast (ts_low packet)"

definition packet_ts_secs :: "guint64 \<Rightarrow> guint64 \<Rightarrow> 64 word" where
  "packet_ts_secs ts units = ts div units"

definition packet_ts_nsecs :: "guint64 \<Rightarrow> guint64 \<Rightarrow> 32 word" where
  "packet_ts_nsecs ts units = ucast (((ts mod units) * 1000000000) div units)"

text \<open>
  The \<^verbatim>\<open>switch\<close> over the option code in a packet block. The state of the loop is
  the record and the FCS length.
\<close>

definition pb_process_option ::
  "externals \<Rightarrow> section_info_t \<Rightarrow> guint32 \<Rightarrow> pcapng_option_header_t \<Rightarrow> guint8 list \<Rightarrow>
   guint32 \<Rightarrow> wtap_rec \<times> int \<Rightarrow> wtap_err + ((wtap_rec \<times> int) \<times> guint32)" where
  "pb_process_option ext section_info opt_cont_buf_len oh option_content to_read st =
     (let r = fst st; fcs = snd st; swapped = byte_swapped section_info in
      if option_code oh = OPT_EOFOPT then Inr (st, 0)
      else if option_code oh = OPT_COMMENT
      then (if option_length oh > 0 \<and> ucast (option_length oh) < opt_cont_buf_len
            then Inr ((r\<lparr>presence_flags := insert WTAP_HAS_COMMENTS (presence_flags r),
                          opt_comment := Some (g_strndup option_content (unat (option_length oh)))\<rparr>,
                       fcs), to_read)
            else Inr (st, to_read))
      else if option_code oh = OPT_EPB_FLAGS
      then (if option_length oh \<noteq> 4 then Inl WTAP_ERR_BAD_FILE
            else
              let flags = swap32 swapped (field32 ext option_content 0) in
              Inr ((r\<lparr>presence_flags := insert WTAP_HAS_PACK_FLAGS (presence_flags r),
                       pack_flags := flags\<rparr>,
                    if PACK_FLAGS_FCS_LENGTH flags \<noteq> 0
                    then uint (PACK_FLAGS_FCS_LENGTH flags) else fcs), to_read))
      else if option_code oh = OPT_EPB_HASH then Inr (st, to_read)
      else if option_code oh = OPT_EPB_DROPCOUNT
      then (if option_length oh \<noteq> 8 then Inl WTAP_ERR_BAD_FILE
            else Inr ((r\<lparr>presence_flags := insert WTAP_HAS_DROP_COUNT (presence_flags r),
                          drop_count := swap64 swapped (field64 ext option_content 0)\<rparr>,
                       fcs), to_read))
      else if option_code oh = OPT_EPB_PACKETID
      then (if option_length oh \<noteq> 8 then Inl WTAP_ERR_BAD_FILE
            else Inr ((r\<lparr>presence_flags := insert WTAP_HAS_PACKET_ID (presence_flags r),
                          packet_id := swap64 swapped (field64 ext option_content 0)\<rparr>,
                       fcs), to_read))
      else if option_code oh = OPT_EPB_QUEUE
      then (if option_length oh \<noteq> 4 then Inl WTAP_ERR_BAD_FILE
            else Inr ((r\<lparr>presence_flags := insert WTAP_HAS_INT_QUEUE (presence_flags r),
                          interface_queue := swap32 swapped (field32 ext option_content 0)\<rparr>,
                       fcs), to_read))
      else if option_code oh = OPT_EPB_VERDICT
      then (if option_length oh < 1 \<or>
               ((hd option_content = OPT_VERDICT_TYPE_TC \<or>
                 hd option_content = OPT_VERDICT_TYPE_XDP) \<and> option_length oh \<noteq> 9)
            then Inl WTAP_ERR_BAD_FILE
            else if hd option_content > OPT_VERDICT_TYPE_XDP then Inr (st, to_read)
            else
              let option_content_copy = take (unat (option_length oh)) option_content in
              Inr ((case packet_verdict r of
                      None \<Rightarrow> r\<lparr>presence_flags := insert WTAP_HAS_VERDICT (presence_flags r),
                                 packet_verdict := Some [option_content_copy]\<rparr>
                    | Some verdicts \<Rightarrow> r\<lparr>packet_verdict := Some (verdicts @ [option_content_copy])\<rparr>,
                    fcs), to_read))
      else Inr (st, to_read))"

text \<open>
  \<^verbatim>\<open>pcapng_read_packet_block\<close>, from the pseudo-header on: the record is filled in,
  the packet data and its padding are read, then the options.
\<close>

definition pcapng_read_packet_data ::
  "externals \<Rightarrow> FILE_T \<Rightarrow> section_info_t \<Rightarrow> wtapng_block_t \<Rightarrow> wtapng_packet_t \<Rightarrow>
   interface_info_t \<Rightarrow> guint32 \<Rightarrow> guint32 \<Rightarrow> wtap_err + (wtapng_block_t \<times> FILE_T)" where
  "pcapng_read_packet_data ext fh section_info wblock packet iface_info padding total_len =
     (let r = (wb_rec wblock)
                \<lparr>rec_type := REC_TYPE_PACKET,
                 presence_flags := {WTAP_HAS_TS, WTAP_HAS_CAP_LEN, WTAP_HAS_INTERFACE_ID},
                 interface_id := pkt_interface_id packet,
                 pkt_encap := wtap_encap iface_info,
                 rec_tsprec := tsprecision iface_info,
                 pseudo_header := Pseudo_header_zeroed\<rparr>
      in
      rbind (pcap_process_pseudo_header ext (wtap_encap iface_info) (cap_len packet)
               (drop (pos fh) (contents fh))) (\<lambda>(pseudo_header_len, phdr).
      let fh = fh\<lparr>pos := pos fh + pseudo_header_len\<rparr>;
          block_read = (20 :: guint32) + of_nat pseudo_header_len;
          ts = packet_ts packet;
          r = r\<lparr>pseudo_header := phdr,
                caplen := cap_len packet - of_nat pseudo_header_len,
                pkt_len := packet_len packet - of_nat pseudo_header_len,
                ts_secs := packet_ts_secs ts (time_units_per_second iface_info),
                ts_nsecs := packet_ts_nsecs ts (time_units_per_second iface_info)\<rparr>
      in
      rbind (wtap_read_packet_bytes fh (unat (cap_len packet - of_nat pseudo_header_len)))
        (\<lambda>(data, fh).
      let block_read = block_read + (cap_len packet - of_nat pseudo_header_len) in
      rbind (skip_padding fh (unat padding)) (\<lambda>fh.
      let block_read = (if padding \<noteq> 0 then block_read + padding else block_read);
          r = r\<lparr>opt_comment := None, drop_count := - 1, pack_flags := 0, packet_id := 0,
                interface_queue := 0, packet_verdict := None\<rparr>;
          to_read = total_len - 8 - block_read - 4;
          opt_cont_buf_len = to_read
      in
      rbind (read_options_loop ext section_info opt_cont_buf_len
               (pb_process_option ext section_info opt_cont_buf_len) fh to_read
               (r, fcslen iface_info)) (\<lambda>(st, fh).
      let post = pcap_read_post_process ext (wtap_encap iface_info) (pseudo_header (fst st)) data
                   (byte_swapped section_info) (snd st)
      in Inr (wblock\<lparr>wb_rec := (fst st)\<lparr>pseudo_header := fst post\<rparr>,
                     wb_frame_buffer := snd post,
                     wb_internal := False\<rparr>, fh))))))"

text \<open>
  \<^verbatim>\<open>pcapng_read_packet_block\<close>, for the enhanced packet block (\<open>enhanced\<close>) and the
  obsolete packet block. The fixed part of either is 20 bytes long.
\<close>

definition pcapng_read_packet_block ::
  "externals \<Rightarrow> FILE_T \<Rightarrow> pcapng_block_header_t \<Rightarrow> section_info_t \<Rightarrow> wtapng_block_t \<Rightarrow> bool \<Rightarrow>
   wtap_err + (wtapng_block_t \<times> FILE_T)" where
  "pcapng_read_packet_block ext fh bh section_info wblock enhanced =
     (let min_size = (if enhanced then MIN_EPB_SIZE else MIN_PB_SIZE) in
      if block_total_length bh < min_size then Inl WTAP_ERR_BAD_FILE
      else
        rbind (wtap_read_bytes fh 20) (\<lambda>(fixed, fh).
        let packet = (if enhanced then decode_epb ext (byte_swapped section_info) fixed
                      else decode_pb ext (byte_swapped section_info) fixed);
            padding = pad4 (cap_len packet);
            total_len = round4 (block_total_length bh)
        in
        if total_len < min_size + cap_len packet + padding then Inl WTAP_ERR_BAD_FILE
        else if length (interfaces section_info) \<le> unat (pkt_interface_id packet)
        then Inl WTAP_ERR_BAD_FILE
        else
          let iface_info = interfaces section_info ! unat (pkt_interface_id packet) in
          if cap_len packet > wtap_max_snaplen_for_encap ext (wtap_encap iface_info)
          then Inl WTAP_ERR_BAD_FILE
          else pcapng_read_packet_data ext fh section_info wblock packet iface_info padding total_len))"

text \<open>
  \<^verbatim>\<open>pcapng_read_simple_packet_block\<close>: the fixed part is \<open>{packet_len:u32}\<close>; the
  captured length is the packet length, cut to the snapshot length of the section's
  first interface unless that is 0.
\<close>

definition spb_cap_len :: "guint32 \<Rightarrow> interface_info_t \<Rightarrow> guint32" where
  "spb_cap_len spb_packet_len iface_info =
     (if spb_packet_len > snap_len iface_info \<and> snap_len iface_info \<noteq> 0
      then snap_len iface_info else spb_packet_len)"

definition pcapng_read_simple_packet_block ::
  "externals \<Rightarrow> FILE_T \<Rightarrow> pcapng_block_header_t \<Rightarrow> section_info_t \<Rightarrow> wtapng_block_t \<Rightarrow>
   wtap_err + (wtapng_block_t \<times> FILE_T)" where
  "pcapng_read_simple_packet_block ext fh bh section_info wblock =
     (if block_total_length bh < MIN_SPB_SIZE then Inl WTAP_ERR_BAD_FILE
      else
        rbind (wtap_read_bytes fh 4) (\<lambda>(spb, fh).
        if length (interfaces section_info) \<le> 0 then Inl WTAP_ERR_BAD_FILE
        else
          let iface_info = interfaces section_info ! 0;
              simple_packet_len = swap32 (byte_swapped section_info) (field32 ext spb 0);
              simple_cap_len = spb_cap_len simple_packet_len iface_info;
              padding = pad4 simple_cap_len;
              total_len = round4 (block_total_length bh)
          in
          if total_len < MIN_SPB_SIZE + simple_cap_len + padding then Inl WTAP_ERR_BAD_FILE
          else if simple_cap_len > wtap_max_snaplen_for_encap ext (wtap_encap iface_info)
          then Inl WTAP_ERR_BAD_FILE
          else
            let r = (wb_rec wblock)
                      \<lparr>rec_type := REC_TYPE_PACKET,
                       presence_flags := {WTAP_HAS_CAP_LEN, WTAP_HAS_INTERFACE_ID},
                       interface_id := 0,
                       pkt_encap := wtap_encap iface_info,
                       rec_tsprec := tsprecision iface_info,
                       ts_secs := 0, ts_nsecs := 0,
                       opt_comment := None, drop_count := 0, pack_flags := 0, packet_id := 0,
                       interface_queue := 0, packet_verdict := None,
                       pseudo_header := Pseudo_header_zeroed\<rparr>
            in
            rbind (pcap_process_pseudo_header ext (wtap_encap iface_info) simple_cap_len
                     (drop (pos fh) (contents fh))) (\<lambda>(pseudo_header_len, phdr).
            let fh = fh\<lparr>pos := pos fh + pseudo_header_len\<rparr>;
                r = r\<lparr>caplen := simple_cap_len - of_nat pseudo_header_len,
                      pkt_len := simple_packet_len - of_nat pseudo_header_len,
                      pseudo_header := Pseudo_header_zeroed\<rparr>
            in
            rbind (wtap_read_packet_bytes fh (unat simple_cap_len)) (\<lambda>(data, fh).
            rbind (skip_padding fh (unat (pad4 simple_cap_len))) (\<lambda>fh.
            let post = pcap_read_post_process ext (wtap_encap iface_info) (pseudo_header r) data
                         (byte_swapped section_info) (fcslen iface_info)
            in Inr (wblock\<lparr>wb_rec := r\<lparr>pseudo_header := fst post\<rparr>,
                           wb_frame_buffer := snd post,
                           wb_internal := False\<rparr>, fh))))))"

lemma adv_packet_bytes_bind:
  "fwd m fh0 fh \<Longrightarrow> (\<And>bs fh'. fwd m fh0 fh' \<Longrightarrow> adv n fh0 (f bs fh') p) \<Longrightarrow>
   adv n fh0 (rbind (wtap_read_packet_bytes fh k) (\<lambda>(bs, fh'). f bs fh')) p"
  unfolding wtap_read_packet_bytes_def by (rule adv_read_bind)

lemma skip_padding_fwd: "skip_padding fh k = Inr fh' \<Longrightarrow> fwd 0 fh fh'"
  by (auto simp: skip_padding_def rbind_eq_Inr split: if_splits dest!: wtap_read_bytes_fwd)
     (auto simp: fwd_def)

lemma adv_skip_bind:
  "fwd m fh0 fh \<Longrightarrow> (\<And>fh'. fwd m fh0 fh' \<Longrightarrow> adv n fh0 (f fh') p) \<Longrightarrow>
   adv n fh0 (rbind (skip_padding fh k) f) p"
  by (auto simp: adv_def rbind_eq_Inr dest!: skip_padding_fwd dest: fwd_step)

lemmas adv_more = adv_basic adv_packet_bytes_bind adv_skip_bind adv_options_bind adv_case_option
  adv_pure_bind adv_case_prod fwd_skip

lemma pcapng_read_packet_data_adv:
  "fwd m fh0 fh \<Longrightarrow>
   adv m fh0 (pcapng_read_packet_data ext fh si wblock packet iface padding total_len) snd"
  unfolding pcapng_read_packet_data_def
  by (rule adv_more | assumption)+

lemma pcapng_read_packet_block_adv:
  "adv 0 fh (pcapng_read_packet_block ext fh bh si wblock enhanced) snd"
  unfolding pcapng_read_packet_block_def
  by (rule adv_basic pcapng_read_packet_data_adv | assumption | rule fwd_refl)+

lemma pcapng_read_packet_block_fwd:
  "pcapng_read_packet_block ext fh bh si wblock enhanced = Inr (wblock', fh') \<Longrightarrow> fwd 0 fh fh'"
  by (drule advD [OF pcapng_read_packet_block_adv]) simp

lemma pcapng_read_simple_packet_block_adv:
  "adv 0 fh (pcapng_read_simple_packet_block ext fh bh si wblock) snd"
  unfolding pcapng_read_simple_packet_block_def
  by (rule adv_more | assumption | rule fwd_refl)+

lemma pcapng_read_simple_packet_block_fwd:
  "pcapng_read_simple_packet_block ext fh bh si wblock = Inr (wblock', fh') \<Longrightarrow> fwd 0 fh fh'"
  by (drule advD [OF pcapng_read_simple_packet_block_adv]) simp

section \<open>Decryption secrets, interface statistics and name resolution blocks\<close>

text \<open>
  \<^verbatim>\<open>pcapng_read_decryption_secrets_block\<close>: the fixed part
  \<open>{secrets_type:u32, secrets_len:u32}\<close>, the secrets, and whatever is left of the
  block (padding and options), which is skipped.
\<close>

definition pcapng_read_decryption_secrets_block ::
  "externals \<Rightarrow> FILE_T \<Rightarrow> pcapng_block_header_t \<Rightarrow> section_info_t \<Rightarrow> wtapng_block_t \<Rightarrow>
   wtap_err + (wtapng_block_t \<times> FILE_T)" where
  "pcapng_read_decryption_secrets_block ext fh bh section_info wblock =
     rbind (wtap_read_bytes fh 8) (\<lambda>(dsb, fh).
     let s_type = swap32 (byte_swapped section_info) (field32 ext dsb 0);
         s_len = swap32 (byte_swapped section_info) (field32 ext dsb 4)
     in
     if s_len > 1024 * 1024 * 1024 then Inl WTAP_ERR_BAD_FILE
     else
       rbind (wtap_read_bytes fh (unat s_len)) (\<lambda>(s_data, fh).
       let to_read = block_total_length bh - MIN_DSB_SIZE - s_len in
       rbind (wtap_read_bytes fh (unat to_read)) (\<lambda>(skipped, fh).
       Inr (wblock\<lparr>wb_block :=
                     Some \<lparr>mandatory = Mand_Decryption_Secrets
                                         \<lparr>secrets_type = s_type, secrets_len = s_len,
                                          secrets_data = s_data\<rparr>,
                           options = []\<rparr>,
                   wb_internal := True\<rparr>, fh))))"

lemma pcapng_read_decryption_secrets_block_adv:
  "adv 0 fh (pcapng_read_decryption_secrets_block ext fh bh si wblock) snd"
  unfolding pcapng_read_decryption_secrets_block_def
  by (rule adv_basic | assumption | rule fwd_refl)+

lemma pcapng_read_decryption_secrets_block_fwd:
  "pcapng_read_decryption_secrets_block ext fh bh si wblock = Inr (wblock', fh') \<Longrightarrow> fwd 0 fh fh'"
  by (drule advD [OF pcapng_read_decryption_secrets_block_adv]) simp

text \<open>The \<^verbatim>\<open>switch\<close> over the option code in the interface statistics block.\<close>

definition isb_process_option ::
  "externals \<Rightarrow> section_info_t \<Rightarrow> guint32 \<Rightarrow> pcapng_option_header_t \<Rightarrow> guint8 list \<Rightarrow>
   guint32 \<Rightarrow> wtap_block \<Rightarrow> wtap_err + (wtap_block \<times> guint32)" where
  "isb_process_option ext section_info opt_cont_buf_len oh option_content to_read blk =
     (if option_code oh = OPT_EOFOPT then Inr (blk, 0)
      else if option_code oh = OPT_COMMENT
      then Inr (pcapng_process_string_option blk oh option_content opt_cont_buf_len, to_read)
      else if option_code oh = OPT_ISB_STARTTIME \<or> option_code oh = OPT_ISB_ENDTIME
      then Inr (pcapng_process_timestamp_option ext blk section_info oh option_content
                  opt_cont_buf_len, to_read)
      else if option_code oh = OPT_ISB_IFRECV \<or> option_code oh = OPT_ISB_IFDROP \<or>
              option_code oh = OPT_ISB_FILTERACCEPT \<or> option_code oh = OPT_ISB_OSDROP \<or>
              option_code oh = OPT_ISB_USRDELIV
      then Inr (pcapng_process_uint64_option ext blk section_info oh option_content
                  opt_cont_buf_len, to_read)
      else rbind (pcap_process_unhandled_option ext blk BT_INDEX_ISB section_info oh option_content)
             (\<lambda>blk. Inr (blk, to_read)))"

text \<open>
  \<^verbatim>\<open>pcapng_read_interface_statistics_block\<close>: the fixed part is
  \<open>{interface_id:u32, timestamp_high:u32, timestamp_low:u32}\<close>.
\<close>

definition pcapng_read_interface_statistics_block ::
  "externals \<Rightarrow> FILE_T \<Rightarrow> pcapng_block_header_t \<Rightarrow> section_info_t \<Rightarrow> wtapng_block_t \<Rightarrow>
   wtap_err + (wtapng_block_t \<times> FILE_T)" where
  "pcapng_read_interface_statistics_block ext fh bh section_info wblock =
     (if block_total_length bh < MIN_ISB_SIZE then Inl WTAP_ERR_BAD_FILE
      else
        rbind (wtap_read_bytes fh 12) (\<lambda>(isb, fh).
        let if_stats_mand =
              \<lparr>isb_interface_id = swap32 (byte_swapped section_info) (field32 ext isb 0),
               isb_ts_high = swap32 (byte_swapped section_info) (field32 ext isb 4),
               isb_ts_low = swap32 (byte_swapped section_info) (field32 ext isb 8)\<rparr>;
            blk = \<lparr>mandatory = Mand_If_Stats if_stats_mand, options = []\<rparr>;
            to_read = block_total_length bh - (MIN_BLOCK_SIZE + 12);
            opt_cont_buf_len = to_read
        in
        if opt_cont_buf_len \<noteq> 0 \<and> alloc_fails ext (unat opt_cont_buf_len) then Inl ENOMEM
        else
          rbind (read_options_loop ext section_info opt_cont_buf_len
                   (isb_process_option ext section_info opt_cont_buf_len) fh to_read blk)
            (\<lambda>(blk, fh).
          Inr (wblock\<lparr>wb_block := Some blk, wb_internal := True\<rparr>, fh))))"

lemma pcapng_read_interface_statistics_block_adv:
  "adv 0 fh (pcapng_read_interface_statistics_block ext fh bh si wblock) snd"
  unfolding pcapng_read_interface_statistics_block_def
  by (rule adv_basic adv_options_bind | assumption | rule fwd_refl)+

lemma pcapng_read_interface_statistics_block_fwd:
  "pcapng_read_interface_statistics_block ext fh bh si wblock = Inr (wblock', fh') \<Longrightarrow>
   fwd 0 fh fh'"
  by (drule advD [OF pcapng_read_interface_statistics_block_adv]) simp

text \<open>
  The name resolution block. \<^verbatim>\<open>name_resolution_block_find_name_end\<close> scans for the
  NUL that ends a name and answers the length of the name with its NUL;
  \<open>nrb_names\<close> is the loop over the names of one record, answering the names the
  callback is called with.
\<close>

definition NRES_ENDOFRECORD :: guint16 where "NRES_ENDOFRECORD = 0"
definition NRES_IP4RECORD :: guint16 where "NRES_IP4RECORD = 1"
definition NRES_IP6RECORD :: guint16 where "NRES_IP6RECORD = 2"

definition PADDING4 :: "int \<Rightarrow> int" where
  "PADDING4 x = ((x + 3) div 4) * 4 - x"

fun name_resolution_block_find_name_end :: "guint8 list \<Rightarrow> nat \<Rightarrow> wtap_err + nat" where
  "name_resolution_block_find_name_end [] namelen = Inl WTAP_ERR_BAD_FILE"
| "name_resolution_block_find_name_end (c # p) namelen =
     (if c = 0 then Inr (namelen + 1)
      else name_resolution_block_find_name_end p (namelen + 1))"

lemma find_name_end_bounds:
  "name_resolution_block_find_name_end p k = Inr n \<Longrightarrow> k < n \<and> n \<le> k + length p"
  by (induction p k rule: name_resolution_block_find_name_end.induct) (auto split: if_splits)

function nrb_names :: "guint8 list \<Rightarrow> wtap_err + guint8 list list" where
  "nrb_names namep =
     (if namep = [] then Inr []
      else
        rbind (name_resolution_block_find_name_end namep 0) (\<lambda>namelen.
        rbind (nrb_names (drop namelen namep)) (\<lambda>names.
        Inr (take (namelen - 1) namep # names))))"
  by pat_completeness auto
termination
  by (relation "measure length") (auto dest: find_name_end_bounds)

declare nrb_names.simps [simp del]

text \<open>
  One record of a name resolution block, after its header
  \<open>{record_type:u16, record_len:u16}\<close>: the record's bytes and padding are read, and
  for an IPv4 or IPv6 record with a registered callback the names are scanned. The
  result carries the number of bytes read.
\<close>

definition nrb_read_record ::
  "pcapng_t \<Rightarrow> FILE_T \<Rightarrow> int \<Rightarrow> guint16 \<Rightarrow> guint16 \<Rightarrow> wtap_err + (pcapng_t \<times> int \<times> FILE_T)" where
  "nrb_read_record pn fh to_read record_type record_len =
     (let rl = uint record_len; padding = PADDING4 rl in
      if record_type = NRES_IP4RECORD
      then (if record_len < 4 then Inl WTAP_ERR_BAD_FILE
            else
              rbind (wtap_read_bytes fh (nat rl)) (\<lambda>(nrb_rec, fh).
              rbind (if add_new_ipv4 pn
                     then rbind (nrb_names (drop 4 nrb_rec)) (\<lambda>names.
                            Inr (pn\<lparr>names_ipv4 :=
                                      names_ipv4 pn @ map (Pair (take 4 nrb_rec)) names\<rparr>))
                     else Inr pn) (\<lambda>pn.
              rbind (wtap_read_bytes fh (nat padding)) (\<lambda>(skipped, fh).
              Inr (pn, rl + padding, fh)))))
      else if record_type = NRES_IP6RECORD
      then (if record_len < 16 then Inl WTAP_ERR_BAD_FILE
            else if to_read < rl then Inl WTAP_ERR_BAD_FILE
            else
              rbind (wtap_read_bytes fh (nat rl)) (\<lambda>(nrb_rec, fh).
              rbind (if add_new_ipv6 pn
                     then rbind (nrb_names (drop 16 nrb_rec)) (\<lambda>names.
                            Inr (pn\<lparr>names_ipv6 :=
                                      names_ipv6 pn @ map (Pair (take 16 nrb_rec)) names\<rparr>))
                     else Inr pn) (\<lambda>pn.
              rbind (wtap_read_bytes fh (nat padding)) (\<lambda>(skipped, fh).
              Inr (pn, rl + padding, fh)))))
      else
        rbind (wtap_read_bytes fh (nat (rl + padding))) (\<lambda>(skipped, fh).
        Inr (pn, rl + padding, fh)))"

lemma nrb_read_record_adv:
  "fwd m fh0 fh \<Longrightarrow>
   adv m fh0 (nrb_read_record pn fh to_read record_type record_len) (\<lambda>x. snd (snd x))"
  unfolding nrb_read_record_def
  by (rule adv_basic adv_pure_bind | assumption)+

lemma nrb_read_record_fwd:
  "nrb_read_record pn fh to_read t l = Inr (pn', n, fh') \<Longrightarrow> fwd 0 fh fh'"
  by (drule advD [OF nrb_read_record_adv [OF fwd_refl]]) simp

text \<open>
  The loop over the records, \<^verbatim>\<open>while (block_read < to_read)\<close>, left at the
  end-of-records record or when the block is used up. \<open>to_read\<close> and \<open>block_read\<close>
  are \<^verbatim>\<open>int\<close>s.
\<close>

function nrb_records ::
  "externals \<Rightarrow> section_info_t \<Rightarrow> pcapng_t \<Rightarrow> FILE_T \<Rightarrow> int \<Rightarrow> int \<Rightarrow>
   wtap_err + (pcapng_t \<times> int \<times> FILE_T)" where
  "nrb_records ext section_info pn fh to_read block_read =
     (if \<not> block_read < to_read then Inr (pn, block_read, fh)
      else if to_read - block_read < 4 then Inl WTAP_ERR_BAD_FILE
      else
        rbind (wtap_read_bytes fh 4) (\<lambda>(nrb, fh1).
        let block_read = block_read + 4;
            record_type = swap16 (byte_swapped section_info) (field16 ext nrb 0);
            record_len = swap16 (byte_swapped section_info) (field16 ext nrb 2)
        in
        if to_read - block_read < uint record_len + PADDING4 (uint record_len)
        then Inl WTAP_ERR_BAD_FILE
        else if record_type = NRES_ENDOFRECORD then Inr (pn, block_read, fh1)
        else
          rbind (nrb_read_record pn fh1 to_read record_type record_len) (\<lambda>(pn, n, fh2).
          nrb_records ext section_info pn fh2 to_read (block_read + n))))"
  by pat_completeness auto
termination
proof (relation "measure (\<lambda>(ext, si, pn, fh, to_read, block_read). length (contents fh) - pos fh)")
  show "wf (measure (\<lambda>(ext, si, pn, fh, to_read, block_read). length (contents fh) - pos fh))"
    by simp
next
  fix ext :: externals and section_info :: section_info_t and pn :: pcapng_t and fh :: FILE_T
    and to_read block_read :: int and x nrb fh1 xa xb xc xd pn' y n fh2
  assume "wtap_read_bytes fh 4 = Inr x" and "(nrb, fh1) = x"
    and "nrb_read_record pn fh1 to_read xc xd = Inr xb" and "(pn', y) = xb" and "(n, fh2) = y"
  then have "fwd 4 fh fh1" and "fwd 0 fh1 fh2"
    by (auto dest: wtap_read_bytes_fwd nrb_read_record_fwd)
  then show "((ext, section_info, pn', fh2, to_read, xa + n), ext, section_info, pn, fh, to_read, block_read)
        \<in> measure (\<lambda>(ext, si, pn, fh, to_read, block_read). length (contents fh) - pos fh)"
    by (auto simp: fwd_def)
qed

declare nrb_records.simps [simp del]

lemma nrb_records_fwd:
  "nrb_records ext si pn fh to_read block_read = Inr (pn', n, fh') \<Longrightarrow> fwd 0 fh fh'"
proof (induction ext si pn fh to_read block_read rule: nrb_records.induct)
  case (1 ext si pn fh to_read block_read)
  show ?case
  proof (cases "block_read < to_read")
    case False
    with "1.prems" show ?thesis
      by (simp add: nrb_records.simps)
  next
    case True
    show ?thesis
    proof (cases "to_read - block_read < 4")
      case small: True
      with True "1.prems" show ?thesis
        by (simp add: nrb_records.simps)
    next
      case big: False
      from "1.prems" True big obtain nrb fh1
        where r: "wtap_read_bytes fh 4 = Inr (nrb, fh1)"
        by (subst (asm) nrb_records.simps) (auto simp: rbind_eq_Inr)
      define rt where "rt = swap16 (byte_swapped si) (field16 ext nrb 0)"
      define rl where "rl = swap16 (byte_swapped si) (field16 ext nrb 2)"
      from wtap_read_bytes_fwd [OF r] have f1: "fwd 4 fh fh1" .
      from "1.prems" True big r
      have body: "\<not> to_read - (block_read + 4) < uint rl + PADDING4 (uint rl) \<and>
          (if rt = NRES_ENDOFRECORD then Inr (pn, block_read + 4, fh1)
           else rbind (nrb_read_record pn fh1 to_read rt rl) (\<lambda>(pn, n, fh2).
                  nrb_records ext si pn fh2 to_read (block_read + 4 + n))) = Inr (pn', n, fh')"
        by (subst (asm) nrb_records.simps) (auto simp: Let_def rt_def rl_def split: if_splits)
      show ?thesis
      proof (cases "rt = NRES_ENDOFRECORD")
        case True
        with body f1 show ?thesis
          by (auto simp: fwd_def)
      next
        case False
        with body obtain pn2 n2 fh2
          where rr: "nrb_read_record pn fh1 to_read rt rl = Inr (pn2, n2, fh2)"
            and rest: "nrb_records ext si pn2 fh2 to_read (block_read + 4 + n2) = Inr (pn', n, fh')"
          by (auto simp: rbind_eq_Inr)
        from body have nb: "\<not> to_read - (block_read + 4) < uint rl + PADDING4 (uint rl)"
          by simp
        from \<open>block_read < to_read\<close> have nn: "\<not> \<not> block_read < to_read"
          by simp
        have "fwd 0 fh2 fh'"
          using "1.IH" [OF nn big r refl refl refl refl
              nb [unfolded rl_def] False [unfolded rt_def] rr [unfolded rt_def rl_def] refl refl]
            rest
          by simp
        with f1 nrb_read_record_fwd [OF rr] show ?thesis
          by (auto simp: fwd_def)
      qed
    qed
  qed
qed

text \<open>The \<^verbatim>\<open>switch\<close> over the option code in the name resolution block.\<close>

definition nrb_process_option ::
  "externals \<Rightarrow> section_info_t \<Rightarrow> guint32 \<Rightarrow> pcapng_option_header_t \<Rightarrow> guint8 list \<Rightarrow>
   guint32 \<Rightarrow> wtap_block \<Rightarrow> wtap_err + (wtap_block \<times> guint32)" where
  "nrb_process_option ext section_info opt_cont_buf_len oh option_content to_read blk =
     (if option_code oh = OPT_EOFOPT then Inr (blk, 0)
      else if option_code oh = OPT_COMMENT
      then Inr (pcapng_process_string_option blk oh option_content opt_cont_buf_len, to_read)
      else rbind (pcap_process_unhandled_option ext blk BT_INDEX_NRB section_info oh option_content)
             (\<lambda>blk. Inr (blk, to_read)))"

text \<open>
  \<^verbatim>\<open>pcapng_read_name_resolution_block\<close>: the records, then the options in what
  the records left of the block.
\<close>

definition pcapng_read_name_resolution_block ::
  "externals \<Rightarrow> FILE_T \<Rightarrow> pcapng_block_header_t \<Rightarrow> pcapng_t \<Rightarrow> section_info_t \<Rightarrow>
   wtapng_block_t \<Rightarrow> wtap_err + (pcapng_t \<times> wtapng_block_t \<times> FILE_T)" where
  "pcapng_read_name_resolution_block ext fh bh pn section_info wblock =
     (if block_total_length bh < MIN_NRB_SIZE then Inl WTAP_ERR_BAD_FILE
      else
        let to_read = sint (block_total_length bh - 8 - 4);
            blk = (case wb_block wblock of
                     None \<Rightarrow> \<lparr>mandatory = Mand_Name_Resolution, options = []\<rparr>
                   | Some b \<Rightarrow> b)
        in
        rbind (nrb_records ext section_info pn fh to_read 0) (\<lambda>(pn, block_read, fh).
        let to_read = (word_of_int (to_read - block_read) :: guint32);
            opt_cont_buf_len = to_read
        in
        if opt_cont_buf_len \<noteq> 0 \<and> alloc_fails ext (unat opt_cont_buf_len) then Inl ENOMEM
        else
          rbind (read_options_loop ext section_info opt_cont_buf_len
                   (nrb_process_option ext section_info opt_cont_buf_len) fh to_read blk)
            (\<lambda>(blk, fh).
          Inr (pn, wblock\<lparr>wb_block := Some blk, wb_internal := True\<rparr>, fh))))"

lemma adv_nrb_records_bind:
  "fwd m fh0 fh \<Longrightarrow> (\<And>pn' k fh'. fwd m fh0 fh' \<Longrightarrow> adv n fh0 (f pn' k fh') p) \<Longrightarrow>
   adv n fh0 (rbind (nrb_records ext si pn fh to_read block_read) (\<lambda>(pn', k, fh'). f pn' k fh')) p"
  by (auto simp: adv_def rbind_eq_Inr dest!: nrb_records_fwd dest: fwd_step)

lemma pcapng_read_name_resolution_block_adv:
  "adv 0 fh (pcapng_read_name_resolution_block ext fh bh pn si wblock) (\<lambda>x. snd (snd x))"
  unfolding pcapng_read_name_resolution_block_def
  by (rule adv_basic adv_nrb_records_bind adv_options_bind | assumption | rule fwd_refl)+

lemma pcapng_read_name_resolution_block_fwd:
  "pcapng_read_name_resolution_block ext fh bh pn si wblock = Inr (pn', wblock', fh') \<Longrightarrow>
   fwd 0 fh fh'"
  by (drule advD [OF pcapng_read_name_resolution_block_adv]) simp

section \<open>Host event, journal and unknown blocks\<close>

lemma adv_if_read_bind:
  "fwd m fh0 fh \<Longrightarrow> (\<And>bs fh'. fwd m fh0 fh' \<Longrightarrow> adv n fh0 (f bs fh') p) \<Longrightarrow>
   adv n fh0 (rbind (if c then wtap_read_bytes fh k else Inr (d, fh)) (\<lambda>(bs, fh'). f bs fh')) p"
  by (auto simp: adv_def rbind_eq_Inr split: if_splits dest!: wtap_read_bytes_fwd dest: fwd_step)

text \<open>
  \<^verbatim>\<open>pcapng_read_sysdig_event_block\<close>: the header fields are read one by one
  (\<open>cpu_id:u16, timestamp:u64, thread_id:u64, event_len:u32, event_type:u16\<close>, and
  \<open>nparams:u32\<close> in a version 2 block); the rest of the block is the event. In a
  byte-swapped section \<^verbatim>\<open>nparams\<close> is left as it was.
\<close>

definition pcapng_read_sysdig_event_block ::
  "externals \<Rightarrow> FILE_T \<Rightarrow> pcapng_block_header_t \<Rightarrow> section_info_t \<Rightarrow> wtapng_block_t \<Rightarrow>
   wtap_err + (wtapng_block_t \<times> FILE_T)" where
  "pcapng_read_sysdig_event_block ext fh bh section_info wblock =
     (let v2 = (block_type bh = BLOCK_TYPE_SYSDIG_EVENT_V2);
          min_event_size = (if v2 then MIN_SYSDIG_EVENT_V2_SIZE else MIN_SYSDIG_EVENT_SIZE)
      in
      if block_total_length bh < min_event_size then Inl WTAP_ERR_BAD_FILE
      else
        let total_len = round4 (block_total_length bh);
            swapped = byte_swapped section_info;
            r = (wb_rec wblock)
                  \<lparr>rec_type := REC_TYPE_SYSCALL,
                   sys_record_type := block_type bh,
                   presence_flags := {WTAP_HAS_TS, WTAP_HAS_CAP_LEN},
                   rec_tsprec := WTAP_TSPREC_NSEC\<rparr>
        in
        rbind (wtap_read_bytes fh 2) (\<lambda>(b_cpu_id, fh).
        rbind (wtap_read_bytes fh 8) (\<lambda>(b_wire_ts, fh).
        rbind (wtap_read_bytes fh 8) (\<lambda>(b_thread_id, fh).
        rbind (wtap_read_bytes fh 4) (\<lambda>(b_event_len, fh).
        rbind (wtap_read_bytes fh 2) (\<lambda>(b_event_type, fh).
        rbind (if v2 then wtap_read_bytes fh 4 else Inr ([], fh)) (\<lambda>(b_nparams, fh).
        let nparams = (if v2 then field32 ext b_nparams 0 else 0);
            ts = swap64 swapped (field64 ext b_wire_ts 0);
            r = r\<lparr>sys_big_endian := (if swapped then \<not> host_be ext else host_be ext),
                  sys_cpu_id := swap16 swapped (field16 ext b_cpu_id 0),
                  sys_thread_id := swap64 swapped (field64 ext b_thread_id 0),
                  sys_event_len := swap32 swapped (field32 ext b_event_len 0),
                  sys_event_type := swap16 swapped (field16 ext b_event_type 0),
                  sys_nparams := (if swapped then sys_nparams r else nparams),
                  ts_secs := ts div 1000000000,
                  ts_nsecs := ucast (ts mod 1000000000)\<rparr>;
            block_read = total_len - min_event_size;
            r = r\<lparr>sys_event_filelen := block_read\<rparr>
        in
        rbind (wtap_read_packet_bytes fh (unat block_read)) (\<lambda>(data, fh).
        Inr (wblock\<lparr>wb_rec := r, wb_frame_buffer := data, wb_internal := False\<rparr>, fh)))))))))"

lemma pcapng_read_sysdig_event_block_adv:
  "adv 0 fh (pcapng_read_sysdig_event_block ext fh bh si wblock) snd"
  unfolding pcapng_read_sysdig_event_block_def
  by (rule adv_basic adv_if_read_bind adv_packet_bytes_bind | assumption | rule fwd_refl)+

lemma pcapng_read_sysdig_event_block_fwd:
  "pcapng_read_sysdig_event_block ext fh bh si wblock = Inr (wblock', fh') \<Longrightarrow> fwd 0 fh fh'"
  by (drule advD [OF pcapng_read_sysdig_event_block_adv]) simp

text \<open>
  The journal entry block. \<open>strstr\<close> is the C library's search: the index of the
  first occurrence of the needle. \<open>SDJ_REALTIME_TIMESTAMP\<close> is the string
  \<^verbatim>\<open>"__REALTIME_TIMESTAMP="\<close>.
\<close>

fun strstr :: "guint8 list \<Rightarrow> guint8 list \<Rightarrow> nat option" where
  "strstr [] needle = (if needle = [] then Some 0 else None)"
| "strstr (c # cs) needle =
     (if take (length needle) (c # cs) = needle then Some 0
      else map_option Suc (strstr cs needle))"

definition SDJ_REALTIME_TIMESTAMP :: "guint8 list" where
  "SDJ_REALTIME_TIMESTAMP = map (\<lambda>c. of_nat (of_char c)) ''__REALTIME_TIMESTAMP=''"

text \<open>
  \<^verbatim>\<open>pcapng_read_systemd_journal_export_block\<close>: the whole body is the entry; its
  trailing NULs are not counted, and a time stamp is taken from the entry when
  \<^verbatim>\<open>__REALTIME_TIMESTAMP=\<close> is found before its end and a number follows.
\<close>

definition pcapng_read_systemd_journal_export_block ::
  "externals \<Rightarrow> wtap \<Rightarrow> FILE_T \<Rightarrow> pcapng_block_header_t \<Rightarrow> wtapng_block_t \<Rightarrow>
   wtap_err + (wtap \<times> wtapng_block_t \<times> FILE_T)" where
  "pcapng_read_systemd_journal_export_block ext wth fh bh wblock =
     (if block_total_length bh < MIN_SYSTEMD_JOURNAL_EXPORT_BLOCK_SIZE then Inl WTAP_ERR_BAD_FILE
      else
        let total_len = round4 (block_total_length bh);
            entry_length = total_len - MIN_BLOCK_SIZE
        in
        rbind (wtap_read_packet_bytes fh (unat entry_length)) (\<lambda>(data, fh).
        let entry = rev (dropWhile (\<lambda>b. b = 0) (rev data));
            entry_length = (of_nat (length entry) :: guint32)
        in
        if entry_length < MIN_SYSTEMD_JOURNAL_EXPORT_ENTRY_SIZE then Inl WTAP_ERR_BAD_FILE
        else
          let buf_str = takeWhile (\<lambda>b. b \<noteq> 0) entry;
              rt_ts = (case strstr buf_str SDJ_REALTIME_TIMESTAMP of
                         None \<Rightarrow> None
                       | Some ts_pos \<Rightarrow>
                           if ts_pos + length SDJ_REALTIME_TIMESTAMP \<ge> length entry then None
                           else ws_strtou64 ext
                                  (drop (ts_pos + length SDJ_REALTIME_TIMESTAMP) buf_str));
              r = (wb_rec wblock)
                    \<lparr>rec_type := REC_TYPE_SYSTEMD_JOURNAL,
                     sdj_record_len := entry_length,
                     presence_flags := {WTAP_HAS_CAP_LEN}\<rparr>;
              r = (case rt_ts of
                     None \<Rightarrow> r
                   | Some t \<Rightarrow> r\<lparr>presence_flags := insert WTAP_HAS_TS (presence_flags r),
                                  rec_tsprec := WTAP_TSPREC_USEC,
                                  ts_secs := t div 1000000,
                                  ts_nsecs := ucast ((t mod 1000000) * 1000)\<rparr>);
              wth = (if file_encap wth = WTAP_ENCAP_UNKNOWN
                     then wth\<lparr>file_encap := WTAP_ENCAP_PER_PACKET\<rparr> else wth)
          in Inr (wth, wblock\<lparr>wb_rec := r, wb_frame_buffer := data, wb_internal := False\<rparr>, fh)))"

lemma pcapng_read_systemd_journal_export_block_adv:
  "adv 0 fh (pcapng_read_systemd_journal_export_block ext wth fh bh wblock) (\<lambda>x. snd (snd x))"
  unfolding pcapng_read_systemd_journal_export_block_def
  by (rule adv_basic adv_packet_bytes_bind | assumption | rule fwd_refl)+

lemma pcapng_read_systemd_journal_export_block_fwd:
  "pcapng_read_systemd_journal_export_block ext wth fh bh wblock = Inr (wth', wblock', fh') \<Longrightarrow>
   fwd 0 fh fh'"
  by (drule advD [OF pcapng_read_systemd_journal_export_block_adv]) simp

text \<open>
  \<^verbatim>\<open>pcapng_read_unknown_block\<close>: a plugin registered for the block type reads the
  body; without one the body is skipped.
\<close>

definition pcapng_read_unknown_block ::
  "externals \<Rightarrow> FILE_T \<Rightarrow> pcapng_block_header_t \<Rightarrow> section_info_t \<Rightarrow> wtapng_block_t \<Rightarrow>
   wtap_err + (wtapng_block_t \<times> FILE_T)" where
  "pcapng_read_unknown_block ext fh bh section_info wblock =
     (if block_total_length bh < MIN_BLOCK_SIZE then Inl WTAP_ERR_BAD_FILE
      else
        let total_len = round4 (block_total_length bh);
            block_read = total_len - MIN_BLOCK_SIZE
        in
        case block_handlers ext (block_type bh) of
          Some reader \<Rightarrow>
            rbind (reader fh block_read (byte_swapped section_info) wblock) (\<lambda>(wblock, consumed).
            Inr (wblock, fh\<lparr>pos := pos fh + consumed\<rparr>))
        | None \<Rightarrow>
            rbind (wtap_read_bytes fh (unat block_read)) (\<lambda>(skipped, fh).
            Inr (wblock\<lparr>wb_internal := True\<rparr>, fh)))"

lemma pcapng_read_unknown_block_adv:
  "adv 0 fh (pcapng_read_unknown_block ext fh bh si wblock) snd"
  unfolding pcapng_read_unknown_block_def
  by (rule adv_more | assumption | rule fwd_refl)+

lemma pcapng_read_unknown_block_fwd:
  "pcapng_read_unknown_block ext fh bh si wblock = Inr (wblock', fh') \<Longrightarrow> fwd 0 fh fh'"
  by (drule advD [OF pcapng_read_unknown_block_adv]) simp

section \<open>Reading one block\<close>

text \<open>
  The \<^verbatim>\<open>switch\<close> of \<^verbatim>\<open>pcapng_read_block\<close> over the type of a block that is not a
  section header block.
\<close>

definition pcapng_read_block_body ::
  "externals \<Rightarrow> wtap \<Rightarrow> FILE_T \<Rightarrow> pcapng_t \<Rightarrow> pcapng_block_header_t \<Rightarrow> section_info_t \<Rightarrow>
   wtapng_block_t \<Rightarrow> wtap_err + (wtap \<times> pcapng_t \<times> wtapng_block_t \<times> FILE_T)" where
  "pcapng_read_block_body ext wth fh pn bh section_info wblock =
     (if block_type bh = BLOCK_TYPE_IDB
      then rbind (pcapng_read_if_descr_block ext wth fh bh section_info wblock)
             (\<lambda>(wth, wblock, fh). Inr (wth, pn, wblock, fh))
      else if block_type bh = BLOCK_TYPE_PB
      then rbind (pcapng_read_packet_block ext fh bh section_info wblock False)
             (\<lambda>(wblock, fh). Inr (wth, pn, wblock, fh))
      else if block_type bh = BLOCK_TYPE_SPB
      then rbind (pcapng_read_simple_packet_block ext fh bh section_info wblock)
             (\<lambda>(wblock, fh). Inr (wth, pn, wblock, fh))
      else if block_type bh = BLOCK_TYPE_EPB
      then rbind (pcapng_read_packet_block ext fh bh section_info wblock True)
             (\<lambda>(wblock, fh). Inr (wth, pn, wblock, fh))
      else if block_type bh = BLOCK_TYPE_NRB
      then rbind (pcapng_read_name_resolution_block ext fh bh pn section_info wblock)
             (\<lambda>(pn, wblock, fh). Inr (wth, pn, wblock, fh))
      else if block_type bh = BLOCK_TYPE_ISB
      then rbind (pcapng_read_interface_statistics_block ext fh bh section_info wblock)
             (\<lambda>(wblock, fh). Inr (wth, pn, wblock, fh))
      else if block_type bh = BLOCK_TYPE_DSB
      then rbind (pcapng_read_decryption_secrets_block ext fh bh section_info wblock)
             (\<lambda>(wblock, fh). Inr (wth, pn, wblock, fh))
      else if block_type bh = BLOCK_TYPE_SYSDIG_EVENT \<or> block_type bh = BLOCK_TYPE_SYSDIG_EVENT_V2
      then rbind (pcapng_read_sysdig_event_block ext fh bh section_info wblock)
             (\<lambda>(wblock, fh). Inr (wth, pn, wblock, fh))
      else if block_type bh = BLOCK_TYPE_SYSTEMD_JOURNAL
      then rbind (pcapng_read_systemd_journal_export_block ext wth fh bh wblock)
             (\<lambda>(wth, wblock, fh). Inr (wth, pn, wblock, fh))
      else rbind (pcapng_read_unknown_block ext fh bh section_info wblock)
             (\<lambda>(wblock, fh). Inr (wth, pn, wblock, fh)))"

lemma pcapng_read_block_body_fwd:
  "pcapng_read_block_body ext wth fh pn bh si wblock = Inr (wth', pn', wblock', fh') \<Longrightarrow>
   fwd 0 fh fh'"
  unfolding pcapng_read_block_body_def
  by (auto simp: rbind_eq_Inr split: if_splits
           dest: pcapng_read_if_descr_block_fwd pcapng_read_packet_block_fwd
             pcapng_read_simple_packet_block_fwd pcapng_read_name_resolution_block_fwd
             pcapng_read_interface_statistics_block_fwd pcapng_read_decryption_secrets_block_fwd
             pcapng_read_sysdig_event_block_fwd pcapng_read_systemd_journal_export_block_fwd
             pcapng_read_unknown_block_fwd)

text \<open>
  \<^verbatim>\<open>pcapng_read_block\<close>: the block header \<open>{block_type:u32, block_total_length:u32}\<close>,
  the body, and the trailer. A section header block fixes the byte order itself and
  fills in \<open>new_section_info\<close>; every other block is read in the byte order of
  \<open>section_info\<close>, and is refused when longer than \<open>MAX_BLOCK_SIZE\<close>. The result
  also carries the block header as the body's reader left it.
\<close>

definition pcapng_read_block ::
  "externals \<Rightarrow> wtap \<Rightarrow> FILE_T \<Rightarrow> pcapng_t \<Rightarrow> section_info_t \<Rightarrow> section_info_t \<Rightarrow>
   wtapng_block_t \<Rightarrow>
   wtap_err + (wtap \<times> pcapng_t \<times> section_info_t \<times> wtapng_block_t \<times> pcapng_block_header_t \<times> FILE_T)"
  where
  "pcapng_read_block ext wth fh pn section_info new_section_info wblock =
     (let wblock = wblock\<lparr>wb_block := None\<rparr> in
      rbind (wtap_read_bytes_or_eof fh 8) (\<lambda>(hdr, fh).
      let bh = \<lparr>block_type = field32 ext hdr 0, block_total_length = field32 ext hdr 4\<rparr> in
      if block_type bh = BLOCK_TYPE_SHB
      then
        (case pcapng_read_section_header_block ext fh bh new_section_info
                (wblock\<lparr>wb_type := block_type bh\<rparr>) of
           Inl ret \<Rightarrow> Inl (snd ret)
         | Inr (bh, new_section_info, wblock, fh) \<Rightarrow>
             rbind (pcapng_read_and_check_block_trailer ext fh bh new_section_info) (\<lambda>fh.
             Inr (wth, pn, new_section_info, wblock, bh, fh)))
      else
        let bh = \<lparr>block_type = swap32 (byte_swapped section_info) (block_type bh),
                  block_total_length = swap32 (byte_swapped section_info) (block_total_length bh)\<rparr>;
            wblock = wblock\<lparr>wb_type := block_type bh\<rparr>
        in
        if block_total_length bh > MAX_BLOCK_SIZE ext then Inl WTAP_ERR_BAD_FILE
        else
          rbind (pcapng_read_block_body ext wth fh pn bh section_info wblock)
            (\<lambda>(wth, pn, wblock, fh).
          rbind (pcapng_read_and_check_block_trailer ext fh bh section_info) (\<lambda>fh.
          Inr (wth, pn, new_section_info, wblock, bh, fh)))))"

lemma pcapng_read_and_check_block_trailer_fwd:
  "pcapng_read_and_check_block_trailer ext fh bh si = Inr fh' \<Longrightarrow> fwd 4 fh fh'"
  by (auto simp: pcapng_read_and_check_block_trailer_def rbind_eq_Inr Let_def
           split: if_splits dest: wtap_read_bytes_fwd)

lemma pcapng_read_block_fwd:
  assumes "pcapng_read_block ext wth fh pn si nsi wblock = Inr (wth', pn', nsi', wblock', bh', fh')"
  shows "fwd 8 fh fh'"
proof -
  from assms obtain hdr fh1 where r: "wtap_read_bytes_or_eof fh 8 = Inr (hdr, fh1)"
    by (auto simp: pcapng_read_block_def rbind_eq_Inr Let_def)
  then have f1: "fwd 8 fh fh1"
    by (auto simp: wtap_read_bytes_or_eof_Inr fwd_def)
  from assms r have "fwd 0 fh1 fh'"
    by (auto simp: pcapng_read_block_def rbind_eq_Inr Let_def
             split: if_splits sum.splits
             dest!: pcapng_read_section_header_block_fwd pcapng_read_block_body_fwd
               pcapng_read_and_check_block_trailer_fwd)
       (auto simp: fwd_def)
  with f1 show ?thesis
    by (auto simp: fwd_def)
qed

section \<open>Opening a file and reading it sequentially\<close>

text \<open>
  Modelled from the spec: \<^verbatim>\<open>wtap_block_get_uint8_option_value\<close> belongs to the option
  store, outside these sources; it answers the 8-bit option of the given code that
  was added first.
\<close>

definition wtap_block_get_uint8_option_value :: "wtap_block \<Rightarrow> guint32 \<Rightarrow> guint8 option" where
  "wtap_block_get_uint8_option_value blk option_id =
     (case filter (\<lambda>(c, v). c = option_id \<and> (case v of OptUInt8 u \<Rightarrow> True | _ \<Rightarrow> False))
             (options blk) of
        (c, OptUInt8 u) # rest \<Rightarrow> Some u
      | _ \<Rightarrow> None)"

text \<open>
  \<^verbatim>\<open>pcapng_process_idb\<close>: the interface joins the file's list of interfaces (with
  no statistics yet) and the section's table. A block that is not an interface
  description cannot get here; the model leaves the state alone then.
\<close>

definition pcapng_process_idb ::
  "wtap \<Rightarrow> section_info_t \<Rightarrow> wtapng_block_t \<Rightarrow> wtap \<times> section_info_t" where
  "pcapng_process_idb wth section_info wblock =
     (case wb_block wblock of
        None \<Rightarrow> (wth, section_info)
      | Some blk \<Rightarrow>
          (case mandatory blk of
             Mand_If_Descr wblock_if_descr_mand \<Rightarrow>
               let int_data =
                     blk\<lparr>mandatory :=
                           Mand_If_Descr (wblock_if_descr_mand\<lparr>num_stat_entries := 0,
                                                                interface_statistics := []\<rparr>)\<rparr>;
                   wth = wth\<lparr>interface_data := interface_data wth @ [int_data]\<rparr>;
                   iface_info =
                     \<lparr>wtap_encap = if_wtap_encap wblock_if_descr_mand,
                      snap_len = if_snap_len wblock_if_descr_mand,
                      time_units_per_second = if_time_units_per_second wblock_if_descr_mand,
                      tsprecision = if_tsprecision wblock_if_descr_mand,
                      fcslen = (case wtap_block_get_uint8_option_value blk (ucast OPT_IDB_FCSLEN) of
                                  Some if_fcslen \<Rightarrow> uint if_fcslen
                                | None \<Rightarrow> - 1)\<rparr>
               in (wth, section_info\<lparr>interfaces := interfaces section_info @ [iface_info]\<rparr>)
           | _ \<Rightarrow> (wth, section_info)))"

text \<open>
  What \<^verbatim>\<open>pcapng_read\<close> does with a block that is processed internally, by the type
  of the block. \<open>data_offset\<close> is the file offset of the block.
\<close>

definition pcapng_process_isb :: "wtap \<Rightarrow> wtap_block \<Rightarrow> wtap" where
  "pcapng_process_isb wth blk =
     (case mandatory blk of
        Mand_If_Stats if_stats_mand_block \<Rightarrow>
          if length (interface_data wth) \<le> unat (isb_interface_id if_stats_mand_block) then wth
          else
            let i = unat (isb_interface_id if_stats_mand_block);
                wtapng_if_descr = interface_data wth ! i
            in (case mandatory wtapng_if_descr of
                  Mand_If_Descr wtapng_if_descr_mand \<Rightarrow>
                    let stats = (if num_stat_entries wtapng_if_descr_mand = 0 then []
                                 else interface_statistics wtapng_if_descr_mand);
                        wtapng_if_descr_mand =
                          wtapng_if_descr_mand
                            \<lparr>interface_statistics := stats @ [(if_stats_mand_block, options blk)],
                             num_stat_entries := num_stat_entries wtapng_if_descr_mand + 1\<rparr>
                    in wth\<lparr>interface_data :=
                             (interface_data wth)
                               [i := wtapng_if_descr\<lparr>mandatory := Mand_If_Descr wtapng_if_descr_mand\<rparr>]\<rparr>
                | _ \<Rightarrow> wth)
      | _ \<Rightarrow> wth)"

definition pcapng_process_internal ::
  "wtap \<Rightarrow> section_info_t \<Rightarrow> wtapng_block_t \<Rightarrow> int \<Rightarrow> wtap" where
  "pcapng_process_internal wth new_section wblock data_offset =
     (let pcapng = priv wth in
      if wb_type wblock = BLOCK_TYPE_SHB
      then wth\<lparr>shb_hdrs := shb_hdrs wth @ (case wb_block wblock of None \<Rightarrow> [] | Some b \<Rightarrow> [b]),
               priv := pcapng\<lparr>current_section_number := current_section_number pcapng + 1,
                               sections := sections pcapng @
                                 [new_section\<lparr>interfaces := [], shb_off := data_offset\<rparr>]\<rparr>\<rparr>
      else if wb_type wblock = BLOCK_TYPE_IDB
      then
        let current_section = sections pcapng ! current_section_number pcapng;
            wth_si = pcapng_process_idb wth current_section wblock
        in (fst wth_si)\<lparr>priv := pcapng\<lparr>sections :=
                            (sections pcapng)[current_section_number pcapng := snd wth_si]\<rparr>\<rparr>
      else if wb_type wblock = BLOCK_TYPE_DSB
      then wth\<lparr>dsbs := dsbs wth @ (case wb_block wblock of None \<Rightarrow> [] | Some b \<Rightarrow> [b])\<rparr>
      else if wb_type wblock = BLOCK_TYPE_NRB
      then wth\<lparr>nrb_hdrs := Some ((case nrb_hdrs wth of None \<Rightarrow> [] | Some l \<Rightarrow> l) @
                                   (case wb_block wblock of None \<Rightarrow> [] | Some b \<Rightarrow> [b]))\<rparr>
      else if wb_type wblock = BLOCK_TYPE_ISB
      then (case wb_block wblock of None \<Rightarrow> wth | Some blk \<Rightarrow> pcapng_process_isb wth blk)
      else wth)"

lemma wth_fh_pcapng_process_idb [simp]:
  "wth_fh (fst (pcapng_process_idb wth si wblock)) = wth_fh wth"
  by (simp add: pcapng_process_idb_def Let_def split: option.splits wtap_mandatory.splits)

lemma wth_fh_pcapng_process_isb [simp]: "wth_fh (pcapng_process_isb wth blk) = wth_fh wth"
  by (simp add: pcapng_process_isb_def Let_def split: wtap_mandatory.splits)

lemma wth_fh_pcapng_process_internal [simp]:
  "wth_fh (pcapng_process_internal wth ns wblock off) = wth_fh wth"
  by (simp add: pcapng_process_internal_def Let_def split: option.splits)

text \<open>
  The loop of \<^verbatim>\<open>pcapng_read\<close>: blocks are read until one is to be handed to the
  caller. \<open>new_section\<close> and \<open>wblock\<close> are the local variables of the same names.
  The result is the file state, the block read and the offset of that block.
\<close>

function pcapng_read_loop ::
  "externals \<Rightarrow> wtap \<Rightarrow> section_info_t \<Rightarrow> wtapng_block_t \<Rightarrow> wtap_err + (wtap \<times> wtapng_block_t \<times> int)"
  where
  "pcapng_read_loop ext wth new_section wblock =
     (let data_offset = int (pos (wth_fh wth));
          pcapng = priv wth;
          current_section = sections pcapng ! current_section_number pcapng
      in
      rbind (pcapng_read_block ext wth (wth_fh wth) pcapng current_section new_section wblock)
        (\<lambda>(wth1, pn1, new_section1, wblock1, bh1, fh1).
      let wth2 = wth1\<lparr>wth_fh := fh1, priv := pn1\<rparr> in
      if \<not> wb_internal wblock1 then Inr (wth2, wblock1, data_offset)
      else pcapng_read_loop ext (pcapng_process_internal wth2 new_section1 wblock1 data_offset)
             new_section1 wblock1))"
  by pat_completeness auto
termination
proof (relation "measure (\<lambda>(ext, wth, ns, wblock). length (contents (wth_fh wth)) - pos (wth_fh wth))")
  show "wf (measure (\<lambda>(ext, wth, ns, wblock). length (contents (wth_fh wth)) - pos (wth_fh wth)))"
    by simp
next
  fix ext :: externals and wth :: wtap and new_section :: section_info_t
    and wblock :: wtapng_block_t and x xa xb xc wth1 y pn1 ya new_section1 yb wblock1 yc bh1 fh1 xd
  assume "pcapng_read_block ext wth (wth_fh wth) xb xc new_section wblock = Inr xa"
    and "(wth1, y) = xa" and "(pn1, ya) = y" and "(new_section1, yb) = ya"
    and "(wblock1, yc) = yb" and "(bh1, fh1) = yc"
    and xd: "xd = wth1\<lparr>wth_fh := fh1, priv := pn1\<rparr>"
  then have "pcapng_read_block ext wth (wth_fh wth) xb xc new_section wblock =
      Inr (wth1, pn1, new_section1, wblock1, bh1, fh1)"
    by simp
  from pcapng_read_block_fwd [OF this] xd
  show "((ext, pcapng_process_internal xd new_section1 wblock1 x, new_section1, wblock1),
         ext, wth, new_section, wblock)
        \<in> measure (\<lambda>(ext, wth, ns, wblock). length (contents (wth_fh wth)) - pos (wth_fh wth))"
    by (auto simp: fwd_def)
qed

declare pcapng_read_loop.simps [simp del]

text \<open>
  \<^verbatim>\<open>pcapng_read\<close>: the caller's record and buffer are put into \<open>wblock\<close>, the
  callbacks are copied to the private state, and the loop runs. \<open>new_section\<close> and
  \<open>wblock\<close> stand for the uninitialised local variables.
\<close>

definition pcapng_read ::
  "externals \<Rightarrow> wtap \<Rightarrow> wtap_rec \<Rightarrow> guint8 list \<Rightarrow> section_info_t \<Rightarrow> wtapng_block_t \<Rightarrow>
   wtap_err + (wtap \<times> wtapng_block_t \<times> int)" where
  "pcapng_read ext wth r buf new_section wblock =
     pcapng_read_loop ext
       (wth\<lparr>priv := (priv wth)\<lparr>add_new_ipv4 := wth_add_new_ipv4 wth,
                                add_new_ipv6 := wth_add_new_ipv6 wth\<rparr>\<rparr>)
       new_section (wblock\<lparr>wb_frame_buffer := buf, wb_rec := r\<rparr>)"

text \<open>
  \<^verbatim>\<open>pcapng_open\<close>. The result is the return value, the error code and the file
  state. Where a read has failed, the position of the stream is not known to this
  model, and the state is \<open>None\<close>; where the first block is not a section header
  block, its eight bytes of header have been consumed. \<open>pcapng_open_idbs\<close> is the
  loop over the interface description blocks that follow the first section header
  block: the next block header is read and the stream put back, and the block is
  read when it is an interface description.
\<close>

datatype wtap_open_return_val = WTAP_OPEN_NOT_MINE | WTAP_OPEN_MINE | WTAP_OPEN_ERROR

function pcapng_open_idbs ::
  "externals \<Rightarrow> wtap \<Rightarrow> section_info_t \<Rightarrow> wtapng_block_t \<Rightarrow>
   wtap_open_return_val \<times> wtap_err \<times> wtap option"
  where
  "pcapng_open_idbs ext wth new_section wblock =
     (case wtap_read_bytes_or_eof (wth_fh wth) 8 of
        Inl e \<Rightarrow>
          if e = ERR_NONE then (WTAP_OPEN_MINE, ERR_NONE, Some wth) else (WTAP_OPEN_ERROR, e, None)
      | Inr peeked \<Rightarrow>
          let pcapng = priv wth;
              current_section = sections pcapng ! current_section_number pcapng;
              peeked_type = swap32 (byte_swapped current_section) (field32 ext (fst peeked) 0)
          in
          if peeked_type \<noteq> BLOCK_TYPE_IDB then (WTAP_OPEN_MINE, ERR_NONE, Some wth)
          else
            (case pcapng_read_block ext wth (wth_fh wth) pcapng current_section new_section wblock of
               Inl e \<Rightarrow>
                 if e = ERR_NONE then (WTAP_OPEN_MINE, ERR_NONE, None)
                 else (WTAP_OPEN_ERROR, e, None)
             | Inr (wth1, pn1, new_section1, wblock1, bh1, fh1) \<Rightarrow>
                 let wth_si = pcapng_process_idb wth1 current_section wblock1;
                     wth2 = (fst wth_si)
                              \<lparr>wth_fh := fh1,
                               priv := pn1\<lparr>sections :=
                                 (sections pn1)[current_section_number pn1 := snd wth_si]\<rparr>\<rparr>
                 in pcapng_open_idbs ext wth2 new_section1 wblock1))"
  by pat_completeness auto
termination
proof (relation "measure (\<lambda>(ext, wth, ns, wblock). length (contents (wth_fh wth)) - pos (wth_fh wth))")
  show "wf (measure (\<lambda>(ext, wth, ns, wblock). length (contents (wth_fh wth)) - pos (wth_fh wth)))"
    by simp
next
  fix ext :: externals and wth :: wtap and new_section :: section_info_t
    and wblock :: wtapng_block_t and x xa xc wth1 y pn1 ya new_section1 yb wblock1 yc bh1 fh1
    and xd :: "wtap \<times> section_info_t" and xe :: wtap
  assume "pcapng_read_block ext wth (wth_fh wth) x xa new_section wblock = Inr xc"
    and "(wth1, y) = xc" and "(pn1, ya) = y" and "(new_section1, yb) = ya"
    and "(wblock1, yc) = yb" and "(bh1, fh1) = yc"
    and xe: "xe = (fst xd)\<lparr>wth_fh := fh1, priv := pn1\<lparr>sections := (sections pn1)[current_section_number pn1 := snd xd]\<rparr>\<rparr>"
  then have "pcapng_read_block ext wth (wth_fh wth) x xa new_section wblock =
      Inr (wth1, pn1, new_section1, wblock1, bh1, fh1)"
    by simp
  from pcapng_read_block_fwd [OF this] xe
  show "((ext, xe, new_section1, wblock1), ext, wth, new_section, wblock)
        \<in> measure (\<lambda>(ext, wth, ns, wblock). length (contents (wth_fh wth)) - pos (wth_fh wth))"
    by (auto simp: fwd_def)
qed

declare pcapng_open_idbs.simps [simp del]

definition pcapng_open ::
  "externals \<Rightarrow> wtap \<Rightarrow> section_info_t \<Rightarrow> section_info_t \<Rightarrow> wtapng_block_t \<Rightarrow>
   wtap_open_return_val \<times> wtap_err \<times> wtap option" where
  "pcapng_open ext wth first_section new_section wblock =
     (case wtap_read_bytes_or_eof (wth_fh wth) 8 of
        Inl e \<Rightarrow>
          if e = ERR_NONE \<or> e = WTAP_ERR_SHORT_READ then (WTAP_OPEN_NOT_MINE, ERR_NONE, None)
          else (WTAP_OPEN_ERROR, e, None)
      | Inr (hdr, fh) \<Rightarrow>
          let bh = \<lparr>block_type = field32 ext hdr 0, block_total_length = field32 ext hdr 4\<rparr> in
          if block_type bh \<noteq> BLOCK_TYPE_SHB
          then (WTAP_OPEN_NOT_MINE, ERR_NONE, Some (wth\<lparr>wth_fh := fh\<rparr>))
          else
            (case pcapng_read_section_header_block ext fh bh first_section
                    (wblock\<lparr>wb_type := block_type bh, wb_block := None\<rparr>) of
               Inl ret \<Rightarrow>
                 if fst ret = PCAPNG_BLOCK_NOT_SHB then (WTAP_OPEN_NOT_MINE, ERR_NONE, None)
                 else if snd ret = WTAP_ERR_SHORT_READ then (WTAP_OPEN_NOT_MINE, ERR_NONE, None)
                 else (WTAP_OPEN_ERROR, snd ret, None)
             | Inr (bh, first_section, wblock, fh) \<Rightarrow>
                 (case pcapng_read_and_check_block_trailer ext fh bh first_section of
                    Inl e \<Rightarrow> (WTAP_OPEN_ERROR, e, None)
                  | Inr fh \<Rightarrow>
                      let wth = wth
                            \<lparr>wth_fh := fh,
                             shb_hdrs := (case wb_block wblock of
                                            None \<Rightarrow> shb_hdrs wth
                                          | Some b \<Rightarrow> (shb_hdrs wth)[0 := b]),
                             file_encap := WTAP_ENCAP_UNKNOWN,
                             snapshot_length := 0,
                             file_tsprec := WTAP_TSPREC_UNKNOWN,
                             dsbs := [],
                             priv := \<lparr>current_section_number = 0,
                                      sections = [first_section\<lparr>interfaces := [], shb_off := 0\<rparr>],
                                      add_new_ipv4 = False, add_new_ipv6 = False,
                                      names_ipv4 = [], names_ipv6 = []\<rparr>\<rparr>
                      in pcapng_open_idbs ext wth new_section (wblock\<lparr>wb_block := None\<rparr>))))"

section \<open>A sample environment\<close>

text \<open>
  The concrete runs below use a little-endian host without plugins, on which no
  allocation and no write fails, link-layer types have no pseudo-header, and the
  largest packet is 128 MiB.
\<close>

definition sample_ext :: externals where
  "sample_ext =
     \<lparr>host_be = False,
      dump_fails = (\<lambda>off n. False),
      alloc_fails = (\<lambda>n. False),
      max_packet_size_dbus = 134217728,
      wtap_pcap_encap_to_wtap_encap = (\<lambda>l. WTAP_ENCAP (uint l)),
      wtap_max_snaplen_for_encap = (\<lambda>e. 262144),
      pcap_process_pseudo_header = (\<lambda>e c bytes. Inr (0, Pseudo_header_zeroed)),
      pcap_read_post_process = (\<lambda>e ph d sw fcs. (ph, d)),
      ws_strtou64 = (\<lambda>s. None),
      block_handlers = (\<lambda>t. None),
      option_handlers = (\<lambda>i c. None)\<rparr>"

text \<open>
  A record and a block with nothing in them, an interface with the given time units
  per second, a section in host byte order with the given interfaces, and a file
  with the given bytes, opened at its start.
\<close>

definition sample_rec :: wtap_rec where
  "sample_rec =
     \<lparr>rec_type = REC_TYPE_UNSET, presence_flags = {}, ts_secs = 0, ts_nsecs = 0,
      rec_tsprec = WTAP_TSPREC_UNKNOWN, opt_comment = None, packet_verdict = None,
      caplen = 0, pkt_len = 0, pkt_encap = WTAP_ENCAP_UNKNOWN, interface_id = 0,
      drop_count = 0, pack_flags = 0, interface_queue = 0, packet_id = 0,
      pseudo_header = Pseudo_header_zeroed, sys_record_type = 0, sys_big_endian = False,
      sys_cpu_id = 0, sys_thread_id = 0, sys_event_len = 0, sys_event_filelen = 0,
      sys_event_type = 0, sys_nparams = 0, sdj_record_len = 0\<rparr>"

definition sample_wblock :: wtapng_block_t where
  "sample_wblock =
     \<lparr>wb_type = 0, wb_internal = False, wb_block = None, wb_rec = sample_rec,
      wb_frame_buffer = []\<rparr>"

definition sample_iface :: "guint64 \<Rightarrow> interface_info_t" where
  "sample_iface units =
     \<lparr>wtap_encap = WTAP_ENCAP 1, snap_len = 65535, time_units_per_second = units,
      tsprecision = WTAP_TSPREC_USEC, fcslen = - 1\<rparr>"

definition sample_section :: "interface_info_t list \<Rightarrow> section_info_t" where
  "sample_section ifaces =
     \<lparr>byte_swapped = False, version_major = 1, version_minor = 0, interfaces = ifaces,
      shb_off = 0\<rparr>"

definition sample_pn :: "interface_info_t list \<Rightarrow> pcapng_t" where
  "sample_pn ifaces =
     \<lparr>current_section_number = 0, sections = [sample_section ifaces], add_new_ipv4 = False,
      add_new_ipv6 = False, names_ipv4 = [], names_ipv6 = []\<rparr>"

definition sample_wth :: "guint8 list \<Rightarrow> interface_info_t list \<Rightarrow> wtap" where
  "sample_wth bytes ifaces =
     \<lparr>wth_fh = \<lparr>contents = bytes, pos = 0\<rparr>, file_encap = WTAP_ENCAP_UNKNOWN,
      file_tsprec = WTAP_TSPREC_UNKNOWN, snapshot_length = 0, interface_data = [],
      shb_hdrs = [], nrb_hdrs = None, dsbs = [], wth_add_new_ipv4 = False,
      wth_add_new_ipv6 = False, priv = sample_pn ifaces\<rparr>"

definition fh_at :: "guint8 list \<Rightarrow> nat \<Rightarrow> FILE_T" where
  "fh_at bytes n = \<lparr>contents = bytes, pos = n\<rparr>"

text \<open>
  An unknown block of type \<open>0x80000001\<close> with four bytes of body, in a little-endian
  file, and a section header block of version 2.0.
\<close>

definition unknown_block :: "guint8 list" where
  "unknown_block = [0x01, 0, 0, 0x80,  16, 0, 0, 0,  0xAA, 0xBB, 0xCC, 0xDD,  16, 0, 0, 0]"

definition shb_version_2_0 :: "guint8 list" where
  "shb_version_2_0 =
     [0x0A, 0x0D, 0x0D, 0x0A,  28, 0, 0, 0,  0x4D, 0x3C, 0x2B, 0x1A,  2, 0,  0, 0,
      0xFF, 0xFF, 0xFF, 0xFF, 0xFF, 0xFF, 0xFF, 0xFF,  28, 0, 0, 0]"

text \<open>
  Three files that start with the type of a section header block: one written in the
  host's byte order, one in the other byte order, and one without the byte-order magic.
\<close>

definition shb_native :: "guint8 list" where
  "shb_native =
     [0x0A, 0x0D, 0x0D, 0x0A,  28, 0, 0, 0,  0x4D, 0x3C, 0x2B, 0x1A,  1, 0,  0, 0,
      0xFF, 0xFF, 0xFF, 0xFF, 0xFF, 0xFF, 0xFF, 0xFF,  28, 0, 0, 0]"

definition shb_swapped :: "guint8 list" where
  "shb_swapped =
     [0x0A, 0x0D, 0x0D, 0x0A,  0, 0, 0, 28,  0x1A, 0x2B, 0x3C, 0x4D,  0, 1,  0, 0,
      0xFF, 0xFF, 0xFF, 0xFF, 0xFF, 0xFF, 0xFF, 0xFF,  0, 0, 0, 28]"

definition shb_no_magic :: "guint8 list" where
  "shb_no_magic =
     [0x0A, 0x0D, 0x0D, 0x0A,  28, 0, 0, 0,  0x61, 0x62, 0x63, 0x64,  1, 0,  0, 0,
      0xFF, 0xFF, 0xFF, 0xFF, 0xFF, 0xFF, 0xFF, 0xFF,  28, 0, 0, 0]"

text \<open>
  The header of an \<^verbatim>\<open>if_tsresol\<close> option of length 1, and the block of an interface
  description as it is before its options are read.
\<close>

definition tsresol_option :: pcapng_option_header_t where
  "tsresol_option = \<lparr>option_code = OPT_IDB_TSRESOL, option_length = 1\<rparr>"

definition sample_idb :: wtap_block where
  "sample_idb =
     \<lparr>mandatory = Mand_If_Descr
        \<lparr>if_wtap_encap = WTAP_ENCAP 1, if_time_units_per_second = 1000000,
         if_tsprecision = WTAP_TSPREC_USEC, if_snap_len = 65535, num_stat_entries = 0,
         interface_statistics = []\<rparr>,
      options = []\<rparr>"

text \<open>A dumper that has written nothing yet, with one section header block whose only
  option is the comment \<open>comment\<close>.\<close>

definition sample_wdh :: "guint8 list \<Rightarrow> wtap_dumper" where
  "sample_wdh comment =
     \<lparr>dumped = [], bytes_dumped = 0,
      dump_shb_hdrs = [\<lparr>mandatory = Mand_Section 0xFFFFFFFFFFFFFFFF,
                        options = [(ucast OPT_COMMENT, OptString comment)]\<rparr>]\<rparr>"

section \<open>The write path: what the sizer counts and what the writer emits\<close>

lemma store_le_length [simp]: "length (store_le n w) = n"
  by (induction n arbitrary: w) simp_all

lemma store_le_numeral [simp]:
  "store_le (numeral n) w = ucast w # store_le (pred_numeral n) (drop_bit 8 w)"
  by (simp add: numeral_eq_Suc)

lemma store_host_length [simp]: "length (store_host be n w) = n"
  by (simp add: store_host_def)

lemma ucast_OPT_COMMENT [simp]: "(ucast OPT_COMMENT :: guint32) = 1"
  by (simp add: OPT_COMMENT_def)

lemma pcapng_write_option_string_too_long:
  "65535 < length str \<Longrightarrow> pcapng_write_option_string ext wdh option_id str = Inr wdh"
  by (simp add: pcapng_write_option_string_def Let_def)

lemma compute_shb_option_size_65537:
  assumes "length str = 65537"
  shows "compute_shb_option_size 1 (OptString str) 0 = 8"
  using assms
  by (simp add: compute_shb_option_size_def pcapng_compute_option_string_size_def Let_def)

lemma pcapng_write_section_header_block_65537:
  assumes "length str = 65537"
  shows "pcapng_write_section_header_block sample_ext (sample_wdh str) =
     Inr \<lparr>dumped = [0x0A, 0x0D, 0x0D, 0x0A, 40, 0, 0, 0,
                     0x4D, 0x3C, 0x2B, 0x1A, 1, 0, 0, 0,
                     0xFF, 0xFF, 0xFF, 0xFF, 0xFF, 0xFF, 0xFF, 0xFF,
                     0, 0, 0, 0, 40, 0, 0, 0],
          bytes_dumped = 32,
          dump_shb_hdrs = dump_shb_hdrs (sample_wdh str)\<rparr>"
  using assms
  by (simp add: pcapng_write_section_header_block_def sample_wdh_def sample_ext_def Let_def
      compute_shb_option_size_65537 wtap_dump_file_write_def write_wtap_shb_option_def
      pcapng_write_option_string_too_long store_host_def BLOCK_TYPE_SHB_def OPT_EOFOPT_def)

text \<open>
  C9. A string option of 65537 bytes: the option writer emits nothing and reports
  success, but the sizer, which masks the length to 16 bits, counts 8 bytes for it
  (the one byte left by the mask, its padding and an option header). The section
  header block written with such a comment announces a total length of 40 in its
  header and trailer and is 32 bytes long: the total written is not the framed
  length.
\<close>

theorem C9_sizer_counts_dropped_string:
  assumes "length str = 65537"
  shows "pcapng_write_option_string ext wdh (ucast OPT_COMMENT) str = Inr wdh \<and>
         compute_shb_option_size (ucast OPT_COMMENT) (OptString str) 0 = 8 \<and>
         pcapng_write_section_header_block sample_ext (sample_wdh str) =
           Inr \<lparr>dumped = [0x0A, 0x0D, 0x0D, 0x0A, 40, 0, 0, 0,
                           0x4D, 0x3C, 0x2B, 0x1A, 1, 0, 0, 0,
                           0xFF, 0xFF, 0xFF, 0xFF, 0xFF, 0xFF, 0xFF, 0xFF,
                           0, 0, 0, 0, 40, 0, 0, 0],
                bytes_dumped = 32,
                dump_shb_hdrs = dump_shb_hdrs (sample_wdh str)\<rparr>"
  using assms
  by (simp add: pcapng_write_option_string_too_long compute_shb_option_size_65537
      pcapng_write_section_header_block_65537)

theorem C9_sizer_counts_dropped_string_witness:
  "length (replicate 65537 (0x41 :: guint8)) = 65537 \<and>
   pcapng_write_option_string sample_ext (sample_wdh []) (ucast OPT_COMMENT)
     (replicate 65537 0x41) = Inr (sample_wdh []) \<and>
   compute_shb_option_size (ucast OPT_COMMENT) (OptString (replicate 65537 0x41)) 0 = 8"
  using C9_sizer_counts_dropped_string [of "replicate 65537 0x41" sample_ext "sample_wdh []"]
  by simp

text \<open>
  Two byte-swapped sections for the concrete runs, without interfaces and with one
  interface of 10^6 time units per second.
\<close>

definition swapped_section :: section_info_t where
  "swapped_section = (sample_section [])\<lparr>byte_swapped := True\<rparr>"

definition swapped_section_1 :: section_info_t where
  "swapped_section_1 = (sample_section [sample_iface 1000000])\<lparr>byte_swapped := True\<rparr>"

section \<open>Facts about the section header block, the trailer and the block reader\<close>

lemma shb_after_magic_Inr:
  assumes "shb_after_magic ext fh bh si wblock shb sw vj vn = Inr (bh', si', wblock', fh')"
  shows "bh' = bh \<and> byte_swapped si' = sw \<and> version_major si' = vj \<and> version_minor si' = vn \<and>
         vj = 1 \<and> (vn = 0 \<or> vn = 2) \<and>
         MIN_SHB_SIZE \<le> block_total_length bh \<and> block_total_length bh \<le> MAX_BLOCK_SIZE ext"
  using assms
  by (auto simp: shb_after_magic_def rbind_eq_Inr Let_def split: if_splits)

lemma pcapng_read_section_header_block_body:
  assumes "wtap_read_bytes fh 16 = Inr (shb, fh1)"
  shows "pcapng_read_section_header_block ext fh bh si wblock =
     (if field32 ext shb 0 = 0x1A2B3C4D
      then shb_after_magic ext fh1 bh si wblock shb False (field16 ext shb 4) (field16 ext shb 6)
      else if field32 ext shb 0 = 0x4D3C2B1A
      then shb_after_magic ext fh1
             (bh\<lparr>block_total_length := GUINT32_SWAP_LE_BE (block_total_length bh)\<rparr>)
             si wblock shb True
             (GUINT16_SWAP_LE_BE (field16 ext shb 4)) (GUINT16_SWAP_LE_BE (field16 ext shb 6))
      else Inl (PCAPNG_BLOCK_NOT_SHB, WTAP_ERR_BAD_FILE))"
  using assms
  by (simp add: pcapng_read_section_header_block_def as_block_error_def Let_def)

lemma pcapng_read_section_header_block_Inr:
  assumes "pcapng_read_section_header_block ext fh bh si wblock = Inr (bh', si', wblock', fh')"
  shows "\<exists>shb fh1. wtap_read_bytes fh 16 = Inr (shb, fh1) \<and>
           (field32 ext shb 0 = 0x1A2B3C4D \<or> field32 ext shb 0 = 0x4D3C2B1A) \<and>
           byte_swapped si' = (field32 ext shb 0 = 0x4D3C2B1A) \<and>
           block_total_length bh' = swap32 (byte_swapped si') (block_total_length bh) \<and>
           block_type bh' = block_type bh"
proof -
  from assms obtain shb fh1 where r: "wtap_read_bytes fh 16 = Inr (shb, fh1)"
    by (auto simp: pcapng_read_section_header_block_def rbind_eq_Inr)
  from assms show ?thesis
    unfolding pcapng_read_section_header_block_body [OF r]
    by (auto simp: r swap32_def split: if_splits dest!: shb_after_magic_Inr)
qed

lemma trailer_result:
  assumes "wtap_read_bytes fh 4 = Inr (bytes, fh1)"
  shows "pcapng_read_and_check_block_trailer ext fh bh si =
           (if swap32 (byte_swapped si) (field32 ext bytes 0) = block_total_length bh
            then Inr fh1 else Inl WTAP_ERR_BAD_FILE)"
  using assms
  by (simp add: pcapng_read_and_check_block_trailer_def Let_def)

lemma trailer_Inr:
  assumes "pcapng_read_and_check_block_trailer ext fh bh si = Inr fh'"
  shows "pos fh' = pos fh + 4 \<and> contents fh' = contents fh \<and>
         swap32 (byte_swapped si) (field32 ext (take 4 (drop (pos fh) (contents fh))) 0) =
           block_total_length bh"
  using assms
  by (auto simp: pcapng_read_and_check_block_trailer_def rbind_eq_Inr Let_def wtap_read_bytes_Inr
           split: if_splits)

lemma fwd_contents: "fwd n fh fh' \<Longrightarrow> contents fh' = contents fh"
  by (simp add: fwd_def)

lemma pcapng_read_block_trailer:
  assumes rb: "pcapng_read_block ext wth fh pn si nsi wblock = Inr (wth', pn', nsi', wblock', bh', fh')"
  defines "hdr \<equiv> take 8 (drop (pos fh) (contents fh))"
  defines "trailer \<equiv> take 4 (drop (pos fh' - 4) (contents fh))"
  defines "sw \<equiv> byte_swapped (if field32 ext hdr 0 = BLOCK_TYPE_SHB then nsi' else si)"
  shows "swap32 sw (field32 ext trailer 0) = block_total_length bh' \<and>
         block_total_length bh' = swap32 sw (field32 ext hdr 4)"
proof -
  from rb obtain fh1 where r: "wtap_read_bytes_or_eof fh 8 = Inr (hdr, fh1)"
    by (auto simp: pcapng_read_block_def rbind_eq_Inr Let_def wtap_read_bytes_or_eof_Inr hdr_def)
  then have c1: "contents fh1 = contents fh"
    by (auto simp: wtap_read_bytes_or_eof_Inr)
  show ?thesis
  proof (cases "field32 ext hdr 0 = BLOCK_TYPE_SHB")
    case True
    with rb r obtain bh1 wb1 fh2
      where shb: "pcapng_read_section_header_block ext fh1
                    \<lparr>block_type = field32 ext hdr 0, block_total_length = field32 ext hdr 4\<rparr>
                    nsi (wblock\<lparr>wb_block := None, wb_type := field32 ext hdr 0\<rparr>) =
                  Inr (bh', nsi', wb1, fh2)"
        and tr: "pcapng_read_and_check_block_trailer ext fh2 bh' nsi' = Inr fh'"
      by (auto simp: pcapng_read_block_def rbind_eq_Inr Let_def split: sum.splits)
    from pcapng_read_section_header_block_fwd [OF shb] c1 have c2: "contents fh2 = contents fh"
      by (simp add: fwd_def)
    from pcapng_read_section_header_block_Inr [OF shb]
    have len: "block_total_length bh' = swap32 (byte_swapped nsi') (field32 ext hdr 4)"
      by auto
    from trailer_Inr [OF tr] c2 True len show ?thesis
      by (simp add: sw_def trailer_def)
  next
    case False
    with rb r obtain wth1 pn1 wb1 fh2
      where body: "pcapng_read_block_body ext wth fh1 pn bh' si
                     (wblock\<lparr>wb_block := None, wb_type := block_type bh'\<rparr>) = Inr (wth1, pn1, wb1, fh2)"
        and bh': "bh' = \<lparr>block_type = swap32 (byte_swapped si) (field32 ext hdr 0),
                         block_total_length = swap32 (byte_swapped si) (field32 ext hdr 4)\<rparr>"
        and tr: "pcapng_read_and_check_block_trailer ext fh2 bh' si = Inr fh'"
      by (auto simp: pcapng_read_block_def rbind_eq_Inr Let_def split: if_splits)
    from pcapng_read_block_body_fwd [OF body] c1 have c2: "contents fh2 = contents fh"
      by (simp add: fwd_def)
    from trailer_Inr [OF tr] c2 False bh' show ?thesis
      by (simp add: sw_def trailer_def)
  qed
qed

lemma pcapng_read_option_swapped_only:
  "byte_swapped si = byte_swapped si' \<Longrightarrow>
   pcapng_read_option ext fh si len to_read = pcapng_read_option ext fh si' len to_read"
  by (simp add: pcapng_read_option_def decode_option_header_def)

lemma read_options_loop_swapped_only:
  "byte_swapped si = byte_swapped si' \<Longrightarrow>
   read_options_loop ext si len h fh to_read st = read_options_loop ext si' len h fh to_read st"
proof (induction ext si len h fh to_read st rule: read_options_loop.induct)
  case (1 ext si len h fh to_read st)
  note sw = "1.prems"
  have L: "read_options_loop ext si len h fh to_read st =
     (if to_read = 0 then Inr (st, fh)
      else rbind (pcapng_read_option ext fh si len to_read) (\<lambda>(oh, content, bytes_read, fh').
           rbind (h oh content (to_read - of_nat bytes_read) st) (\<lambda>(st', to_read').
           read_options_loop ext si len h fh' to_read' st')))"
    by (rule read_options_loop.simps)
  have R: "read_options_loop ext si' len h fh to_read st =
     (if to_read = 0 then Inr (st, fh)
      else rbind (pcapng_read_option ext fh si' len to_read) (\<lambda>(oh, content, bytes_read, fh').
           rbind (h oh content (to_read - of_nat bytes_read) st) (\<lambda>(st', to_read').
           read_options_loop ext si' len h fh' to_read' st')))"
    by (rule read_options_loop.simps)
  have ro: "pcapng_read_option ext fh si' len to_read = pcapng_read_option ext fh si len to_read"
    by (rule pcapng_read_option_swapped_only [OF sw [symmetric]])
  show ?case
  proof (cases "to_read = 0")
    case True
    then show ?thesis
      unfolding L R by simp
  next
    case False
    show ?thesis
    proof (cases "pcapng_read_option ext fh si len to_read")
      case (Inl e)
      with False ro show ?thesis
        unfolding L R by simp
    next
      case (Inr x)
      obtain oh content n fh' where x: "x = (oh, content, n, fh')"
        by (cases x) auto
      show ?thesis
      proof (cases "h oh content (to_read - of_nat n) st")
        case (Inl e)
        with False ro Inr x show ?thesis
          unfolding L R by simp
      next
        case hr: (Inr y)
        obtain st' to_read' where y: "y = (st', to_read')"
          by (cases y) auto
        from "1.IH" [OF False Inr [unfolded x] refl refl refl hr [unfolded y] refl sw]
        have "read_options_loop ext si len h fh' to_read' st' =
              read_options_loop ext si' len h fh' to_read' st'" .
        with False ro Inr x hr y show ?thesis
          unfolding L R by simp
      qed
    qed
  qed
qed

lemma shb_process_option_swapped_only:
  "byte_swapped si = byte_swapped si' \<Longrightarrow>
   shb_process_option ext si len = shb_process_option ext si' len"
  by (intro ext) (simp add: shb_process_option_def pcap_process_unhandled_option_def
      split: option.splits)

lemma shb_after_magic_minor:
  "shb_after_magic ext fh bh si wblock shb sw 1 2 =
   map_sum id (\<lambda>(bh', si', wblock', fh'). (bh', si'\<lparr>version_minor := 2\<rparr>, wblock', fh'))
     (shb_after_magic ext fh bh si wblock shb sw 1 0)"
proof -
  let ?si0 = "si\<lparr>byte_swapped := sw, version_major := 1, version_minor := 0\<rparr>"
  let ?si2 = "si\<lparr>byte_swapped := sw, version_major := 1, version_minor := 2\<rparr>"
  have sw: "byte_swapped ?si2 = byte_swapped ?si0"
    by simp
  have loop: "read_options_loop ext ?si2 len (shb_process_option ext ?si2 len) fh to_read st =
              read_options_loop ext ?si0 len (shb_process_option ext ?si0 len) fh to_read st"
    for len to_read st
    using read_options_loop_swapped_only [OF sw] shb_process_option_swapped_only [OF sw]
    by simp
  show ?thesis
    by (cases "read_options_loop ext ?si0 (block_total_length bh - MIN_SHB_SIZE)
                 (shb_process_option ext ?si0 (block_total_length bh - MIN_SHB_SIZE)) fh
                 (block_total_length bh - MIN_SHB_SIZE)
                 \<lparr>mandatory = Mand_Section (swap64 sw (field64 ext shb 8)), options = []\<rparr>")
       (auto simp: shb_after_magic_def Let_def loop as_block_error_def)
qed

lemma shb_after_magic_bad_version:
  assumes "\<not> (vj = 1 \<and> (vn = 0 \<or> vn = 2))"
  shows "shb_after_magic ext fh bh si wblock shb sw vj vn =
     Inl (PCAPNG_BLOCK_ERROR,
          if block_total_length bh < MIN_SHB_SIZE \<or> MAX_BLOCK_SIZE ext < block_total_length bh
          then WTAP_ERR_BAD_FILE else WTAP_ERR_UNSUPPORTED)"
  using assms
  by (auto simp: shb_after_magic_def)

lemma GUINT32_SWAP_LE_BE_SHB [simp]: "GUINT32_SWAP_LE_BE BLOCK_TYPE_SHB = BLOCK_TYPE_SHB"
  by (simp add: GUINT32_SWAP_LE_BE_def BLOCK_TYPE_SHB_def)

lemma pcapng_read_block_shb:
  assumes "wtap_read_bytes_or_eof fh0 8 = Inr (hdr, fh)" and "field32 ext hdr 0 = BLOCK_TYPE_SHB"
  shows "pcapng_read_block ext wth fh0 pn si0 nsi wblock0 =
     (case pcapng_read_section_header_block ext fh
             \<lparr>block_type = BLOCK_TYPE_SHB, block_total_length = field32 ext hdr 4\<rparr> nsi
             (wblock0\<lparr>wb_block := None, wb_type := BLOCK_TYPE_SHB\<rparr>) of
        Inl ret \<Rightarrow> Inl (snd ret)
      | Inr (bh, nsi', wblock, fh') \<Rightarrow>
          rbind (pcapng_read_and_check_block_trailer ext fh' bh nsi') (\<lambda>fh''.
            Inr (wth, pn, nsi', wblock, bh, fh'')))"
  using assms
  by (simp add: pcapng_read_block_def Let_def)

lemma pcapng_open_shb:
  assumes "wtap_read_bytes_or_eof (wth_fh wth) 8 = Inr (hdr, fh)"
    and "field32 ext hdr 0 = BLOCK_TYPE_SHB"
    and "pcapng_read_section_header_block ext fh
           \<lparr>block_type = BLOCK_TYPE_SHB, block_total_length = field32 ext hdr 4\<rparr> fs
           (wblock0\<lparr>wb_type := BLOCK_TYPE_SHB, wb_block := None\<rparr>) =
         Inl (PCAPNG_BLOCK_NOT_SHB, e)"
  shows "pcapng_open ext wth fs ns wblock0 = (WTAP_OPEN_NOT_MINE, ERR_NONE, None)"
  using assms
  by (simp add: pcapng_open_def Let_def)


text \<open>The sample environment, field by field.\<close>

lemma sample_ext_host_be [simp]: "host_be sample_ext = False"
  by (simp add: sample_ext_def)

lemma sample_ext_alloc_fails [simp]: "alloc_fails sample_ext n = False"
  by (simp add: sample_ext_def)

lemma sample_ext_handlers [simp]:
  "option_handlers sample_ext i c = None" "block_handlers sample_ext t = None"
  by (simp_all add: sample_ext_def)

lemma sample_ext_MAX_BLOCK_SIZE [simp]: "MAX_BLOCK_SIZE sample_ext = 134348832"
  by (simp add: MAX_BLOCK_SIZE_def MIN_EPB_SIZE_def MIN_BLOCK_SIZE_def sample_ext_def)

lemma sample_section_simps [simp]:
  "byte_swapped (sample_section ifaces) = False" "interfaces (sample_section ifaces) = ifaces"
  by (simp_all add: sample_section_def)


text \<open>
  Two ways to reason about the option loop: a property of the state that every
  option keeps holds at the end, and a second body run over the same options keeps
  step with the first.
\<close>

lemma read_options_loop_invariant:
  assumes "read_options_loop ext si len h fh to_read st = Inr (st', fh')"
    and "P st"
    and "\<And>oh c t s s' t'. P s \<Longrightarrow> h oh c t s = Inr (s', t') \<Longrightarrow> P s'"
  shows "P st'"
  using assms
proof (induction ext si len h fh to_read st rule: read_options_loop.induct)
  case (1 ext si len handle fh to_read st)
  show ?case
  proof (cases "to_read = 0")
    case True
    with "1.prems" show ?thesis
      by (simp add: read_options_loop.simps)
  next
    case False
    with "1.prems"(1) obtain oh content bytes_read fh1 st1 to_read1
      where ro: "pcapng_read_option ext fh si len to_read = Inr (oh, content, bytes_read, fh1)"
        and h: "handle oh content (to_read - of_nat bytes_read) st = Inr (st1, to_read1)"
        and rest: "read_options_loop ext si len handle fh1 to_read1 st1 = Inr (st', fh')"
      by (subst (asm) read_options_loop.simps) (auto simp: rbind_eq_Inr)
    from "1.prems"(3) [OF "1.prems"(2) h] have "P st1" .
    show ?thesis
      by (rule "1.IH" [OF False ro refl refl refl h refl rest \<open>P st1\<close>]) (erule (1) "1.prems"(3))
  qed
qed

lemma read_options_loop_rel:
  assumes "read_options_loop ext si len h fh to_read st = Inr (st', fh')"
    and "Rel st g"
    and "\<And>oh c t s s' t' g. Rel s g \<Longrightarrow> h oh c t s = Inr (s', t') \<Longrightarrow>
           \<exists>g'. hg oh c t g = Inr (g', t') \<and> Rel s' g'"
  shows "\<exists>g'. read_options_loop ext si len hg fh to_read g = Inr (g', fh') \<and> Rel st' g'"
  using assms
proof (induction ext si len h fh to_read st arbitrary: g rule: read_options_loop.induct)
  case (1 ext si len handle fh to_read st)
  show ?case
  proof (cases "to_read = 0")
    case True
    with "1.prems" show ?thesis
      by (simp add: read_options_loop.simps)
  next
    case False
    with "1.prems"(1) obtain oh content bytes_read fh1 st1 to_read1
      where ro: "pcapng_read_option ext fh si len to_read = Inr (oh, content, bytes_read, fh1)"
        and h: "handle oh content (to_read - of_nat bytes_read) st = Inr (st1, to_read1)"
        and rest: "read_options_loop ext si len handle fh1 to_read1 st1 = Inr (st', fh')"
      by (subst (asm) read_options_loop.simps) (auto simp: rbind_eq_Inr)
    from "1.prems"(3) [OF "1.prems"(2) h] obtain g1
      where hg: "hg oh content (to_read - of_nat bytes_read) g = Inr (g1, to_read1)"
        and r1: "Rel st1 g1"
      by blast
    have "\<exists>g'. read_options_loop ext si len hg fh1 to_read1 g1 = Inr (g', fh') \<and> Rel st' g'"
      by (rule "1.IH" [OF False ro refl refl refl h refl rest r1]) (erule (1) "1.prems"(3))
    then obtain g'
      where "read_options_loop ext si len hg fh1 to_read1 g1 = Inr (g', fh')" and "Rel st' g'"
      by blast
    then show ?thesis
      using False ro hg
      by (subst read_options_loop.simps) simp
  qed
qed


lemma pcapng_read_block_other:
  assumes hd: "wtap_read_bytes_or_eof fh0 8 = Inr (hdr, fh1)"
    and ty: "field32 ext hdr 0 \<noteq> BLOCK_TYPE_SHB"
  shows "pcapng_read_block ext wth fh0 pn si0 nsi wblock =
     (let bh = \<lparr>block_type = swap32 (byte_swapped si0) (field32 ext hdr 0),
                block_total_length = swap32 (byte_swapped si0) (field32 ext hdr 4)\<rparr>
      in if block_total_length bh > MAX_BLOCK_SIZE ext then Inl WTAP_ERR_BAD_FILE
         else rbind (pcapng_read_block_body ext wth fh1 pn bh si0
                       (wblock\<lparr>wb_block := None, wb_type := block_type bh\<rparr>))
                (\<lambda>(wth, pn, wblock, fh).
              rbind (pcapng_read_and_check_block_trailer ext fh bh si0) (\<lambda>fh.
              Inr (wth, pn, nsi, wblock, bh, fh))))"
  using hd ty
  by (simp add: pcapng_read_block_def Let_def)

lemma mandatory_wtap_block_add_option [simp]:
  "mandatory (wtap_block_add_option blk i v) = mandatory blk"
  by (simp add: wtap_block_add_option_def)

lemma mandatory_string_option [simp]:
  "mandatory (pcapng_process_string_option blk oh c len) = mandatory blk"
  by (simp add: pcapng_process_string_option_def)

lemma mandatory_uint64_option [simp]:
  "mandatory (pcapng_process_uint64_option ext blk si oh c len) = mandatory blk"
  by (simp add: pcapng_process_uint64_option_def Let_def)

lemma mandatory_filter_option [simp]:
  "mandatory (idb_filter_option ext si len blk oh c) = mandatory blk"
  by (simp add: idb_filter_option_def)

lemma mandatory_timestamp_option [simp]:
  "mandatory (pcapng_process_timestamp_option ext blk si oh c len) = mandatory blk"
  by (simp add: pcapng_process_timestamp_option_def Let_def)

lemma swap32_SHB [simp]: "swap32 sw BLOCK_TYPE_SHB = BLOCK_TYPE_SHB"
  by (simp add: swap32_def)

lemma swapped_section_simps [simp]:
  "byte_swapped swapped_section = True" "interfaces swapped_section = []"
  "byte_swapped swapped_section_1 = True"
  "interfaces swapped_section_1 = [sample_iface 1000000]"
  by (simp_all add: swapped_section_def swapped_section_1_def sample_section_def)

section \<open>The byte-order magic\<close>

lemma shb_native_read:
  "wtap_read_bytes (fh_at shb_native 8) 16 =
     Inr ([0x4D, 0x3C, 0x2B, 0x1A,  1, 0,  0, 0, 0xFF, 0xFF, 0xFF, 0xFF, 0xFF, 0xFF, 0xFF, 0xFF],
          fh_at shb_native 24) \<and>
   pcapng_read_section_header_block sample_ext (fh_at shb_native 8)
     \<lparr>block_type = BLOCK_TYPE_SHB, block_total_length = 28\<rparr> (sample_section []) sample_wblock =
     Inr (\<lparr>block_type = BLOCK_TYPE_SHB, block_total_length = 28\<rparr>, sample_section [],
          sample_wblock\<lparr>wb_block := Some \<lparr>mandatory = Mand_Section 0xFFFFFFFFFFFFFFFF, options = []\<rparr>,
                        wb_internal := True\<rparr>,
          fh_at shb_native 24)"
  by code_simp

lemma shb_swapped_read:
  "wtap_read_bytes (fh_at shb_swapped 8) 16 =
     Inr ([0x1A, 0x2B, 0x3C, 0x4D,  0, 1,  0, 0, 0xFF, 0xFF, 0xFF, 0xFF, 0xFF, 0xFF, 0xFF, 0xFF],
          fh_at shb_swapped 24) \<and>
   pcapng_read_section_header_block sample_ext (fh_at shb_swapped 8)
     \<lparr>block_type = BLOCK_TYPE_SHB, block_total_length = 0x1C000000\<rparr> (sample_section [])
     sample_wblock =
     Inr (\<lparr>block_type = BLOCK_TYPE_SHB, block_total_length = 28\<rparr>,
          (sample_section [])\<lparr>byte_swapped := True\<rparr>,
          sample_wblock\<lparr>wb_block := Some \<lparr>mandatory = Mand_Section 0xFFFFFFFFFFFFFFFF, options = []\<rparr>,
                        wb_internal := True\<rparr>,
          fh_at shb_swapped 24)"
  by code_simp

lemma shb_no_magic_read:
  "wtap_read_bytes (fh_at shb_no_magic 8) 16 =
     Inr ([0x61, 0x62, 0x63, 0x64,  1, 0,  0, 0, 0xFF, 0xFF, 0xFF, 0xFF, 0xFF, 0xFF, 0xFF, 0xFF],
          fh_at shb_no_magic 24) \<and>
   wtap_read_bytes_or_eof (wth_fh (sample_wth shb_no_magic [])) 8 =
     Inr ([0x0A, 0x0D, 0x0D, 0x0A,  28, 0, 0, 0], fh_at shb_no_magic 8)"
  by code_simp

text \<open>
  C3. The magic number is compared as the host loads it, without swapping. A section
  header block is accepted only with magic \<open>0x1A2B3C4D\<close>, and then the section is not
  byte-swapped and the block's total length is used as read, or with magic
  \<open>0x4D3C2B1A\<close>, and then the section is byte-swapped and the total length is
  swapped. With any other magic the block reader answers \<open>PCAPNG_BLOCK_NOT_SHB\<close>;
  \<^verbatim>\<open>pcapng_open\<close> then returns \<open>WTAP_OPEN_NOT_MINE\<close> with no error, while
  \<^verbatim>\<open>pcapng_read_block\<close> fails.
\<close>

theorem C3_magic_selects_byte_order:
  assumes rd: "wtap_read_bytes fh 16 = Inr (shb, fh1)"
  shows "(pcapng_read_section_header_block ext fh bh si wblock = Inr (bh', si', wblock', fh') \<longrightarrow>
            (field32 ext shb 0 = 0x1A2B3C4D \<and> \<not> byte_swapped si' \<and>
               block_total_length bh' = block_total_length bh \<or>
             field32 ext shb 0 = 0x4D3C2B1A \<and> byte_swapped si' \<and>
               block_total_length bh' = GUINT32_SWAP_LE_BE (block_total_length bh))) \<and>
         (field32 ext shb 0 \<noteq> 0x1A2B3C4D \<and> field32 ext shb 0 \<noteq> 0x4D3C2B1A \<longrightarrow>
            pcapng_read_section_header_block ext fh bh si wblock =
              Inl (PCAPNG_BLOCK_NOT_SHB, WTAP_ERR_BAD_FILE) \<and>
            (wtap_read_bytes_or_eof (wth_fh wth) 8 = Inr (hdr, fh) \<and>
             field32 ext hdr 0 = BLOCK_TYPE_SHB \<longrightarrow>
               pcapng_open ext wth first_section new_section wblock0 =
                 (WTAP_OPEN_NOT_MINE, ERR_NONE, None)) \<and>
            (wtap_read_bytes_or_eof fh0 8 = Inr (hdr, fh) \<and> field32 ext hdr 0 = BLOCK_TYPE_SHB \<longrightarrow>
               pcapng_read_block ext wth fh0 pn si0 new_section wblock0 = Inl WTAP_ERR_BAD_FILE))"
proof -
  have ok: "field32 ext shb 0 = 0x1A2B3C4D \<and> \<not> byte_swapped si' \<and>
               block_total_length bh' = block_total_length bh \<or>
             field32 ext shb 0 = 0x4D3C2B1A \<and> byte_swapped si' \<and>
               block_total_length bh' = GUINT32_SWAP_LE_BE (block_total_length bh)"
    if "pcapng_read_section_header_block ext fh bh si wblock = Inr (bh', si', wblock', fh')"
    using pcapng_read_section_header_block_Inr [OF that] rd
    by (auto simp: swap32_def)
  have bad: "pcapng_read_section_header_block ext fh bh2 si2 wblock2 =
              Inl (PCAPNG_BLOCK_NOT_SHB, WTAP_ERR_BAD_FILE)"
    if "field32 ext shb 0 \<noteq> 0x1A2B3C4D" "field32 ext shb 0 \<noteq> 0x4D3C2B1A" for bh2 si2 wblock2
    using that by (simp add: pcapng_read_section_header_block_body [OF rd])
  show ?thesis
    using ok bad
    by (auto simp: pcapng_open_shb pcapng_read_block_shb)
qed

theorem C3_magic_selects_byte_order_witness:
  "pcapng_read_section_header_block sample_ext (fh_at shb_native 8)
     \<lparr>block_type = BLOCK_TYPE_SHB, block_total_length = 28\<rparr> (sample_section []) sample_wblock =
     Inr (\<lparr>block_type = BLOCK_TYPE_SHB, block_total_length = 28\<rparr>, sample_section [],
          sample_wblock\<lparr>wb_block := Some \<lparr>mandatory = Mand_Section 0xFFFFFFFFFFFFFFFF, options = []\<rparr>,
                        wb_internal := True\<rparr>,
          fh_at shb_native 24) \<and>
   field32 sample_ext
     [0x4D, 0x3C, 0x2B, 0x1A,  1, 0,  0, 0, 0xFF, 0xFF, 0xFF, 0xFF, 0xFF, 0xFF, 0xFF, 0xFF] 0 =
     0x1A2B3C4D \<and>
   pcapng_read_section_header_block sample_ext (fh_at shb_swapped 8)
     \<lparr>block_type = BLOCK_TYPE_SHB, block_total_length = 0x1C000000\<rparr> (sample_section [])
     sample_wblock =
     Inr (\<lparr>block_type = BLOCK_TYPE_SHB, block_total_length = 28\<rparr>,
          (sample_section [])\<lparr>byte_swapped := True\<rparr>,
          sample_wblock\<lparr>wb_block := Some \<lparr>mandatory = Mand_Section 0xFFFFFFFFFFFFFFFF, options = []\<rparr>,
                        wb_internal := True\<rparr>,
          fh_at shb_swapped 24) \<and>
   field32 sample_ext
     [0x1A, 0x2B, 0x3C, 0x4D,  0, 1,  0, 0, 0xFF, 0xFF, 0xFF, 0xFF, 0xFF, 0xFF, 0xFF, 0xFF] 0 =
     0x4D3C2B1A \<and>
   GUINT32_SWAP_LE_BE 0x1C000000 = (28 :: guint32) \<and>
   pcapng_read_section_header_block sample_ext (fh_at shb_no_magic 8)
     \<lparr>block_type = BLOCK_TYPE_SHB, block_total_length = 28\<rparr> (sample_section []) sample_wblock =
     Inl (PCAPNG_BLOCK_NOT_SHB, WTAP_ERR_BAD_FILE) \<and>
   pcapng_open sample_ext (sample_wth shb_no_magic []) (sample_section []) (sample_section [])
     sample_wblock = (WTAP_OPEN_NOT_MINE, ERR_NONE, None) \<and>
   pcapng_read_block sample_ext (sample_wth shb_no_magic []) (fh_at shb_no_magic 0) (sample_pn [])
     (sample_section []) (sample_section []) sample_wblock = Inl WTAP_ERR_BAD_FILE"
  using C3_magic_selects_byte_order [OF shb_native_read [THEN conjunct1], where ext = sample_ext
      and bh = "\<lparr>block_type = BLOCK_TYPE_SHB, block_total_length = 28\<rparr>"
      and si = "sample_section []" and wblock = sample_wblock
      and bh' = "\<lparr>block_type = BLOCK_TYPE_SHB, block_total_length = 28\<rparr>"
      and si' = "sample_section []"
      and wblock' = "sample_wblock\<lparr>wb_block := Some \<lparr>mandatory = Mand_Section 0xFFFFFFFFFFFFFFFF, options = []\<rparr>,
                        wb_internal := True\<rparr>"
      and fh' = "fh_at shb_native 24"]
    C3_magic_selects_byte_order [OF shb_swapped_read [THEN conjunct1], where ext = sample_ext
      and bh = "\<lparr>block_type = BLOCK_TYPE_SHB, block_total_length = 0x1C000000\<rparr>"
      and si = "sample_section []" and wblock = sample_wblock
      and bh' = "\<lparr>block_type = BLOCK_TYPE_SHB, block_total_length = 28\<rparr>"
      and si' = "(sample_section [])\<lparr>byte_swapped := True\<rparr>"
      and wblock' = "sample_wblock\<lparr>wb_block := Some \<lparr>mandatory = Mand_Section 0xFFFFFFFFFFFFFFFF, options = []\<rparr>,
                        wb_internal := True\<rparr>"
      and fh' = "fh_at shb_swapped 24"]
    C3_magic_selects_byte_order [OF shb_no_magic_read [THEN conjunct1], where ext = sample_ext
      and bh = "\<lparr>block_type = BLOCK_TYPE_SHB, block_total_length = 28\<rparr>"
      and si = "sample_section []" and wblock = sample_wblock
      and wth = "sample_wth shb_no_magic []" and hdr = "[0x0A, 0x0D, 0x0D, 0x0A,  28, 0, 0, 0]"
      and ?fh0.0 = "fh_at shb_no_magic 0" and first_section = "sample_section []"
      and new_section = "sample_section []" and ?wblock0.0 = sample_wblock
      and pn = "sample_pn []" and ?si0.0 = "sample_section []"]
    shb_native_read shb_swapped_read shb_no_magic_read
  by (simp add: field32_def load_host_def sample_ext_def sample_wth_def fh_at_def
      GUINT32_SWAP_LE_BE_def BLOCK_TYPE_SHB_def)

section \<open>The version of a section\<close>

text \<open>
  Section header blocks of version 1.2: one in the host's byte order with a comment
  and an end-of-options option, one in the other byte order without options.
\<close>

definition shb_1_2_comment :: "guint8 list" where
  "shb_1_2_comment =
     [0x0A, 0x0D, 0x0D, 0x0A,  40, 0, 0, 0,  0x4D, 0x3C, 0x2B, 0x1A,  1, 0,  2, 0,
      0xFF, 0xFF, 0xFF, 0xFF, 0xFF, 0xFF, 0xFF, 0xFF,
      1, 0,  2, 0,  0x68, 0x69, 0, 0,   0, 0,  0, 0,   40, 0, 0, 0]"

definition shb_1_2_swapped :: "guint8 list" where
  "shb_1_2_swapped =
     [0x0A, 0x0D, 0x0D, 0x0A,  0, 0, 0, 28,  0x1A, 0x2B, 0x3C, 0x4D,  0, 1,  0, 2,
      0xFF, 0xFF, 0xFF, 0xFF, 0xFF, 0xFF, 0xFF, 0xFF,  0, 0, 0, 28]"


lemma shb_after_magic_accepts:
  fixes bh :: pcapng_block_header_t and si :: section_info_t and sw :: bool
  defines "len \<equiv> block_total_length bh"
  defines "si0 \<equiv> si\<lparr>byte_swapped := sw, version_major := 1, version_minor := 0\<rparr>"
  assumes v: "vn = 0 \<or> vn = 2" and lo: "MIN_SHB_SIZE \<le> len" and hi: "len \<le> MAX_BLOCK_SIZE ext"
    and mem: "\<not> alloc_fails ext (unat (len - MIN_SHB_SIZE))"
  shows "shb_after_magic ext fh bh si wblock shb sw 1 vn =
     (case read_options_loop ext si0 (len - MIN_SHB_SIZE)
             (shb_process_option ext si0 (len - MIN_SHB_SIZE)) fh (len - MIN_SHB_SIZE)
             \<lparr>mandatory = Mand_Section (swap64 sw (field64 ext shb 8)), options = []\<rparr> of
        Inl e \<Rightarrow> Inl (PCAPNG_BLOCK_ERROR, e)
      | Inr (blk, fh') \<Rightarrow>
          Inr (bh, si\<lparr>byte_swapped := sw, version_major := 1, version_minor := vn\<rparr>,
               wblock\<lparr>wb_block := Some blk, wb_internal := True\<rparr>, fh'))"
proof -
  let ?loop = "read_options_loop ext si0 (len - MIN_SHB_SIZE)
             (shb_process_option ext si0 (len - MIN_SHB_SIZE)) fh (len - MIN_SHB_SIZE)
             \<lparr>mandatory = Mand_Section (swap64 sw (field64 ext shb 8)), options = []\<rparr>"
  have zero: "shb_after_magic ext fh bh si wblock shb sw 1 0 =
     (case ?loop of
        Inl e \<Rightarrow> Inl (PCAPNG_BLOCK_ERROR, e)
      | Inr (blk, fh') \<Rightarrow>
          Inr (bh, si0, wblock\<lparr>wb_block := Some blk, wb_internal := True\<rparr>, fh'))"
    using lo hi mem
    by (cases ?loop)
       (auto simp: shb_after_magic_def Let_def len_def si0_def as_block_error_def not_less
             simp flip: not_le)
  show ?thesis
  proof (cases "vn = 0")
    case True
    show ?thesis
      unfolding True zero by (cases ?loop) (auto simp: si0_def)
  next
    case False
    with v have two: "vn = 2"
      by simp
    show ?thesis
      unfolding two shb_after_magic_minor zero
      by (cases ?loop) (auto simp: si0_def)
  qed
qed

lemma read_options_loop_done [simp]: "read_options_loop ext si len h fh 0 st = Inr (st, fh)"
  by (simp add: read_options_loop.simps)


lemma shb_version_2_0_body_read:
  "wtap_read_bytes (fh_at shb_version_2_0 8) 16 =
     Inr ([0x4D, 0x3C, 0x2B, 0x1A,  2, 0,  0, 0, 0xFF, 0xFF, 0xFF, 0xFF, 0xFF, 0xFF, 0xFF, 0xFF],
          fh_at shb_version_2_0 24)"
  by code_simp

lemma shb_native_body_read:
  "wtap_read_bytes (fh_at shb_native 8) 16 =
     Inr ([0x4D, 0x3C, 0x2B, 0x1A,  1, 0,  0, 0, 0xFF, 0xFF, 0xFF, 0xFF, 0xFF, 0xFF, 0xFF, 0xFF],
          fh_at shb_native 24)"
  by code_simp

lemma shb_1_2_swapped_body_read:
  "wtap_read_bytes (fh_at shb_1_2_swapped 8) 16 =
     Inr ([0x1A, 0x2B, 0x3C, 0x4D,  0, 1,  0, 2, 0xFF, 0xFF, 0xFF, 0xFF, 0xFF, 0xFF, 0xFF, 0xFF],
          fh_at shb_1_2_swapped 24)"
  by code_simp

lemma shb_1_2_comment_body_read:
  "wtap_read_bytes (fh_at shb_1_2_comment 8) 16 =
     Inr ([0x4D, 0x3C, 0x2B, 0x1A,  1, 0,  2, 0, 0xFF, 0xFF, 0xFF, 0xFF, 0xFF, 0xFF, 0xFF, 0xFF],
          fh_at shb_1_2_comment 24)"
  by code_simp

lemma shb_1_2_comment_options:
  "read_options_loop sample_ext
     ((sample_section [])\<lparr>byte_swapped := False, version_major := 1, version_minor := 0\<rparr>) 12
     (shb_process_option sample_ext
        ((sample_section [])\<lparr>byte_swapped := False, version_major := 1, version_minor := 0\<rparr>) 12)
     (fh_at shb_1_2_comment 24) 12
     \<lparr>mandatory = Mand_Section 0xFFFFFFFFFFFFFFFF, options = []\<rparr> =
   Inr (\<lparr>mandatory = Mand_Section 0xFFFFFFFFFFFFFFFF, options = [(1, OptString [0x68, 0x69])]\<rparr>,
        fh_at shb_1_2_comment 36)"
  by code_simp

text \<open>
  C8. Let the magic of a section header block be one of the two known values. If
  its version is neither 1.0 nor 1.2 the block is refused; the error is
  \<open>WTAP_ERR_UNSUPPORTED\<close> when the block's total length is within its bounds (a length
  out of bounds is reported first, as \<open>WTAP_ERR_BAD_FILE\<close>). If its version is 1.0 or
  1.2, its length is within bounds and the buffer for the options can be allocated,
  the block is accepted exactly when its options can be read, and the options are
  read in the same way for either version: only the minor version recorded in the
  section differs. In particular a block of version 1.0 or 1.2 without options is
  accepted.
\<close>

theorem C8_unsupported_version:
  fixes bh :: pcapng_block_header_t and si :: section_info_t and ext :: externals
  assumes rd: "wtap_read_bytes fh 16 = Inr (shb, fh1)"
    and magic: "field32 ext shb 0 = 0x1A2B3C4D \<or> field32 ext shb 0 = 0x4D3C2B1A"
  defines "sw \<equiv> (field32 ext shb 0 = 0x4D3C2B1A)"
  defines "vj \<equiv> swap16 sw (field16 ext shb 4)"
  defines "vn \<equiv> swap16 sw (field16 ext shb 6)"
  defines "len \<equiv> swap32 sw (block_total_length bh)"
  defines "si0 \<equiv> si\<lparr>byte_swapped := sw, version_major := 1, version_minor := 0\<rparr>"
  defines "blk0 \<equiv> \<lparr>mandatory = Mand_Section (swap64 sw (field64 ext shb 8)), options = []\<rparr>"
  shows "(\<not> (vj = 1 \<and> (vn = 0 \<or> vn = 2)) \<longrightarrow>
            pcapng_read_section_header_block ext fh bh si wblock =
              Inl (PCAPNG_BLOCK_ERROR,
                   if len < MIN_SHB_SIZE \<or> MAX_BLOCK_SIZE ext < len
                   then WTAP_ERR_BAD_FILE else WTAP_ERR_UNSUPPORTED)) \<and>
         (vj = 1 \<and> (vn = 0 \<or> vn = 2) \<and> MIN_SHB_SIZE \<le> len \<and> len \<le> MAX_BLOCK_SIZE ext \<and>
          \<not> alloc_fails ext (unat (len - MIN_SHB_SIZE)) \<longrightarrow>
            pcapng_read_section_header_block ext fh bh si wblock =
              (case read_options_loop ext si0 (len - MIN_SHB_SIZE)
                      (shb_process_option ext si0 (len - MIN_SHB_SIZE)) fh1 (len - MIN_SHB_SIZE)
                      blk0 of
                 Inl e \<Rightarrow> Inl (PCAPNG_BLOCK_ERROR, e)
               | Inr (blk, fh') \<Rightarrow>
                   Inr (bh\<lparr>block_total_length := len\<rparr>,
                        si\<lparr>byte_swapped := sw, version_major := 1, version_minor := vn\<rparr>,
                        wblock\<lparr>wb_block := Some blk, wb_internal := True\<rparr>, fh'))) \<and>
         (vj = 1 \<and> (vn = 0 \<or> vn = 2) \<and> len = MIN_SHB_SIZE \<and> MIN_SHB_SIZE \<le> MAX_BLOCK_SIZE ext \<longrightarrow>
            pcapng_read_section_header_block ext fh bh si wblock =
              Inr (bh\<lparr>block_total_length := len\<rparr>,
                   si\<lparr>byte_swapped := sw, version_major := 1, version_minor := vn\<rparr>,
                   wblock\<lparr>wb_block := Some blk0, wb_internal := True\<rparr>, fh1))"
proof -
  have body: "pcapng_read_section_header_block ext fh bh si wblock =
        shb_after_magic ext fh1 (bh\<lparr>block_total_length := len\<rparr>) si wblock shb sw vj vn"
    using magic
    unfolding pcapng_read_section_header_block_body [OF rd]
    by (auto simp: sw_def vj_def vn_def len_def swap16_def swap32_def)
  have bad: "pcapng_read_section_header_block ext fh bh si wblock =
              Inl (PCAPNG_BLOCK_ERROR,
                   if len < MIN_SHB_SIZE \<or> MAX_BLOCK_SIZE ext < len
                   then WTAP_ERR_BAD_FILE else WTAP_ERR_UNSUPPORTED)"
    if "\<not> (vj = 1 \<and> (vn = 0 \<or> vn = 2))"
    using that by (simp add: body shb_after_magic_bad_version)
  have good: "pcapng_read_section_header_block ext fh bh si wblock =
              (case read_options_loop ext si0 (len - MIN_SHB_SIZE)
                      (shb_process_option ext si0 (len - MIN_SHB_SIZE)) fh1 (len - MIN_SHB_SIZE)
                      blk0 of
                 Inl e \<Rightarrow> Inl (PCAPNG_BLOCK_ERROR, e)
               | Inr (blk, fh') \<Rightarrow>
                   Inr (bh\<lparr>block_total_length := len\<rparr>,
                        si\<lparr>byte_swapped := sw, version_major := 1, version_minor := vn\<rparr>,
                        wblock\<lparr>wb_block := Some blk, wb_internal := True\<rparr>, fh'))"
    if "vj = 1" "vn = 0 \<or> vn = 2" "MIN_SHB_SIZE \<le> len" "len \<le> MAX_BLOCK_SIZE ext"
      "\<not> alloc_fails ext (unat (len - MIN_SHB_SIZE))"
    using shb_after_magic_accepts [of vn "bh\<lparr>block_total_length := len\<rparr>" ext fh1 si wblock shb sw]
      that
    by (simp add: body si0_def blk0_def)
  have bare: "pcapng_read_section_header_block ext fh bh si wblock =
              Inr (bh\<lparr>block_total_length := len\<rparr>,
                   si\<lparr>byte_swapped := sw, version_major := 1, version_minor := vn\<rparr>,
                   wblock\<lparr>wb_block := Some blk0, wb_internal := True\<rparr>, fh1)"
    if "vj = 1" "vn = 0 \<or> vn = 2" "len = MIN_SHB_SIZE" "MIN_SHB_SIZE \<le> MAX_BLOCK_SIZE ext"
    using that
    by (auto simp: body shb_after_magic_def Let_def blk0_def as_block_error_def)
  show ?thesis
    using bad good bare by blast
qed


theorem C8_unsupported_version_witness:
  "pcapng_read_section_header_block sample_ext (fh_at shb_version_2_0 8)
     \<lparr>block_type = BLOCK_TYPE_SHB, block_total_length = 28\<rparr> (sample_section []) sample_wblock =
     Inl (PCAPNG_BLOCK_ERROR, WTAP_ERR_UNSUPPORTED) \<and>
   pcapng_read_section_header_block sample_ext (fh_at shb_native 8)
     \<lparr>block_type = BLOCK_TYPE_SHB, block_total_length = 28\<rparr> (sample_section []) sample_wblock =
     Inr (\<lparr>block_type = BLOCK_TYPE_SHB, block_total_length = 28\<rparr>,
          (sample_section [])\<lparr>byte_swapped := False, version_major := 1, version_minor := 0\<rparr>,
          sample_wblock\<lparr>wb_block := Some \<lparr>mandatory = Mand_Section 0xFFFFFFFFFFFFFFFF, options = []\<rparr>,
                        wb_internal := True\<rparr>,
          fh_at shb_native 24) \<and>
   pcapng_read_section_header_block sample_ext (fh_at shb_1_2_swapped 8)
     \<lparr>block_type = BLOCK_TYPE_SHB, block_total_length = 0x1C000000\<rparr> (sample_section [])
     sample_wblock =
     Inr (\<lparr>block_type = BLOCK_TYPE_SHB, block_total_length = 28\<rparr>,
          (sample_section [])\<lparr>byte_swapped := True, version_major := 1, version_minor := 2\<rparr>,
          sample_wblock\<lparr>wb_block := Some \<lparr>mandatory = Mand_Section 0xFFFFFFFFFFFFFFFF, options = []\<rparr>,
                        wb_internal := True\<rparr>,
          fh_at shb_1_2_swapped 24) \<and>
   pcapng_read_section_header_block sample_ext (fh_at shb_1_2_comment 8)
     \<lparr>block_type = BLOCK_TYPE_SHB, block_total_length = 40\<rparr> (sample_section []) sample_wblock =
     Inr (\<lparr>block_type = BLOCK_TYPE_SHB, block_total_length = 40\<rparr>,
          (sample_section [])\<lparr>byte_swapped := False, version_major := 1, version_minor := 2\<rparr>,
          sample_wblock\<lparr>wb_block := Some \<lparr>mandatory = Mand_Section 0xFFFFFFFFFFFFFFFF,
                                              options = [(1, OptString [0x68, 0x69])]\<rparr>,
                        wb_internal := True\<rparr>,
          fh_at shb_1_2_comment 36)"
  using C8_unsupported_version [OF shb_version_2_0_body_read, where ext = sample_ext
      and bh = "\<lparr>block_type = BLOCK_TYPE_SHB, block_total_length = 28\<rparr>"
      and si = "sample_section []" and wblock = sample_wblock]
    C8_unsupported_version [OF shb_native_body_read, where ext = sample_ext
      and bh = "\<lparr>block_type = BLOCK_TYPE_SHB, block_total_length = 28\<rparr>"
      and si = "sample_section []" and wblock = sample_wblock]
    C8_unsupported_version [OF shb_1_2_swapped_body_read, where ext = sample_ext
      and bh = "\<lparr>block_type = BLOCK_TYPE_SHB, block_total_length = 0x1C000000\<rparr>"
      and si = "sample_section []" and wblock = sample_wblock]
    C8_unsupported_version [OF shb_1_2_comment_body_read, where ext = sample_ext
      and bh = "\<lparr>block_type = BLOCK_TYPE_SHB, block_total_length = 40\<rparr>"
      and si = "sample_section []" and wblock = sample_wblock]
    shb_1_2_comment_options
  by (simp add: field32_def field16_def field64_def load_host_def sample_ext_def swap16_def
      swap32_def swap64_def MIN_SHB_SIZE_def MIN_BLOCK_SIZE_def MAX_BLOCK_SIZE_def MIN_EPB_SIZE_def
      GUINT16_SWAP_LE_BE_def GUINT32_SWAP_LE_BE_def GUINT64_SWAP_LE_BE_def)

text \<open>
  A section header block of version 2.0 is refused with \<open>WTAP_ERR_UNSUPPORTED\<close>, not
  with \<open>WTAP_ERR_BAD_FILE\<close>, by the block reader and by the open routine.
\<close>

theorem C8_version_2_0_counterexample:
  "pcapng_read_section_header_block sample_ext (fh_at shb_version_2_0 8)
     \<lparr>block_type = BLOCK_TYPE_SHB, block_total_length = 28\<rparr> (sample_section []) sample_wblock =
     Inl (PCAPNG_BLOCK_ERROR, WTAP_ERR_UNSUPPORTED) \<and>
   pcapng_read_block sample_ext (sample_wth shb_version_2_0 []) (fh_at shb_version_2_0 0)
     (sample_pn []) (sample_section []) (sample_section []) sample_wblock =
     Inl WTAP_ERR_UNSUPPORTED \<and>
   pcapng_open sample_ext (sample_wth shb_version_2_0 []) (sample_section []) (sample_section [])
     sample_wblock = (WTAP_OPEN_ERROR, WTAP_ERR_UNSUPPORTED, None)"
  by code_simp

section \<open>The trailer of a block\<close>

text \<open>
  An unknown block in a byte-swapped section, a section header block whose trailer
  is wrong, and two interface description blocks of total length 28 with an
  end-of-options option followed by four more bytes: in \<open>idb_junk\<close> these four bytes
  repeat the total length and the last four bytes of the block are \<open>0x63\<close>; in
  \<open>idb_padded\<close> they are zero and the last four bytes are the total length.
\<close>

definition unknown_block_swapped :: "guint8 list" where
  "unknown_block_swapped =
     [0x80, 0, 0, 0x01,  0, 0, 0, 16,  0xAA, 0xBB, 0xCC, 0xDD,  0, 0, 0, 16]"

definition unknown_block_bad_trailer :: "guint8 list" where
  "unknown_block_bad_trailer =
     [0x80, 0, 0, 0x01,  0, 0, 0, 16,  0xAA, 0xBB, 0xCC, 0xDD,  16, 0, 0, 0]"

definition shb_bad_trailer :: "guint8 list" where
  "shb_bad_trailer =
     [0x0A, 0x0D, 0x0D, 0x0A,  28, 0, 0, 0,  0x4D, 0x3C, 0x2B, 0x1A,  1, 0,  0, 0,
      0xFF, 0xFF, 0xFF, 0xFF, 0xFF, 0xFF, 0xFF, 0xFF,  32, 0, 0, 0]"

definition idb_junk :: "guint8 list" where
  "idb_junk =
     [1, 0, 0, 0,  28, 0, 0, 0,  1, 0,  0, 0,  0xFF, 0xFF, 0, 0,
      0, 0,  0, 0,   28, 0, 0, 0,   0x63, 0, 0, 0]"

definition idb_padded :: "guint8 list" where
  "idb_padded =
     [1, 0, 0, 0,  28, 0, 0, 0,  1, 0,  0, 0,  0xFF, 0xFF, 0, 0,
      0, 0,  0, 0,   0, 0, 0, 0,   28, 0, 0, 0]"

lemma pcapng_open_first_block:
  assumes "wtap_read_bytes_or_eof (wth_fh wth) 8 = Inr (hdr, fh1)"
    and "field32 ext hdr 0 = BLOCK_TYPE_SHB"
    and "pcapng_read_section_header_block ext fh1
           \<lparr>block_type = BLOCK_TYPE_SHB, block_total_length = field32 ext hdr 4\<rparr> fs
           (wblock\<lparr>wb_type := BLOCK_TYPE_SHB, wb_block := None\<rparr>) = Inr (bh', fs', wb2, fh2)"
    and "pcapng_read_and_check_block_trailer ext fh2 bh' fs' = Inl e"
  shows "pcapng_open ext wth fs ns wblock = (WTAP_OPEN_ERROR, e, None)"
  using assms
  by (simp add: pcapng_open_def Let_def)

lemma wtap_read_bytes_none: "pos fh \<le> length (contents fh) \<Longrightarrow> wtap_read_bytes fh 0 = Inr ([], fh)"
  by (simp add: wtap_read_bytes_def wtap_read_bytes_or_eof_def)

lemma read_options_loop_endofopt:
  assumes rd: "wtap_read_bytes fh 4 = Inr (oh_bytes, fh1)"
    and oh: "decode_option_header ext si oh_bytes = \<lparr>option_code = OPT_EOFOPT, option_length = 0\<rparr>"
    and left: "4 \<le> unat to_read"
    and h: "\<And>content t. h \<lparr>option_code = OPT_EOFOPT, option_length = 0\<rparr> content t st = Inr (st, 0)"
  shows "read_options_loop ext si len h fh to_read st = Inr (st, fh1)"
proof -
  from left have nz: "to_read \<noteq> 0"
    by auto
  from rd have "pos fh1 \<le> length (contents fh1)"
    by (auto simp: wtap_read_bytes_Inr)
  then have "pcapng_read_option ext fh si len to_read =
               Inr (\<lparr>option_code = OPT_EOFOPT, option_length = 0\<rparr>, [], 4, fh1)"
    using rd oh left
    by (simp add: pcapng_read_option_def Let_def wtap_read_bytes_none)
  then show ?thesis
    using nz h
    by (subst read_options_loop.simps) (simp add: read_options_loop.simps)
qed

lemma idb_stops_at_endofopt:
  assumes fixed: "wtap_read_bytes fh 8 = Inr (idb, fh1)"
    and rd: "wtap_read_bytes fh1 4 = Inr (oh_bytes, fh2)"
    and oh: "decode_option_header ext si oh_bytes = \<lparr>option_code = OPT_EOFOPT, option_length = 0\<rparr>"
    and len: "24 \<le> unat (block_total_length bh)"
    and mem: "\<not> alloc_fails ext (unat (block_total_length bh - MIN_IDB_SIZE))"
  shows "\<exists>wth' wblock'. pcapng_read_if_descr_block ext wth fh bh si wblock = Inr (wth', wblock', fh2)"
proof -
  have m: "MIN_IDB_SIZE = 20"
    by (simp add: MIN_IDB_SIZE_def MIN_BLOCK_SIZE_def)
  from len have ge: "(20 :: guint32) \<le> block_total_length bh"
    by (simp add: word_le_nat_alt)
  then have "unat (block_total_length bh - 20) = unat (block_total_length bh) - 20"
    by (simp add: unat_sub)
  with len have left: "4 \<le> unat (block_total_length bh - MIN_IDB_SIZE)"
    by (simp add: m)
  have loop: "read_options_loop ext si (block_total_length bh - MIN_IDB_SIZE)
                (idb_process_option ext si (block_total_length bh - MIN_IDB_SIZE)) fh1
                (block_total_length bh - MIN_IDB_SIZE) st = Inr (st, fh2)" for st
    by (rule read_options_loop_endofopt [OF rd oh left]) (simp add: idb_process_option_def)
  from ge have "\<not> block_total_length bh < MIN_IDB_SIZE"
    by (simp add: m not_less)
  then show ?thesis
    using fixed mem
    by (simp add: pcapng_read_if_descr_block_def Let_def loop)
qed


lemma swapped_type_not_shb:
  "swap32 sw t = BLOCK_TYPE_IDB \<Longrightarrow> t \<noteq> BLOCK_TYPE_SHB"
  by (cases sw) (auto simp: swap32_def BLOCK_TYPE_IDB_def BLOCK_TYPE_SHB_def GUINT32_SWAP_LE_BE_def)

lemma wblock_updates_commute:
  "wblock\<lparr>wb_block := b, wb_type := t\<rparr> = (wblock :: wtapng_block_t)\<lparr>wb_type := t, wb_block := b\<rparr>"
  by simp

text \<open>
  C1. When the header of a block has been read, \<^verbatim>\<open>pcapng_read_block\<close> behaves as
  follows.

  \<^item> If the block is not a section header block, its total length does not exceed
    \<open>MAX_BLOCK_SIZE\<close>, its body's reader succeeds and four more bytes can be read
    where that reader stopped, the block is accepted when these four bytes, swapped
    if the section is byte-swapped, equal the header's total length, and the read
    fails with \<open>WTAP_ERR_BAD_FILE\<close> otherwise.

  \<^item> The same holds of a section header block, in the byte order the block itself
    announces; and \<^verbatim>\<open>pcapng_open\<close> answers \<open>WTAP_OPEN_ERROR\<close> with
    \<open>WTAP_ERR_BAD_FILE\<close> when these four bytes differ from the length of the first
    section header block.

  \<^item> Whenever a block is accepted, the last four bytes consumed equal the total
    length in the block's header.

  \<^item> But the four bytes compared are those where the body's reader stopped, not the
    last four of the block as its header frames it: an interface description block
    whose options start with an end-of-options option is read up to that option,
    whatever its total length. It is accepted exactly when the four bytes that follow
    the option equal the total length, and the stream is left 24 bytes after the start
    of the block.
\<close>

theorem C1_trailer_read_where_body_stops:
  fixes ext :: externals and si0 nsi :: section_info_t and wth :: wtap and pn :: pcapng_t
    and wblock :: wtapng_block_t and fh0 :: FILE_T and hdr :: "guint8 list"
  assumes hd: "wtap_read_bytes_or_eof fh0 8 = Inr (hdr, fh1)"
  defines "sw \<equiv> byte_swapped si0"
  defines "bh \<equiv> \<lparr>block_type = swap32 sw (field32 ext hdr 0),
                  block_total_length = swap32 sw (field32 ext hdr 4)\<rparr>"
  defines "R \<equiv> pcapng_read_block ext wth fh0 pn si0 nsi wblock"
  shows "(field32 ext hdr 0 \<noteq> BLOCK_TYPE_SHB \<and> block_total_length bh \<le> MAX_BLOCK_SIZE ext \<and>
          pcapng_read_block_body ext wth fh1 pn bh si0
            (wblock\<lparr>wb_block := None, wb_type := block_type bh\<rparr>) = Inr (wth2, pn2, wb2, fh2) \<and>
          wtap_read_bytes fh2 4 = Inr (tr, fh3) \<longrightarrow>
            R = (if swap32 sw (field32 ext tr 0) = block_total_length bh
                 then Inr (wth2, pn2, nsi, wb2, bh, fh3) else Inl WTAP_ERR_BAD_FILE)) \<and>
         (field32 ext hdr 0 = BLOCK_TYPE_SHB \<and>
          pcapng_read_section_header_block ext fh1
            \<lparr>block_type = BLOCK_TYPE_SHB, block_total_length = field32 ext hdr 4\<rparr> nsi
            (wblock\<lparr>wb_block := None, wb_type := BLOCK_TYPE_SHB\<rparr>) = Inr (bh1, nsi1, wb1, fh4) \<and>
          wtap_read_bytes fh4 4 = Inr (tr1, fh5) \<longrightarrow>
            R = (if swap32 (byte_swapped nsi1) (field32 ext tr1 0) = block_total_length bh1
                 then Inr (wth, pn, nsi1, wb1, bh1, fh5) else Inl WTAP_ERR_BAD_FILE) \<and>
            (wth_fh wth = fh0 \<and>
             swap32 (byte_swapped nsi1) (field32 ext tr1 0) \<noteq> block_total_length bh1 \<longrightarrow>
               pcapng_open ext wth nsi new_section wblock =
                 (WTAP_OPEN_ERROR, WTAP_ERR_BAD_FILE, None))) \<and>
         (R = Inr (wth', pn', nsi', wblock', bh', fh') \<longrightarrow>
            swap32 (byte_swapped (if field32 ext hdr 0 = BLOCK_TYPE_SHB then nsi' else si0))
              (field32 ext (take 4 (drop (pos fh' - 4) (contents fh0))) 0) =
              block_total_length bh' \<and>
            block_total_length bh' =
              swap32 (byte_swapped (if field32 ext hdr 0 = BLOCK_TYPE_SHB then nsi' else si0))
                (field32 ext hdr 4)) \<and>
         (block_type bh = BLOCK_TYPE_IDB \<and> 24 \<le> unat (block_total_length bh) \<and>
          block_total_length bh \<le> MAX_BLOCK_SIZE ext \<and>
          \<not> alloc_fails ext (unat (block_total_length bh - MIN_IDB_SIZE)) \<and>
          wtap_read_bytes fh1 8 = Inr (idb, fh6) \<and>
          wtap_read_bytes fh6 4 = Inr (oh_bytes, fh7) \<and>
          decode_option_header ext si0 oh_bytes =
            \<lparr>option_code = OPT_EOFOPT, option_length = 0\<rparr> \<and>
          wtap_read_bytes fh7 4 = Inr (tr2, fh8) \<longrightarrow>
            pos fh8 = pos fh0 + 24 \<and>
            (\<exists>wth3 wb3.
               R = (if swap32 sw (field32 ext tr2 0) = block_total_length bh
                    then Inr (wth3, pn, nsi, wb3, bh, fh8) else Inl WTAP_ERR_BAD_FILE)))"
proof -
  have A: "R = (if swap32 sw (field32 ext tr 0) = block_total_length bh
                 then Inr (wth2, pn2, nsi, wb2, bh, fh3) else Inl WTAP_ERR_BAD_FILE)"
    if "field32 ext hdr 0 \<noteq> BLOCK_TYPE_SHB" "block_total_length bh \<le> MAX_BLOCK_SIZE ext"
      "pcapng_read_block_body ext wth fh1 pn bh si0
         (wblock\<lparr>wb_block := None, wb_type := block_type bh\<rparr>) = Inr (wth2, pn2, wb2, fh2)"
      "wtap_read_bytes fh2 4 = Inr (tr, fh3)"
    for wth2 pn2 wb2 fh2 tr fh3
    using that trailer_result [of fh2 tr fh3 ext bh si0]
    unfolding R_def pcapng_read_block_other [OF hd that(1)]
    by (simp add: Let_def bh_def sw_def not_less [symmetric])
  have B: "R = (if swap32 (byte_swapped nsi1) (field32 ext tr1 0) = block_total_length bh1
                 then Inr (wth, pn, nsi1, wb1, bh1, fh5) else Inl WTAP_ERR_BAD_FILE)"
    if "field32 ext hdr 0 = BLOCK_TYPE_SHB"
      "pcapng_read_section_header_block ext fh1
         \<lparr>block_type = BLOCK_TYPE_SHB, block_total_length = field32 ext hdr 4\<rparr> nsi
         (wblock\<lparr>wb_block := None, wb_type := BLOCK_TYPE_SHB\<rparr>) = Inr (bh1, nsi1, wb1, fh4)"
      "wtap_read_bytes fh4 4 = Inr (tr1, fh5)"
    using that trailer_result [of fh4 tr1 fh5 ext bh1 nsi1]
    unfolding R_def pcapng_read_block_shb [OF hd that(1)]
    by simp
  have B': "pcapng_open ext wth nsi new_section wblock = (WTAP_OPEN_ERROR, WTAP_ERR_BAD_FILE, None)"
    if "field32 ext hdr 0 = BLOCK_TYPE_SHB"
      "pcapng_read_section_header_block ext fh1
         \<lparr>block_type = BLOCK_TYPE_SHB, block_total_length = field32 ext hdr 4\<rparr> nsi
         (wblock\<lparr>wb_block := None, wb_type := BLOCK_TYPE_SHB\<rparr>) = Inr (bh1, nsi1, wb1, fh4)"
      "wtap_read_bytes fh4 4 = Inr (tr1, fh5)" "wth_fh wth = fh0"
      "swap32 (byte_swapped nsi1) (field32 ext tr1 0) \<noteq> block_total_length bh1"
  proof (rule pcapng_open_first_block)
    show "wtap_read_bytes_or_eof (wth_fh wth) 8 = Inr (hdr, fh1)"
      using hd that(4) by simp
    show "field32 ext hdr 0 = BLOCK_TYPE_SHB"
      by (rule that(1))
    show "pcapng_read_section_header_block ext fh1
           \<lparr>block_type = BLOCK_TYPE_SHB, block_total_length = field32 ext hdr 4\<rparr> nsi
           (wblock\<lparr>wb_type := BLOCK_TYPE_SHB, wb_block := None\<rparr>) = Inr (bh1, nsi1, wb1, fh4)"
      using that(2) by (simp only: wblock_updates_commute)
    show "pcapng_read_and_check_block_trailer ext fh4 bh1 nsi1 = Inl WTAP_ERR_BAD_FILE"
      using that(5) by (simp add: trailer_result [OF that(3)])
  qed
  have C: "swap32 (byte_swapped (if field32 ext hdr 0 = BLOCK_TYPE_SHB then nsi' else si0))
              (field32 ext (take 4 (drop (pos fh' - 4) (contents fh0))) 0) =
              block_total_length bh' \<and>
            block_total_length bh' =
              swap32 (byte_swapped (if field32 ext hdr 0 = BLOCK_TYPE_SHB then nsi' else si0))
                (field32 ext hdr 4)"
    if "R = Inr (wth', pn', nsi', wblock', bh', fh')"
  proof -
    from hd have "hdr = take 8 (drop (pos fh0) (contents fh0))"
      by (auto simp: wtap_read_bytes_or_eof_Inr)
    with pcapng_read_block_trailer [OF that [unfolded R_def]] show ?thesis
      by simp
  qed
  have D: "pos fh8 = pos fh0 + 24 \<and>
            (\<exists>wth3 wb3.
               R = (if swap32 sw (field32 ext tr2 0) = block_total_length bh
                    then Inr (wth3, pn, nsi, wb3, bh, fh8) else Inl WTAP_ERR_BAD_FILE))"
    if ty: "block_type bh = BLOCK_TYPE_IDB" and len: "24 \<le> unat (block_total_length bh)"
      and mx: "block_total_length bh \<le> MAX_BLOCK_SIZE ext"
      and mem: "\<not> alloc_fails ext (unat (block_total_length bh - MIN_IDB_SIZE))"
      and r1: "wtap_read_bytes fh1 8 = Inr (idb, fh6)"
      and r2: "wtap_read_bytes fh6 4 = Inr (oh_bytes, fh7)"
      and oh: "decode_option_header ext si0 oh_bytes =
            \<lparr>option_code = OPT_EOFOPT, option_length = 0\<rparr>"
      and r3: "wtap_read_bytes fh7 4 = Inr (tr2, fh8)"
  proof -
    from ty have nshb: "field32 ext hdr 0 \<noteq> BLOCK_TYPE_SHB"
      by (auto simp: bh_def dest: swapped_type_not_shb)
    from idb_stops_at_endofopt [OF r1 r2 oh len mem]
    obtain wth3 wb3 where
      "pcapng_read_if_descr_block ext wth fh1 bh si0
         (wblock\<lparr>wb_block := None, wb_type := block_type bh\<rparr>) = Inr (wth3, wb3, fh7)"
      by blast
    then have body: "pcapng_read_block_body ext wth fh1 pn bh si0
         (wblock\<lparr>wb_block := None, wb_type := block_type bh\<rparr>) = Inr (wth3, pn, wb3, fh7)"
      using ty by (simp add: pcapng_read_block_body_def)
    have "pos fh8 = pos fh0 + 24"
      using hd r1 r2 r3 by (auto simp: wtap_read_bytes_or_eof_Inr wtap_read_bytes_Inr)
    with A [OF nshb mx body r3] show ?thesis
      by blast
  qed
  show ?thesis
    using A B B' C D by blast
qed


lemma unknown_block_reads:
  "wtap_read_bytes_or_eof (fh_at unknown_block 0) 8 =
     Inr ([0x01, 0, 0, 0x80,  16, 0, 0, 0], fh_at unknown_block 8)"
  "pcapng_read_block_body sample_ext (sample_wth unknown_block []) (fh_at unknown_block 8)
     (sample_pn []) \<lparr>block_type = 0x80000001, block_total_length = 16\<rparr> (sample_section [])
     (sample_wblock\<lparr>wb_block := None, wb_type := 0x80000001\<rparr>) =
   Inr (sample_wth unknown_block [], sample_pn [],
        sample_wblock\<lparr>wb_type := 0x80000001, wb_internal := True\<rparr>, fh_at unknown_block 12)"
  "wtap_read_bytes (fh_at unknown_block 12) 4 = Inr ([16, 0, 0, 0], fh_at unknown_block 16)"
  by code_simp+

lemma unknown_block_swapped_reads:
  "wtap_read_bytes_or_eof (fh_at unknown_block_swapped 0) 8 =
     Inr ([0x80, 0, 0, 0x01,  0, 0, 0, 16], fh_at unknown_block_swapped 8)"
  "pcapng_read_block_body sample_ext (sample_wth unknown_block_swapped [])
     (fh_at unknown_block_swapped 8) (sample_pn [])
     \<lparr>block_type = 0x80000001, block_total_length = 16\<rparr> swapped_section
     (sample_wblock\<lparr>wb_block := None, wb_type := 0x80000001\<rparr>) =
   Inr (sample_wth unknown_block_swapped [], sample_pn [],
        sample_wblock\<lparr>wb_type := 0x80000001, wb_internal := True\<rparr>,
        fh_at unknown_block_swapped 12)"
  "wtap_read_bytes (fh_at unknown_block_swapped 12) 4 =
     Inr ([0, 0, 0, 16], fh_at unknown_block_swapped 16)"
  by code_simp+

lemma unknown_block_bad_trailer_reads:
  "wtap_read_bytes_or_eof (fh_at unknown_block_bad_trailer 0) 8 =
     Inr ([0x80, 0, 0, 0x01,  0, 0, 0, 16], fh_at unknown_block_bad_trailer 8)"
  "pcapng_read_block_body sample_ext (sample_wth unknown_block_bad_trailer [])
     (fh_at unknown_block_bad_trailer 8) (sample_pn [])
     \<lparr>block_type = 0x80000001, block_total_length = 16\<rparr> swapped_section
     (sample_wblock\<lparr>wb_block := None, wb_type := 0x80000001\<rparr>) =
   Inr (sample_wth unknown_block_bad_trailer [], sample_pn [],
        sample_wblock\<lparr>wb_type := 0x80000001, wb_internal := True\<rparr>,
        fh_at unknown_block_bad_trailer 12)"
  "wtap_read_bytes (fh_at unknown_block_bad_trailer 12) 4 =
     Inr ([16, 0, 0, 0], fh_at unknown_block_bad_trailer 16)"
  by code_simp+

lemma shb_native_reads:
  "wtap_read_bytes_or_eof (fh_at shb_native 0) 8 =
     Inr ([0x0A, 0x0D, 0x0D, 0x0A,  28, 0, 0, 0], fh_at shb_native 8)"
  "pcapng_read_section_header_block sample_ext (fh_at shb_native 8)
     \<lparr>block_type = BLOCK_TYPE_SHB, block_total_length = 28\<rparr> (sample_section [])
     (sample_wblock\<lparr>wb_block := None, wb_type := BLOCK_TYPE_SHB\<rparr>) =
   Inr (\<lparr>block_type = BLOCK_TYPE_SHB, block_total_length = 28\<rparr>, sample_section [],
        sample_wblock\<lparr>wb_type := BLOCK_TYPE_SHB,
                      wb_block := Some \<lparr>mandatory = Mand_Section 0xFFFFFFFFFFFFFFFF, options = []\<rparr>,
                      wb_internal := True\<rparr>,
        fh_at shb_native 24)"
  "wtap_read_bytes (fh_at shb_native 24) 4 = Inr ([28, 0, 0, 0], fh_at shb_native 28)"
  by code_simp+

lemma shb_bad_trailer_reads:
  "wtap_read_bytes_or_eof (fh_at shb_bad_trailer 0) 8 =
     Inr ([0x0A, 0x0D, 0x0D, 0x0A,  28, 0, 0, 0], fh_at shb_bad_trailer 8)"
  "pcapng_read_section_header_block sample_ext (fh_at shb_bad_trailer 8)
     \<lparr>block_type = BLOCK_TYPE_SHB, block_total_length = 28\<rparr> (sample_section [])
     (sample_wblock\<lparr>wb_block := None, wb_type := BLOCK_TYPE_SHB\<rparr>) =
   Inr (\<lparr>block_type = BLOCK_TYPE_SHB, block_total_length = 28\<rparr>, sample_section [],
        sample_wblock\<lparr>wb_type := BLOCK_TYPE_SHB,
                      wb_block := Some \<lparr>mandatory = Mand_Section 0xFFFFFFFFFFFFFFFF, options = []\<rparr>,
                      wb_internal := True\<rparr>,
        fh_at shb_bad_trailer 24)"
  "wtap_read_bytes (fh_at shb_bad_trailer 24) 4 = Inr ([32, 0, 0, 0], fh_at shb_bad_trailer 28)"
  "wth_fh (sample_wth shb_bad_trailer []) = fh_at shb_bad_trailer 0"
  by code_simp+

lemma idb_junk_reads:
  "wtap_read_bytes_or_eof (fh_at idb_junk 0) 8 = Inr ([1, 0, 0, 0,  28, 0, 0, 0], fh_at idb_junk 8)"
  "wtap_read_bytes (fh_at idb_junk 8) 8 = Inr ([1, 0,  0, 0,  0xFF, 0xFF, 0, 0], fh_at idb_junk 16)"
  "wtap_read_bytes (fh_at idb_junk 16) 4 = Inr ([0, 0,  0, 0], fh_at idb_junk 20)"
  "wtap_read_bytes (fh_at idb_junk 20) 4 = Inr ([28, 0, 0, 0], fh_at idb_junk 24)"
  "take 4 (drop 24 idb_junk) = [0x63, 0, 0, 0]"
  by code_simp+

lemma idb_padded_reads:
  "wtap_read_bytes_or_eof (fh_at idb_padded 0) 8 =
     Inr ([1, 0, 0, 0,  28, 0, 0, 0], fh_at idb_padded 8)"
  "wtap_read_bytes (fh_at idb_padded 8) 8 =
     Inr ([1, 0,  0, 0,  0xFF, 0xFF, 0, 0], fh_at idb_padded 16)"
  "wtap_read_bytes (fh_at idb_padded 16) 4 = Inr ([0, 0,  0, 0], fh_at idb_padded 20)"
  "wtap_read_bytes (fh_at idb_padded 20) 4 = Inr ([0, 0, 0, 0], fh_at idb_padded 24)"
  "take 4 (drop 24 idb_padded) = [28, 0, 0, 0]"
  by code_simp+


theorem C1_trailer_read_where_body_stops_witness:
  "pcapng_read_block sample_ext (sample_wth unknown_block []) (fh_at unknown_block 0)
     (sample_pn []) (sample_section []) (sample_section []) sample_wblock =
     Inr (sample_wth unknown_block [], sample_pn [], sample_section [],
          sample_wblock\<lparr>wb_type := 0x80000001, wb_internal := True\<rparr>,
          \<lparr>block_type = 0x80000001, block_total_length = 16\<rparr>, fh_at unknown_block 16) \<and>
   swap32 False (field32 sample_ext (take 4 (drop (pos (fh_at unknown_block 16) - 4)
     (contents (fh_at unknown_block 0)))) 0) = 16 \<and>
   pcapng_read_block sample_ext (sample_wth unknown_block_swapped [])
     (fh_at unknown_block_swapped 0) (sample_pn []) swapped_section (sample_section [])
     sample_wblock =
     Inr (sample_wth unknown_block_swapped [], sample_pn [], sample_section [],
          sample_wblock\<lparr>wb_type := 0x80000001, wb_internal := True\<rparr>,
          \<lparr>block_type = 0x80000001, block_total_length = 16\<rparr>, fh_at unknown_block_swapped 16) \<and>
   pcapng_read_block sample_ext (sample_wth unknown_block_bad_trailer [])
     (fh_at unknown_block_bad_trailer 0) (sample_pn []) swapped_section (sample_section [])
     sample_wblock = Inl WTAP_ERR_BAD_FILE \<and>
   pcapng_read_block sample_ext (sample_wth shb_native []) (fh_at shb_native 0)
     (sample_pn []) (sample_section []) (sample_section []) sample_wblock =
     Inr (sample_wth shb_native [], sample_pn [], sample_section [],
          sample_wblock\<lparr>wb_type := BLOCK_TYPE_SHB,
                        wb_block := Some \<lparr>mandatory = Mand_Section 0xFFFFFFFFFFFFFFFF, options = []\<rparr>,
                        wb_internal := True\<rparr>,
          \<lparr>block_type = BLOCK_TYPE_SHB, block_total_length = 28\<rparr>, fh_at shb_native 28) \<and>
   pcapng_read_block sample_ext (sample_wth shb_bad_trailer []) (fh_at shb_bad_trailer 0)
     (sample_pn []) (sample_section []) (sample_section []) sample_wblock =
     Inl WTAP_ERR_BAD_FILE \<and>
   pcapng_open sample_ext (sample_wth shb_bad_trailer []) (sample_section []) (sample_section [])
     sample_wblock = (WTAP_OPEN_ERROR, WTAP_ERR_BAD_FILE, None) \<and>
   map_sum id (\<lambda>(wth, pn, nsi, wblock, bh, fh). (bh, fh))
     (pcapng_read_block sample_ext (sample_wth idb_junk []) (fh_at idb_junk 0)
        (sample_pn []) (sample_section []) (sample_section []) sample_wblock) =
     Inr (\<lparr>block_type = 1, block_total_length = 28\<rparr>, fh_at idb_junk 24) \<and>
   take 4 (drop 24 idb_junk) = [0x63, 0, 0, 0] \<and>
   pcapng_read_block sample_ext (sample_wth idb_padded []) (fh_at idb_padded 0)
     (sample_pn []) (sample_section []) (sample_section []) sample_wblock =
     Inl WTAP_ERR_BAD_FILE \<and>
   take 4 (drop 24 idb_padded) = [28, 0, 0, 0]"
proof -
  note C1 = C1_trailer_read_where_body_stops
  have u: "pcapng_read_block sample_ext (sample_wth unknown_block []) (fh_at unknown_block 0)
     (sample_pn []) (sample_section []) (sample_section []) sample_wblock =
     Inr (sample_wth unknown_block [], sample_pn [], sample_section [],
          sample_wblock\<lparr>wb_type := 0x80000001, wb_internal := True\<rparr>,
          \<lparr>block_type = 0x80000001, block_total_length = 16\<rparr>, fh_at unknown_block 16)"
    using C1 [where ext = sample_ext
        and ?si0.0 = "sample_section []" and wth = "sample_wth unknown_block []"
        and pn = "sample_pn []" and wblock = sample_wblock and nsi = "sample_section []"
        and ?wth2.0 = "sample_wth unknown_block []" and ?pn2.0 = "sample_pn []"
        and ?wb2.0 = "sample_wblock\<lparr>wb_type := 0x80000001, wb_internal := True\<rparr>"
        and ?fh2.0 = "fh_at unknown_block 12" and tr = "[16, 0, 0, 0]"
        and ?fh3.0 = "fh_at unknown_block 16", OF unknown_block_reads(1), THEN conjunct1]
      unknown_block_reads
    by (simp add: field32_def load_host_def swap32_def BLOCK_TYPE_SHB_def)
  have c: "swap32 False (field32 sample_ext (take 4 (drop (pos (fh_at unknown_block 16) - 4)
     (contents (fh_at unknown_block 0)))) 0) = 16"
    using C1 [where ext = sample_ext
        and ?si0.0 = "sample_section []" and wth = "sample_wth unknown_block []"
        and pn = "sample_pn []" and wblock = sample_wblock and nsi = "sample_section []"
        and wth' = "sample_wth unknown_block []" and pn' = "sample_pn []"
        and nsi' = "sample_section []"
        and wblock' = "sample_wblock\<lparr>wb_type := 0x80000001, wb_internal := True\<rparr>"
        and bh' = "\<lparr>block_type = 0x80000001, block_total_length = 16\<rparr>"
        and fh' = "fh_at unknown_block 16",
        OF unknown_block_reads(1), THEN conjunct2, THEN conjunct2, THEN conjunct1]
      u
    by (simp add: field32_def load_host_def BLOCK_TYPE_SHB_def)
  have s: "pcapng_read_block sample_ext (sample_wth unknown_block_swapped [])
     (fh_at unknown_block_swapped 0) (sample_pn []) swapped_section (sample_section [])
     sample_wblock =
     Inr (sample_wth unknown_block_swapped [], sample_pn [], sample_section [],
          sample_wblock\<lparr>wb_type := 0x80000001, wb_internal := True\<rparr>,
          \<lparr>block_type = 0x80000001, block_total_length = 16\<rparr>, fh_at unknown_block_swapped 16)"
    using C1 [where ext = sample_ext
        and ?si0.0 = swapped_section and wth = "sample_wth unknown_block_swapped []"
        and pn = "sample_pn []" and wblock = sample_wblock and nsi = "sample_section []"
        and ?wth2.0 = "sample_wth unknown_block_swapped []" and ?pn2.0 = "sample_pn []"
        and ?wb2.0 = "sample_wblock\<lparr>wb_type := 0x80000001, wb_internal := True\<rparr>"
        and ?fh2.0 = "fh_at unknown_block_swapped 12" and tr = "[0, 0, 0, 16]"
        and ?fh3.0 = "fh_at unknown_block_swapped 16",
        OF unknown_block_swapped_reads(1), THEN conjunct1]
      unknown_block_swapped_reads
    by (simp add: field32_def load_host_def swap32_def BLOCK_TYPE_SHB_def GUINT32_SWAP_LE_BE_def)
  have b: "pcapng_read_block sample_ext (sample_wth unknown_block_bad_trailer [])
     (fh_at unknown_block_bad_trailer 0) (sample_pn []) swapped_section (sample_section [])
     sample_wblock = Inl WTAP_ERR_BAD_FILE"
    using C1 [where ext = sample_ext
        and ?si0.0 = swapped_section and wth = "sample_wth unknown_block_bad_trailer []"
        and pn = "sample_pn []" and wblock = sample_wblock and nsi = "sample_section []"
        and ?wth2.0 = "sample_wth unknown_block_bad_trailer []" and ?pn2.0 = "sample_pn []"
        and ?wb2.0 = "sample_wblock\<lparr>wb_type := 0x80000001, wb_internal := True\<rparr>"
        and ?fh2.0 = "fh_at unknown_block_bad_trailer 12" and tr = "[16, 0, 0, 0]"
        and ?fh3.0 = "fh_at unknown_block_bad_trailer 16",
        OF unknown_block_bad_trailer_reads(1), THEN conjunct1]
      unknown_block_bad_trailer_reads
    by (simp add: field32_def load_host_def swap32_def BLOCK_TYPE_SHB_def GUINT32_SWAP_LE_BE_def)
  have n: "pcapng_read_block sample_ext (sample_wth shb_native []) (fh_at shb_native 0)
     (sample_pn []) (sample_section []) (sample_section []) sample_wblock =
     Inr (sample_wth shb_native [], sample_pn [], sample_section [],
          sample_wblock\<lparr>wb_type := BLOCK_TYPE_SHB,
                        wb_block := Some \<lparr>mandatory = Mand_Section 0xFFFFFFFFFFFFFFFF, options = []\<rparr>,
                        wb_internal := True\<rparr>,
          \<lparr>block_type = BLOCK_TYPE_SHB, block_total_length = 28\<rparr>, fh_at shb_native 28)"
    using C1 [where ext = sample_ext
        and ?si0.0 = "sample_section []" and wth = "sample_wth shb_native []"
        and pn = "sample_pn []" and wblock = sample_wblock and nsi = "sample_section []"
        and ?bh1.0 = "\<lparr>block_type = BLOCK_TYPE_SHB, block_total_length = 28\<rparr>"
        and ?nsi1.0 = "sample_section []"
        and ?wb1.0 = "sample_wblock\<lparr>wb_type := BLOCK_TYPE_SHB,
                        wb_block := Some \<lparr>mandatory = Mand_Section 0xFFFFFFFFFFFFFFFF, options = []\<rparr>,
                        wb_internal := True\<rparr>"
        and ?fh4.0 = "fh_at shb_native 24" and ?tr1.0 = "[28, 0, 0, 0]"
        and ?fh5.0 = "fh_at shb_native 28",
        OF shb_native_reads(1), THEN conjunct2, THEN conjunct1]
      shb_native_reads
    by (simp add: field32_def load_host_def swap32_def BLOCK_TYPE_SHB_def)
  have t: "pcapng_read_block sample_ext (sample_wth shb_bad_trailer []) (fh_at shb_bad_trailer 0)
     (sample_pn []) (sample_section []) (sample_section []) sample_wblock =
     Inl WTAP_ERR_BAD_FILE \<and>
   pcapng_open sample_ext (sample_wth shb_bad_trailer []) (sample_section []) (sample_section [])
     sample_wblock = (WTAP_OPEN_ERROR, WTAP_ERR_BAD_FILE, None)"
    using C1 [where ext = sample_ext
        and ?si0.0 = "sample_section []" and wth = "sample_wth shb_bad_trailer []"
        and pn = "sample_pn []" and wblock = sample_wblock and nsi = "sample_section []"
        and new_section = "sample_section []"
        and ?bh1.0 = "\<lparr>block_type = BLOCK_TYPE_SHB, block_total_length = 28\<rparr>"
        and ?nsi1.0 = "sample_section []"
        and ?wb1.0 = "sample_wblock\<lparr>wb_type := BLOCK_TYPE_SHB,
                        wb_block := Some \<lparr>mandatory = Mand_Section 0xFFFFFFFFFFFFFFFF, options = []\<rparr>,
                        wb_internal := True\<rparr>"
        and ?fh4.0 = "fh_at shb_bad_trailer 24" and ?tr1.0 = "[32, 0, 0, 0]"
        and ?fh5.0 = "fh_at shb_bad_trailer 28",
        OF shb_bad_trailer_reads(1), THEN conjunct2, THEN conjunct1]
      shb_bad_trailer_reads
    by (simp add: field32_def load_host_def swap32_def BLOCK_TYPE_SHB_def)
  have j: "map_sum id (\<lambda>(wth, pn, nsi, wblock, bh, fh). (bh, fh))
     (pcapng_read_block sample_ext (sample_wth idb_junk []) (fh_at idb_junk 0)
        (sample_pn []) (sample_section []) (sample_section []) sample_wblock) =
     Inr (\<lparr>block_type = 1, block_total_length = 28\<rparr>, fh_at idb_junk 24)"
    using C1 [where ext = sample_ext
        and ?si0.0 = "sample_section []" and wth = "sample_wth idb_junk []"
        and pn = "sample_pn []" and wblock = sample_wblock and nsi = "sample_section []"
        and idb = "[1, 0,  0, 0,  0xFF, 0xFF, 0, 0]" and ?fh6.0 = "fh_at idb_junk 16"
        and oh_bytes = "[0, 0,  0, 0]" and ?fh7.0 = "fh_at idb_junk 20"
        and ?tr2.0 = "[28, 0, 0, 0]" and ?fh8.0 = "fh_at idb_junk 24",
        OF idb_junk_reads(1), THEN conjunct2, THEN conjunct2, THEN conjunct2]
      idb_junk_reads
    by (auto simp: field32_def field16_def load_host_def swap32_def swap16_def BLOCK_TYPE_IDB_def
        decode_option_header_def OPT_EOFOPT_def MIN_IDB_SIZE_def MIN_BLOCK_SIZE_def)
  have p: "pcapng_read_block sample_ext (sample_wth idb_padded []) (fh_at idb_padded 0)
     (sample_pn []) (sample_section []) (sample_section []) sample_wblock =
     Inl WTAP_ERR_BAD_FILE"
    using C1 [where ext = sample_ext
        and ?si0.0 = "sample_section []" and wth = "sample_wth idb_padded []"
        and pn = "sample_pn []" and wblock = sample_wblock and nsi = "sample_section []"
        and idb = "[1, 0,  0, 0,  0xFF, 0xFF, 0, 0]" and ?fh6.0 = "fh_at idb_padded 16"
        and oh_bytes = "[0, 0,  0, 0]" and ?fh7.0 = "fh_at idb_padded 20"
        and ?tr2.0 = "[0, 0, 0, 0]" and ?fh8.0 = "fh_at idb_padded 24",
        OF idb_padded_reads(1), THEN conjunct2, THEN conjunct2, THEN conjunct2]
      idb_padded_reads
    by (auto simp: field32_def field16_def load_host_def swap32_def swap16_def BLOCK_TYPE_IDB_def
        decode_option_header_def OPT_EOFOPT_def MIN_IDB_SIZE_def MIN_BLOCK_SIZE_def)
  show ?thesis
    using u c s b n t j p idb_junk_reads(5) idb_padded_reads(5) by simp
qed

section \<open>The total length of a block\<close>





















section \<open>The time stamp resolution of an interface\<close>

text \<open>
  Not part of the source: \<open>note_tsresol\<close> is a body for the option loop that does
  nothing but remember the byte of the last \<^verbatim>\<open>if_tsresol\<close> option of length 1 met
  before the end of the options. Run over the options of a block it says which
  \<^verbatim>\<open>if_tsresol\<close> option, if any, the block has. \<open>tsresol_units\<close> is the value the
  format gives the byte: the base is 2 if bit 7 is set and 10 otherwise, the
  exponent is the value of the low seven bits.
\<close>

definition note_tsresol ::
  "pcapng_option_header_t \<Rightarrow> guint8 list \<Rightarrow> guint32 \<Rightarrow> guint8 option \<Rightarrow>
   wtap_err + (guint8 option \<times> guint32)" where
  "note_tsresol oh option_content to_read seen =
     (if option_code oh = OPT_EOFOPT then Inr (seen, 0)
      else if option_code oh = OPT_IDB_TSRESOL \<and> option_length oh = 1
      then Inr (Some (hd option_content), to_read)
      else Inr (seen, to_read))"

definition tsresol_units :: "guint8 \<Rightarrow> nat" where
  "tsresol_units b =
     (let base = (if bit b 7 then 2 else 10 :: nat); exponent = unat b mod 128
      in if (base = 2 \<and> exponent < 64) \<or> (base = 10 \<and> exponent < 20) then base ^ exponent
         else 2 ^ 64 - 1)"

text \<open>
  Interface description blocks with one \<^verbatim>\<open>if_tsresol\<close> option of length 1 and an
  end-of-options option, in the host's byte order and in the other one.
\<close>

definition idb_tsresol :: "guint8 \<Rightarrow> guint8 list" where
  "idb_tsresol b =
     [1, 0, 0, 0,  32, 0, 0, 0,  1, 0,  0, 0,  0xFF, 0xFF, 0, 0,
      9, 0,  1, 0,  b, 0, 0, 0,   0, 0,  0, 0,   32, 0, 0, 0]"

definition idb_tsresol_swapped :: "guint8 \<Rightarrow> guint8 list" where
  "idb_tsresol_swapped b =
     [0, 0, 0, 1,  0, 0, 0, 32,  0, 1,  0, 0,  0, 0, 0xFF, 0xFF,
      0, 9,  0, 1,  b, 0, 0, 0,   0, 0,  0, 0,   0, 0, 0, 32]"

text \<open>What reading such a block returns: the block and the file state.\<close>

definition idb_with_units :: "guint8 \<Rightarrow> guint64 \<Rightarrow> wtap_tsprec \<Rightarrow> wtapng_block_t" where
  "idb_with_units b units prec =
     sample_wblock
       \<lparr>wb_block :=
          Some \<lparr>mandatory = Mand_If_Descr
                  \<lparr>if_wtap_encap = WTAP_ENCAP 1, if_time_units_per_second = units,
                   if_tsprecision = prec, if_snap_len = 65535, num_stat_entries = 0,
                   interface_statistics = []\<rparr>,
                options = [(9, OptUInt8 b)]\<rparr>,
        wb_internal := True\<rparr>"

definition wth_after_idb :: "guint8 list \<Rightarrow> wtap_tsprec \<Rightarrow> wtap" where
  "wth_after_idb bytes prec =
     (sample_wth bytes [])\<lparr>file_encap := WTAP_ENCAP 1, file_tsprec := prec\<rparr>"

lemma tsresol_power_eq: "tsresol_power b n r = r * b ^ n"
  by (induction n arbitrary: r) (simp_all add: mult.assoc)

lemma tsresol_bit7: "(b :: guint8) AND 0x80 \<noteq> 0 \<longleftrightarrow> bit b 7"
  using and_exp_eq_0_iff_not_bit [of b 7] by simp

lemma tsresol_low7: "unat ((b :: guint8) AND 0x7f) = unat b mod 128"
proof -
  have "b AND 0x7f = take_bit 7 b"
    by (simp add: take_bit_eq_mask mask_eq_exp_minus_1)
  then show ?thesis
    by (simp add: take_bit_eq_mod unat_mod)
qed

lemma unat_power_10:
  assumes "n < 20"
  shows "unat ((10 :: guint64) ^ n) = 10 ^ n"
proof -
  have "(10 :: nat) ^ n \<le> 10 ^ 19"
    using assms by (intro power_increasing) simp_all
  then have lt: "(10 :: nat) ^ n < 2 ^ 64"
    by simp
  have "(10 :: guint64) ^ n = of_nat (10 ^ n)"
    by simp
  then have "unat ((10 :: guint64) ^ n) = (10 ^ n) mod 2 ^ 64"
    by (simp only: unat_of_nat) simp
  with lt show ?thesis
    by simp
qed

lemma unat_power_2:
  assumes "n < 64"
  shows "unat ((2 :: guint64) ^ n) = 2 ^ n"
proof -
  have "(2 :: nat) ^ n \<le> 2 ^ 63"
    using assms by (intro power_increasing) simp_all
  then have lt: "(2 :: nat) ^ n < 2 ^ 64"
    by simp
  have "(2 :: guint64) ^ n = of_nat (2 ^ n)"
    by simp
  then have "unat ((2 :: guint64) ^ n) = (2 ^ n) mod 2 ^ 64"
    by (simp only: unat_of_nat) simp
  with lt show ?thesis
    by simp
qed

lemma tsresol_time_units_eq:
  "unat (tsresol_time_units b) =
     (let base = (if bit b 7 then 2 else 10 :: nat); exponent = unat b mod 128
      in if (base = 2 \<and> exponent < 64) \<or> (base = 10 \<and> exponent < 20) then base ^ exponent
         else 2 ^ 64 - 1)"
proof -
  have lt: "b AND 0x7f < n \<longleftrightarrow> unat b mod 128 < unat n" for n :: guint8
    by (simp add: word_less_nat_alt tsresol_low7)
  show ?thesis
    by (simp add: tsresol_time_units_def Let_def tsresol_bit7 tsresol_low7 lt tsresol_power_eq
        unat_power_10 unat_power_2 G_MAXUINT64_def)
qed


lemma tsresol_units_eq: "unat (tsresol_time_units b) = tsresol_units b"
  by (simp add: tsresol_time_units_eq tsresol_units_def)

text \<open>
  What the option loop of the interface description block keeps true: the block
  holds an interface description whose time units per second are those of the last
  \<^verbatim>\<open>if_tsresol\<close> option of length 1 met so far, or 10^6 if there was none.
\<close>

definition units_follow :: "wtap_block \<Rightarrow> guint8 option \<Rightarrow> bool" where
  "units_follow blk seen \<longleftrightarrow>
     (case mandatory blk of
        Mand_If_Descr m \<Rightarrow>
          if_time_units_per_second m =
            (case seen of None \<Rightarrow> 1000000 | Some b \<Rightarrow> tsresol_time_units b)
      | _ \<Rightarrow> False)"

lemma units_follow_iff:
  "units_follow blk seen \<longleftrightarrow>
     (\<exists>m. mandatory blk = Mand_If_Descr m \<and>
          if_time_units_per_second m =
            (case seen of None \<Rightarrow> 1000000 | Some b \<Rightarrow> tsresol_time_units b))"
  by (cases "mandatory blk") (auto simp: units_follow_def)

lemma idb_process_option_follows:
  assumes plugins: "\<And>c parser blk sw l content blk'.
      option_handlers ext BT_INDEX_IDB c = Some parser \<Longrightarrow> parser blk sw l content = Inr blk' \<Longrightarrow>
      mandatory blk' = mandatory blk"
    and rel: "units_follow blk seen"
    and step: "idb_process_option ext si len oh c t blk = Inr (blk', t')"
  shows "\<exists>seen'. note_tsresol oh c t seen = Inr (seen', t') \<and> units_follow blk' seen'"
proof -
  consider (eof) "option_code oh = OPT_EOFOPT"
    | (ts) "option_code oh = OPT_IDB_TSRESOL"
    | (plugin) "option_code oh \<notin> {OPT_EOFOPT, OPT_COMMENT, OPT_IDB_NAME, OPT_IDB_DESCR, OPT_IDB_SPEED,
                 OPT_IDB_TSRESOL, OPT_IDB_FILTER, OPT_IDB_OS, OPT_IDB_FCSLEN, OPT_IDB_HARDWARE}"
    | (other) "option_code oh \<in> {OPT_COMMENT, OPT_IDB_NAME, OPT_IDB_DESCR, OPT_IDB_SPEED,
                 OPT_IDB_FILTER, OPT_IDB_OS, OPT_IDB_FCSLEN, OPT_IDB_HARDWARE}"
        "option_code oh \<noteq> OPT_EOFOPT" "option_code oh \<noteq> OPT_IDB_TSRESOL"
    by blast
  then show ?thesis
  proof cases
    case eof
    with rel step show ?thesis
      by (simp add: idb_process_option_def note_tsresol_def)
  next
    case ts
    then have code: "option_code oh \<noteq> OPT_EOFOPT" "option_code oh \<noteq> OPT_COMMENT"
      "option_code oh \<noteq> OPT_IDB_NAME" "option_code oh \<noteq> OPT_IDB_DESCR"
      "option_code oh \<noteq> OPT_IDB_SPEED"
      by (simp_all add: OPT_IDB_TSRESOL_def OPT_EOFOPT_def OPT_COMMENT_def OPT_IDB_NAME_def
          OPT_IDB_DESCR_def OPT_IDB_SPEED_def)
    with ts step have blk': "blk' = idb_tsresol_option blk oh c" and t': "t' = t"
      by (simp_all add: idb_process_option_def)
    show ?thesis
    proof (cases "option_length oh = 1")
      case True
      with rel show ?thesis
        by (auto simp: note_tsresol_def ts blk' t' idb_tsresol_option_def Let_def
            units_follow_def OPT_IDB_TSRESOL_def OPT_EOFOPT_def split: wtap_mandatory.splits)
    next
      case False
      with rel show ?thesis
        by (simp add: note_tsresol_def ts blk' t' idb_tsresol_option_def OPT_IDB_TSRESOL_def
            OPT_EOFOPT_def)
    qed
  next
    case plugin
    then have "idb_process_option ext si len oh c t blk =
        rbind (pcap_process_unhandled_option ext blk BT_INDEX_IDB si oh c) (\<lambda>blk. Inr (blk, t))"
      by (simp add: idb_process_option_def)
    with step have "mandatory blk' = mandatory blk \<and> t' = t"
      by (auto simp: rbind_eq_Inr pcap_process_unhandled_option_def split: option.splits
          dest: plugins)
    with rel plugin show ?thesis
      by (simp add: note_tsresol_def units_follow_def)
  next
    case other
    with step have "mandatory blk' = mandatory blk \<and> t' = t"
      by (auto simp: idb_process_option_def split: if_splits)
    with rel other show ?thesis
      by (simp add: note_tsresol_def units_follow_def)
  qed
qed


lemma pcapng_read_if_descr_block_Inr:
  assumes run: "pcapng_read_if_descr_block ext wth fh bh si wblock = Inr (wth', wblock', fh')"
    and fixed: "wtap_read_bytes fh 8 = Inr (idb, fh1)"
  shows "\<exists>m blk.
           if_time_units_per_second m = 1000000 \<and>
           read_options_loop ext si (block_total_length bh - MIN_IDB_SIZE)
             (idb_process_option ext si (block_total_length bh - MIN_IDB_SIZE)) fh1
             (block_total_length bh - MIN_IDB_SIZE) \<lparr>mandatory = Mand_If_Descr m, options = []\<rparr> =
             Inr (blk, fh') \<and>
           wblock' = wblock\<lparr>wb_block := Some blk, wb_internal := True\<rparr>"
proof -
  let ?m = "\<lparr>if_wtap_encap = wtap_pcap_encap_to_wtap_encap ext
                  (ucast (swap16 (byte_swapped si) (field16 ext idb 0))),
             if_time_units_per_second = 1000000,
             if_tsprecision = WTAP_TSPREC_USEC,
             if_snap_len = swap32 (byte_swapped si) (field32 ext idb 4),
             num_stat_entries = 0,
             interface_statistics = []\<rparr>"
  from run fixed have "\<exists>blk.
           read_options_loop ext si (block_total_length bh - MIN_IDB_SIZE)
             (idb_process_option ext si (block_total_length bh - MIN_IDB_SIZE)) fh1
             (block_total_length bh - MIN_IDB_SIZE) \<lparr>mandatory = Mand_If_Descr ?m, options = []\<rparr> =
             Inr (blk, fh') \<and>
           wblock' = wblock\<lparr>wb_block := Some blk, wb_internal := True\<rparr>"
    unfolding pcapng_read_if_descr_block_def Let_def
    by (auto simp: rbind_eq_Inr split: if_splits)
  moreover have "if_time_units_per_second ?m = 1000000"
    by simp
  ultimately show ?thesis
    by blast
qed

lemma pcapng_process_idb_interface:
  assumes "wb_block wblock = Some blk" and "mandatory blk = Mand_If_Descr m"
  shows "\<exists>iface. interfaces (snd (pcapng_process_idb wth si wblock)) = interfaces si @ [iface] \<and>
           time_units_per_second iface = if_time_units_per_second m"
  using assms
  by (simp add: pcapng_process_idb_def Let_def)

lemma idb_tsresol_9_reads:
  "pcapng_read_if_descr_block sample_ext (sample_wth (idb_tsresol 9) []) (fh_at (idb_tsresol 9) 8)
     \<lparr>block_type = 1, block_total_length = 32\<rparr> (sample_section []) sample_wblock =
     Inr (wth_after_idb (idb_tsresol 9) WTAP_TSPREC_NSEC, idb_with_units 9 1000000000 WTAP_TSPREC_NSEC,
          fh_at (idb_tsresol 9) 28)"
  "wtap_read_bytes (fh_at (idb_tsresol 9) 8) 8 = Inr ([1, 0,  0, 0,  0xFF, 0xFF, 0, 0], fh_at (idb_tsresol 9) 16)"
  "read_options_loop sample_ext (sample_section []) 12 note_tsresol (fh_at (idb_tsresol 9) 16) 12 None =
     Inr (Some 9, fh_at (idb_tsresol 9) 28)"
  by code_simp+

lemma idb_tsresol_191_reads:
  "pcapng_read_if_descr_block sample_ext (sample_wth (idb_tsresol 0xBF) []) (fh_at (idb_tsresol 0xBF) 8)
     \<lparr>block_type = 1, block_total_length = 32\<rparr> (sample_section []) sample_wblock =
     Inr (wth_after_idb (idb_tsresol 0xBF) WTAP_TSPREC_NSEC, idb_with_units 0xBF 0x8000000000000000 WTAP_TSPREC_NSEC,
          fh_at (idb_tsresol 0xBF) 28)"
  "wtap_read_bytes (fh_at (idb_tsresol 0xBF) 8) 8 = Inr ([1, 0,  0, 0,  0xFF, 0xFF, 0, 0], fh_at (idb_tsresol 0xBF) 16)"
  "read_options_loop sample_ext (sample_section []) 12 note_tsresol (fh_at (idb_tsresol 0xBF) 16) 12 None =
     Inr (Some 0xBF, fh_at (idb_tsresol 0xBF) 28)"
  by code_simp+

lemma idb_tsresol_20_reads:
  "pcapng_read_if_descr_block sample_ext (sample_wth (idb_tsresol 20) []) (fh_at (idb_tsresol 20) 8)
     \<lparr>block_type = 1, block_total_length = 32\<rparr> (sample_section []) sample_wblock =
     Inr (wth_after_idb (idb_tsresol 20) WTAP_TSPREC_NSEC, idb_with_units 20 0xFFFFFFFFFFFFFFFF WTAP_TSPREC_NSEC,
          fh_at (idb_tsresol 20) 28)"
  "wtap_read_bytes (fh_at (idb_tsresol 20) 8) 8 = Inr ([1, 0,  0, 0,  0xFF, 0xFF, 0, 0], fh_at (idb_tsresol 20) 16)"
  "read_options_loop sample_ext (sample_section []) 12 note_tsresol (fh_at (idb_tsresol 20) 16) 12 None =
     Inr (Some 20, fh_at (idb_tsresol 20) 28)"
  by code_simp+

lemma idb_tsresol_swapped_3_reads:
  "pcapng_read_if_descr_block sample_ext (sample_wth (idb_tsresol_swapped 3) []) (fh_at (idb_tsresol_swapped 3) 8)
     \<lparr>block_type = 1, block_total_length = 32\<rparr> swapped_section_1 sample_wblock =
     Inr (wth_after_idb (idb_tsresol_swapped 3) WTAP_TSPREC_MSEC, idb_with_units 3 1000 WTAP_TSPREC_MSEC,
          fh_at (idb_tsresol_swapped 3) 28)"
  "wtap_read_bytes (fh_at (idb_tsresol_swapped 3) 8) 8 = Inr ([0, 1,  0, 0,  0, 0, 0xFF, 0xFF], fh_at (idb_tsresol_swapped 3) 16)"
  "read_options_loop sample_ext swapped_section_1 12 note_tsresol (fh_at (idb_tsresol_swapped 3) 16) 12 None =
     Inr (Some 3, fh_at (idb_tsresol_swapped 3) 28)"
  by code_simp+

text \<open>
  C6. Let an interface description block be read with success, by a reader whose
  plugins, if it has any for the options of this block, leave the mandatory part of
  the block alone. Then the time units per second of the interface, in the block
  that is returned and in the entry that \<^verbatim>\<open>pcapng_process_idb\<close> appends to the
  section's interfaces, are \<open>base ^ exponent\<close> for the byte of the last \<^verbatim>\<open>if_tsresol\<close>
  option of length 1 among the block's options, where the base is 2 if bit 7 of the
  byte is set and 10 otherwise and the exponent is the value of the low seven bits,
  provided the exponent is below 64 for base 2 and below 20 for base 10; they are
  \<open>2^64 - 1\<close> when the exponent is out of range, and 10^6 when the block has no
  such option. And an \<^verbatim>\<open>if_tsresol\<close> option of length 1 never makes the option switch
  fail, whatever its byte.
\<close>

theorem C6_tsresol_time_units:
  fixes ext :: externals and si :: section_info_t and bh :: pcapng_block_header_t
  assumes run: "pcapng_read_if_descr_block ext wth fh bh si wblock = Inr (wth', wblock', fh')"
    and fixed: "wtap_read_bytes fh 8 = Inr (idb, fh1)"
    and plugins: "\<And>c parser blk sw l content blk'.
      option_handlers ext BT_INDEX_IDB c = Some parser \<Longrightarrow> parser blk sw l content = Inr blk' \<Longrightarrow>
      mandatory blk' = mandatory blk"
  defines "len \<equiv> block_total_length bh - MIN_IDB_SIZE"
  shows "(\<exists>blk m seen iface.
            read_options_loop ext si len note_tsresol fh1 len None = Inr (seen, fh') \<and>
            wb_block wblock' = Some blk \<and> mandatory blk = Mand_If_Descr m \<and>
            interfaces (snd (pcapng_process_idb wth' si wblock')) = interfaces si @ [iface] \<and>
            unat (if_time_units_per_second m) =
              (case seen of None \<Rightarrow> 1000000 | Some b \<Rightarrow> tsresol_units b) \<and>
            unat (time_units_per_second iface) =
              (case seen of None \<Rightarrow> 1000000 | Some b \<Rightarrow> tsresol_units b)) \<and>
         (option_code oh = OPT_IDB_TSRESOL \<and> option_length oh = 1 \<longrightarrow>
            idb_process_option ext si opt_cont_buf_len oh option_content to_read blk1 =
              Inr (idb_tsresol_option blk1 oh option_content, to_read) \<and>
            unat (if_time_units_per_second
                    (the_if_descr (mandatory (idb_tsresol_option blk1 oh option_content)))) =
              tsresol_units (hd option_content))"
proof -
  from pcapng_read_if_descr_block_Inr [OF run fixed] obtain m0 blk
    where m0: "if_time_units_per_second m0 = 1000000"
      and loop: "read_options_loop ext si len (idb_process_option ext si len) fh1 len
                   \<lparr>mandatory = Mand_If_Descr m0, options = []\<rparr> = Inr (blk, fh')"
      and wb: "wblock' = wblock\<lparr>wb_block := Some blk, wb_internal := True\<rparr>"
    unfolding len_def by blast
  from m0 have init: "units_follow \<lparr>mandatory = Mand_If_Descr m0, options = []\<rparr> None"
    by (simp add: units_follow_def)
  have "\<exists>seen. read_options_loop ext si len note_tsresol fh1 len None = Inr (seen, fh') \<and>
          units_follow blk seen"
    by (rule read_options_loop_rel [where Rel = units_follow and hg = note_tsresol, OF loop init])
       (erule (1) idb_process_option_follows [OF plugins, rotated 2])
  then obtain seen m
    where ghost: "read_options_loop ext si len note_tsresol fh1 len None = Inr (seen, fh')"
      and m: "mandatory blk = Mand_If_Descr m"
      and units: "if_time_units_per_second m =
            (case seen of None \<Rightarrow> 1000000 | Some b \<Rightarrow> tsresol_time_units b)"
    by (auto simp: units_follow_iff)
  have u: "unat (if_time_units_per_second m) =
             (case seen of None \<Rightarrow> 1000000 | Some b \<Rightarrow> tsresol_units b)"
    by (simp add: units tsresol_units_eq split: option.splits)
  from wb have "wb_block wblock' = Some blk"
    by simp
  from pcapng_process_idb_interface [OF this m, of wth' si] obtain iface
    where "interfaces (snd (pcapng_process_idb wth' si wblock')) = interfaces si @ [iface]"
      and "time_units_per_second iface = if_time_units_per_second m"
    by blast
  with ghost m u \<open>wb_block wblock' = Some blk\<close> have first: "\<exists>blk m seen iface.
            read_options_loop ext si len note_tsresol fh1 len None = Inr (seen, fh') \<and>
            wb_block wblock' = Some blk \<and> mandatory blk = Mand_If_Descr m \<and>
            interfaces (snd (pcapng_process_idb wth' si wblock')) = interfaces si @ [iface] \<and>
            unat (if_time_units_per_second m) =
              (case seen of None \<Rightarrow> 1000000 | Some b \<Rightarrow> tsresol_units b) \<and>
            unat (time_units_per_second iface) =
              (case seen of None \<Rightarrow> 1000000 | Some b \<Rightarrow> tsresol_units b)"
    by auto
  have second: "idb_process_option ext si opt_cont_buf_len oh option_content to_read blk1 =
              Inr (idb_tsresol_option blk1 oh option_content, to_read) \<and>
            unat (if_time_units_per_second
                    (the_if_descr (mandatory (idb_tsresol_option blk1 oh option_content)))) =
              tsresol_units (hd option_content)"
    if "option_code oh = OPT_IDB_TSRESOL" "option_length oh = 1"
    using that
    by (simp add: idb_process_option_def OPT_IDB_TSRESOL_def OPT_EOFOPT_def OPT_COMMENT_def
        OPT_IDB_NAME_def OPT_IDB_DESCR_def OPT_IDB_SPEED_def idb_tsresol_option_def Let_def
        tsresol_units_eq)
  from first second show ?thesis
    by blast
qed


theorem C6_tsresol_time_units_witness:
  "pcapng_read_if_descr_block sample_ext (sample_wth (idb_tsresol 9) []) (fh_at (idb_tsresol 9) 8)
     \<lparr>block_type = 1, block_total_length = 32\<rparr> (sample_section []) sample_wblock =
     Inr (wth_after_idb (idb_tsresol 9) WTAP_TSPREC_NSEC,
          idb_with_units 9 1000000000 WTAP_TSPREC_NSEC, fh_at (idb_tsresol 9) 28) \<and>
   map (\<lambda>i. unat (time_units_per_second i))
     (interfaces (snd (pcapng_process_idb (wth_after_idb (idb_tsresol 9) WTAP_TSPREC_NSEC)
        (sample_section []) (idb_with_units 9 1000000000 WTAP_TSPREC_NSEC)))) = [10 ^ 9] \<and>
   map (\<lambda>i. unat (time_units_per_second i))
     (interfaces (snd (pcapng_process_idb (wth_after_idb (idb_tsresol 0xBF) WTAP_TSPREC_NSEC)
        (sample_section []) (idb_with_units 0xBF 0x8000000000000000 WTAP_TSPREC_NSEC)))) =
     [2 ^ 63] \<and>
   map (\<lambda>i. unat (time_units_per_second i))
     (interfaces (snd (pcapng_process_idb (wth_after_idb (idb_tsresol 20) WTAP_TSPREC_NSEC)
        (sample_section []) (idb_with_units 20 0xFFFFFFFFFFFFFFFF WTAP_TSPREC_NSEC)))) =
     [2 ^ 64 - 1] \<and>
   map (\<lambda>i. unat (time_units_per_second i))
     (interfaces (snd (pcapng_process_idb (wth_after_idb (idb_tsresol_swapped 3) WTAP_TSPREC_MSEC)
        swapped_section_1 (idb_with_units 3 1000 WTAP_TSPREC_MSEC)))) = [10 ^ 6, 10 ^ 3] \<and>
   unat (if_time_units_per_second (the_if_descr (mandatory
      (idb_tsresol_option sample_idb tsresol_option [19, 0, 0, 0])))) = 10 ^ 19 \<and>
   unat (if_time_units_per_second (the_if_descr (mandatory
      (idb_tsresol_option sample_idb tsresol_option [0xC0, 0, 0, 0])))) = 2 ^ 64 - 1"
proof -
  note C6 = C6_tsresol_time_units
  have a: "map (\<lambda>i. unat (time_units_per_second i))
     (interfaces (snd (pcapng_process_idb (wth_after_idb (idb_tsresol 9) WTAP_TSPREC_NSEC)
        (sample_section []) (idb_with_units 9 1000000000 WTAP_TSPREC_NSEC)))) = [10 ^ 9]"
    using C6 [where ext = sample_ext and wth = "sample_wth (idb_tsresol 9) []"
        and bh = "\<lparr>block_type = 1, block_total_length = 32\<rparr>" and si = "sample_section []"
        and wblock = sample_wblock, OF idb_tsresol_9_reads(1) idb_tsresol_9_reads(2),
        THEN conjunct1]
      idb_tsresol_9_reads(3)
    by (auto simp: MIN_IDB_SIZE_def MIN_BLOCK_SIZE_def tsresol_units_def)
  have b: "map (\<lambda>i. unat (time_units_per_second i))
     (interfaces (snd (pcapng_process_idb (wth_after_idb (idb_tsresol 0xBF) WTAP_TSPREC_NSEC)
        (sample_section []) (idb_with_units 0xBF 0x8000000000000000 WTAP_TSPREC_NSEC)))) = [2 ^ 63]"
    using C6 [where ext = sample_ext and wth = "sample_wth (idb_tsresol 0xBF) []"
        and bh = "\<lparr>block_type = 1, block_total_length = 32\<rparr>" and si = "(sample_section [])"
        and wblock = sample_wblock, OF idb_tsresol_191_reads(1) idb_tsresol_191_reads(2),
        THEN conjunct1]
      idb_tsresol_191_reads(3)
    by (auto simp: MIN_IDB_SIZE_def MIN_BLOCK_SIZE_def tsresol_units_def swapped_section_1_def
        sample_iface_def)
  have c: "map (\<lambda>i. unat (time_units_per_second i))
     (interfaces (snd (pcapng_process_idb (wth_after_idb (idb_tsresol 20) WTAP_TSPREC_NSEC)
        (sample_section []) (idb_with_units 20 0xFFFFFFFFFFFFFFFF WTAP_TSPREC_NSEC)))) = [2 ^ 64 - 1]"
    using C6 [where ext = sample_ext and wth = "sample_wth (idb_tsresol 20) []"
        and bh = "\<lparr>block_type = 1, block_total_length = 32\<rparr>" and si = "(sample_section [])"
        and wblock = sample_wblock, OF idb_tsresol_20_reads(1) idb_tsresol_20_reads(2),
        THEN conjunct1]
      idb_tsresol_20_reads(3)
    by (auto simp: MIN_IDB_SIZE_def MIN_BLOCK_SIZE_def tsresol_units_def swapped_section_1_def
        sample_iface_def)
  have d: "map (\<lambda>i. unat (time_units_per_second i))
     (interfaces (snd (pcapng_process_idb (wth_after_idb (idb_tsresol_swapped 3) WTAP_TSPREC_MSEC)
        swapped_section_1 (idb_with_units 3 1000 WTAP_TSPREC_MSEC)))) = [10 ^ 6, 10 ^ 3]"
    using C6 [where ext = sample_ext and wth = "sample_wth (idb_tsresol_swapped 3) []"
        and bh = "\<lparr>block_type = 1, block_total_length = 32\<rparr>" and si = "swapped_section_1"
        and wblock = sample_wblock, OF idb_tsresol_swapped_3_reads(1) idb_tsresol_swapped_3_reads(2),
        THEN conjunct1]
      idb_tsresol_swapped_3_reads(3)
    by (auto simp: MIN_IDB_SIZE_def MIN_BLOCK_SIZE_def tsresol_units_def swapped_section_1_def
        sample_iface_def)
  have e: "unat (if_time_units_per_second (the_if_descr (mandatory
      (idb_tsresol_option sample_idb tsresol_option [19, 0, 0, 0])))) = 10 ^ 19"
    using C6 [where ext = sample_ext and wth = "sample_wth (idb_tsresol 9) []"
        and bh = "\<lparr>block_type = 1, block_total_length = 32\<rparr>" and si = "sample_section []"
        and wblock = sample_wblock and oh = tsresol_option and option_content = "[19, 0, 0, 0]"
        and ?blk1.0 = sample_idb, OF idb_tsresol_9_reads(1) idb_tsresol_9_reads(2),
        THEN conjunct2]
    by (simp add: tsresol_option_def tsresol_units_def)
  have f: "unat (if_time_units_per_second (the_if_descr (mandatory
      (idb_tsresol_option sample_idb tsresol_option [0xC0, 0, 0, 0])))) = 2 ^ 64 - 1"
    using C6 [where ext = sample_ext and wth = "sample_wth (idb_tsresol 9) []"
        and bh = "\<lparr>block_type = 1, block_total_length = 32\<rparr>" and si = "sample_section []"
        and wblock = sample_wblock and oh = tsresol_option and option_content = "[0xC0, 0, 0, 0]"
        and ?blk1.0 = sample_idb, OF idb_tsresol_9_reads(1) idb_tsresol_9_reads(2),
        THEN conjunct2]
    by (simp add: tsresol_option_def tsresol_units_def)
  show ?thesis
    using a b c d e f idb_tsresol_9_reads(1) by simp
qed

section \<open>Packet blocks\<close>

text \<open>
  Enhanced packet blocks with four bytes of data: on interface 0 and on interface 7
  with the time stamp \<open>2^32 + 2\<close>, on interface 0 with the time stamp \<open>2^35\<close>, and on
  interface 0 in the other byte order; obsolete packet blocks on interface 0 and on
  interface 7; simple packet blocks of packet length 8 holding four bytes of data,
  in either byte order, and holding all eight.
\<close>

definition epb_first :: "guint8 list" where
  "epb_first =
     [6, 0, 0, 0,  36, 0, 0, 0,  0, 0, 0, 0,  1, 0, 0, 0,  2, 0, 0, 0,  4, 0, 0, 0,  4, 0, 0, 0,
      0xDE, 0xAD, 0xBE, 0xEF,  36, 0, 0, 0]"

definition epb_seventh :: "guint8 list" where
  "epb_seventh =
     [6, 0, 0, 0,  36, 0, 0, 0,  7, 0, 0, 0,  1, 0, 0, 0,  2, 0, 0, 0,  4, 0, 0, 0,  4, 0, 0, 0,
      0xDE, 0xAD, 0xBE, 0xEF,  36, 0, 0, 0]"


definition epb_swapped :: "guint8 list" where
  "epb_swapped =
     [0, 0, 0, 6,  0, 0, 0, 36,  0, 0, 0, 0,  0, 0, 0, 1,  0, 0, 0, 2,  0, 0, 0, 4,  0, 0, 0, 4,
      0xDE, 0xAD, 0xBE, 0xEF,  0, 0, 0, 36]"

definition pb_first :: "guint8 list" where
  "pb_first =
     [2, 0, 0, 0,  36, 0, 0, 0,  0, 0,  5, 0,  1, 0, 0, 0,  2, 0, 0, 0,  4, 0, 0, 0,  4, 0, 0, 0,
      0xDE, 0xAD, 0xBE, 0xEF,  36, 0, 0, 0]"

definition pb_seventh :: "guint8 list" where
  "pb_seventh =
     [2, 0, 0, 0,  36, 0, 0, 0,  7, 0,  5, 0,  1, 0, 0, 0,  2, 0, 0, 0,  4, 0, 0, 0,  4, 0, 0, 0,
      0xDE, 0xAD, 0xBE, 0xEF,  36, 0, 0, 0]"

definition spb_cut :: "guint8 list" where
  "spb_cut = [3, 0, 0, 0,  20, 0, 0, 0,  8, 0, 0, 0,  0xDE, 0xAD, 0xBE, 0xEF,  20, 0, 0, 0]"

definition spb_swapped :: "guint8 list" where
  "spb_swapped = [0, 0, 0, 3,  0, 0, 0, 20,  0, 0, 0, 8,  0xDE, 0xAD, 0xBE, 0xEF,  0, 0, 0, 20]"

definition spb_whole :: "guint8 list" where
  "spb_whole =
     [3, 0, 0, 0,  24, 0, 0, 0,  8, 0, 0, 0,  0xDE, 0xAD, 0xBE, 0xEF,  0xCA, 0xFE, 0xBA, 0xBE,
      24, 0, 0, 0]"

text \<open>
  The records these blocks give on an interface of link-layer type 1 and microsecond
  precision, and the sections with one such interface whose snapshot length is 4 or
  0.
\<close>

definition sample_packet_rec :: "64 word \<Rightarrow> 32 word \<Rightarrow> wtap_rec" where
  "sample_packet_rec secs nsecs =
     sample_rec\<lparr>rec_type := REC_TYPE_PACKET,
                presence_flags := {WTAP_HAS_TS, WTAP_HAS_CAP_LEN, WTAP_HAS_INTERFACE_ID},
                ts_secs := secs, ts_nsecs := nsecs, rec_tsprec := WTAP_TSPREC_USEC,
                caplen := 4, pkt_len := 4, pkt_encap := WTAP_ENCAP 1, drop_count := - 1\<rparr>"

definition sample_simple_rec :: "guint32 \<Rightarrow> wtap_rec" where
  "sample_simple_rec captured =
     sample_rec\<lparr>rec_type := REC_TYPE_PACKET,
                presence_flags := {WTAP_HAS_CAP_LEN, WTAP_HAS_INTERFACE_ID},
                rec_tsprec := WTAP_TSPREC_USEC,
                caplen := captured, pkt_len := 8, pkt_encap := WTAP_ENCAP 1\<rparr>"

definition section_snap :: "bool \<Rightarrow> guint32 \<Rightarrow> section_info_t" where
  "section_snap swapped snap =
     (sample_section [(sample_iface 1000000)\<lparr>snap_len := snap\<rparr>])\<lparr>byte_swapped := swapped\<rparr>"

lemma pb_process_option_keeps:
  assumes "pb_process_option ext si len oh c t st = Inr (st', t')"
  shows "interface_id (fst st') = interface_id (fst st) \<and> ts_secs (fst st') = ts_secs (fst st) \<and>
         ts_nsecs (fst st') = ts_nsecs (fst st) \<and> caplen (fst st') = caplen (fst st)"
  using assms
  by (auto simp: pb_process_option_def Let_def split: if_splits option.splits)

lemma packet_options_keep:
  assumes "read_options_loop ext si len (pb_process_option ext si len') fh to_read st = Inr (st', fh')"
  shows "interface_id (fst st') = interface_id (fst st) \<and> ts_secs (fst st') = ts_secs (fst st) \<and>
         ts_nsecs (fst st') = ts_nsecs (fst st) \<and> caplen (fst st') = caplen (fst st)"
  by (rule read_options_loop_invariant [OF assms,
        where P = "\<lambda>s. interface_id (fst s) = interface_id (fst st) \<and>
                       ts_secs (fst s) = ts_secs (fst st) \<and> ts_nsecs (fst s) = ts_nsecs (fst st) \<and>
                       caplen (fst s) = caplen (fst st)"])
     (auto dest: pb_process_option_keeps)

lemma pcapng_read_packet_data_result:
  assumes "pcapng_read_packet_data ext fh si wblock packet iface padding total_len = Inr (wblock', fh')"
  shows "interface_id (wb_rec wblock') = pkt_interface_id packet \<and>
         ts_secs (wb_rec wblock') = packet_ts_secs (packet_ts packet) (time_units_per_second iface) \<and>
         ts_nsecs (wb_rec wblock') = packet_ts_nsecs (packet_ts packet) (time_units_per_second iface)"
  using assms
  unfolding pcapng_read_packet_data_def Let_def
  by (auto simp: rbind_eq_Inr dest!: packet_options_keep)

lemma pcapng_read_packet_block_body:
  fixes ext :: externals and si :: section_info_t and enhanced :: bool
  assumes "wtap_read_bytes fh 20 = Inr (fixed, fh1)"
  defines "packet \<equiv> (if enhanced then decode_epb ext (byte_swapped si) fixed
                      else decode_pb ext (byte_swapped si) fixed)"
  defines "min_size \<equiv> (if enhanced then MIN_EPB_SIZE else MIN_PB_SIZE)"
  shows "pcapng_read_packet_block ext fh bh si wblock enhanced =
     (if block_total_length bh < min_size then Inl WTAP_ERR_BAD_FILE
      else if round4 (block_total_length bh) < min_size + cap_len packet + pad4 (cap_len packet)
      then Inl WTAP_ERR_BAD_FILE
      else if length (interfaces si) \<le> unat (pkt_interface_id packet) then Inl WTAP_ERR_BAD_FILE
      else if cap_len packet >
              wtap_max_snaplen_for_encap ext
                (wtap_encap (interfaces si ! unat (pkt_interface_id packet)))
      then Inl WTAP_ERR_BAD_FILE
      else pcapng_read_packet_data ext fh1 si wblock packet
             (interfaces si ! unat (pkt_interface_id packet)) (pad4 (cap_len packet))
             (round4 (block_total_length bh)))"
  using assms(1)
  by (simp add: pcapng_read_packet_block_def Let_def packet_def min_size_def)










lemma pcapng_read_simple_packet_block_body:
  assumes "wtap_read_bytes fh 4 = Inr (spb, fh1)" and "interfaces si = []"
  shows "pcapng_read_simple_packet_block ext fh bh si wblock = Inl WTAP_ERR_BAD_FILE"
  using assms
  by (simp add: pcapng_read_simple_packet_block_def)

lemma skip_padding_pos:
  "skip_padding fh n = Inr fh' \<Longrightarrow> pos fh' = pos fh + n"
  by (auto simp: skip_padding_def rbind_eq_Inr wtap_read_bytes_Inr split: if_splits)

lemma pcapng_read_simple_packet_block_Inr:
  assumes "pcapng_read_simple_packet_block ext fh bh si wblock = Inr (wblock', fh')"
    and "wtap_read_bytes fh 4 = Inr (spb, fh1)"
  shows "\<exists>phl phdr.
           pcap_process_pseudo_header ext (wtap_encap (interfaces si ! 0))
             (spb_cap_len (swap32 (byte_swapped si) (field32 ext spb 0)) (interfaces si ! 0))
             (drop (pos fh1) (contents fh1)) = Inr (phl, phdr) \<and>
           caplen (wb_rec wblock') =
             spb_cap_len (swap32 (byte_swapped si) (field32 ext spb 0)) (interfaces si ! 0) -
             of_nat phl \<and>
           pkt_len (wb_rec wblock') = swap32 (byte_swapped si) (field32 ext spb 0) - of_nat phl \<and>
           pos fh' = pos fh1 + phl +
             unat (spb_cap_len (swap32 (byte_swapped si) (field32 ext spb 0)) (interfaces si ! 0)) +
             unat (pad4 (spb_cap_len (swap32 (byte_swapped si) (field32 ext spb 0))
                      (interfaces si ! 0)))"
  using assms
  unfolding pcapng_read_simple_packet_block_def Let_def wtap_read_packet_bytes_def
  by (auto simp: rbind_eq_Inr wtap_read_bytes_Inr split: if_splits dest!: skip_padding_pos)

text \<open>The sample blocks, read.\<close>

lemma epb_first_reads:
  "wtap_read_bytes (fh_at epb_first 8) 20 =
     Inr ([0, 0, 0, 0,  1, 0, 0, 0,  2, 0, 0, 0,  4, 0, 0, 0,  4, 0, 0, 0], fh_at epb_first 28)"
  "pcapng_read_packet_block sample_ext (fh_at epb_first 8)
     \<lparr>block_type = BLOCK_TYPE_EPB, block_total_length = 36\<rparr>
     (sample_section [sample_iface 1000000]) sample_wblock True =
   Inr (sample_wblock\<lparr>wb_rec := sample_packet_rec 4294 967298000,
                      wb_frame_buffer := [0xDE, 0xAD, 0xBE, 0xEF]\<rparr>, fh_at epb_first 32)"
  by code_simp+

lemma epb_swapped_reads:
  "wtap_read_bytes (fh_at epb_swapped 8) 20 =
     Inr ([0, 0, 0, 0,  0, 0, 0, 1,  0, 0, 0, 2,  0, 0, 0, 4,  0, 0, 0, 4], fh_at epb_swapped 28)"
  "pcapng_read_packet_block sample_ext (fh_at epb_swapped 8)
     \<lparr>block_type = BLOCK_TYPE_EPB, block_total_length = 36\<rparr> swapped_section_1 sample_wblock True =
   Inr (sample_wblock\<lparr>wb_rec := sample_packet_rec 4294 967298000,
                      wb_frame_buffer := [0xDE, 0xAD, 0xBE, 0xEF]\<rparr>, fh_at epb_swapped 32)"
  by code_simp+

lemma pb_first_reads:
  "wtap_read_bytes (fh_at pb_first 8) 20 =
     Inr ([0, 0,  5, 0,  1, 0, 0, 0,  2, 0, 0, 0,  4, 0, 0, 0,  4, 0, 0, 0], fh_at pb_first 28)"
  "pcapng_read_packet_block sample_ext (fh_at pb_first 8)
     \<lparr>block_type = BLOCK_TYPE_PB, block_total_length = 36\<rparr>
     (sample_section [sample_iface 1000000]) sample_wblock False =
   Inr (sample_wblock\<lparr>wb_rec := sample_packet_rec 4294 967298000,
                      wb_frame_buffer := [0xDE, 0xAD, 0xBE, 0xEF]\<rparr>, fh_at pb_first 32)"
  by code_simp+

lemma epb_seventh_reads:
  "wtap_read_bytes (fh_at epb_seventh 8) 20 =
     Inr ([7, 0, 0, 0,  1, 0, 0, 0,  2, 0, 0, 0,  4, 0, 0, 0,  4, 0, 0, 0], fh_at epb_seventh 28)"
  by code_simp

lemma pb_seventh_reads:
  "wtap_read_bytes (fh_at pb_seventh 8) 20 =
     Inr ([7, 0,  5, 0,  1, 0, 0, 0,  2, 0, 0, 0,  4, 0, 0, 0,  4, 0, 0, 0], fh_at pb_seventh 28)"
  by code_simp


lemma spb_cut_reads:
  "wtap_read_bytes (fh_at spb_cut 8) 4 = Inr ([8, 0, 0, 0], fh_at spb_cut 12)"
  "pcapng_read_simple_packet_block sample_ext (fh_at spb_cut 8)
     \<lparr>block_type = BLOCK_TYPE_SPB, block_total_length = 20\<rparr> (section_snap False 4) sample_wblock =
   Inr (sample_wblock\<lparr>wb_rec := sample_simple_rec 4,
                      wb_frame_buffer := [0xDE, 0xAD, 0xBE, 0xEF]\<rparr>, fh_at spb_cut 16)"
  by code_simp+

lemma spb_swapped_reads:
  "wtap_read_bytes (fh_at spb_swapped 8) 4 = Inr ([0, 0, 0, 8], fh_at spb_swapped 12)"
  "pcapng_read_simple_packet_block sample_ext (fh_at spb_swapped 8)
     \<lparr>block_type = BLOCK_TYPE_SPB, block_total_length = 20\<rparr> (section_snap True 4) sample_wblock =
   Inr (sample_wblock\<lparr>wb_rec := sample_simple_rec 4,
                      wb_frame_buffer := [0xDE, 0xAD, 0xBE, 0xEF]\<rparr>, fh_at spb_swapped 16)"
  by code_simp+

lemma spb_whole_reads:
  "wtap_read_bytes (fh_at spb_whole 8) 4 = Inr ([8, 0, 0, 0], fh_at spb_whole 12)"
  "pcapng_read_simple_packet_block sample_ext (fh_at spb_whole 8)
     \<lparr>block_type = BLOCK_TYPE_SPB, block_total_length = 24\<rparr> (section_snap False 0) sample_wblock =
   Inr (sample_wblock\<lparr>wb_rec := sample_simple_rec 8,
                      wb_frame_buffer := [0xDE, 0xAD, 0xBE, 0xEF, 0xCA, 0xFE, 0xBA, 0xBE]\<rparr>,
        fh_at spb_whole 20)"
  by code_simp+

lemma section_snap_simps [simp]:
  "byte_swapped (section_snap swapped snap) = swapped"
  "interfaces (section_snap swapped snap) = [(sample_iface 1000000)\<lparr>snap_len := snap\<rparr>]"
  by (simp_all add: section_snap_def sample_section_def)

lemma sample_ext_pseudo_header [simp]:
  "pcap_process_pseudo_header sample_ext e c bytes = Inr (0, Pseudo_header_zeroed)"
  by (simp add: sample_ext_def)

text \<open>
  C4. Let the 20 bytes of the fixed part of an enhanced or obsolete packet block be
  read; the block's interface id is the first 32 bits of an enhanced packet block,
  the first 16 bits of an obsolete one, in the byte order of the section. If it is
  not below the number of interfaces of the section, the read fails with
  \<open>WTAP_ERR_BAD_FILE\<close>. If the read succeeds, the interface id is below the number of
  interfaces and is the interface id of the record returned.
\<close>

theorem C4_packet_interface_id:
  fixes ext :: externals and si :: section_info_t and enhanced :: bool
  assumes rd: "wtap_read_bytes fh 20 = Inr (fixed, fh1)"
  defines "iface_id \<equiv> (if enhanced then swap32 (byte_swapped si) (field32 ext fixed 0)
                        else ucast (swap16 (byte_swapped si) (field16 ext fixed 0)))"
  shows "(length (interfaces si) \<le> unat iface_id \<longrightarrow>
            pcapng_read_packet_block ext fh bh si wblock enhanced = Inl WTAP_ERR_BAD_FILE) \<and>
         (pcapng_read_packet_block ext fh bh si wblock enhanced = Inr (wblock', fh') \<longrightarrow>
            unat iface_id < length (interfaces si) \<and>
            interface_id (wb_rec wblock') = iface_id)"
  unfolding pcapng_read_packet_block_body [OF rd] iface_id_def
  by (auto simp: decode_epb_def decode_pb_def split: if_splits
           dest: pcapng_read_packet_data_result)

theorem C4_packet_interface_id_witness:
  "pcapng_read_packet_block sample_ext (fh_at epb_seventh 8)
     \<lparr>block_type = BLOCK_TYPE_EPB, block_total_length = 36\<rparr>
     (sample_section [sample_iface 1000000]) sample_wblock True = Inl WTAP_ERR_BAD_FILE \<and>
   pcapng_read_packet_block sample_ext (fh_at pb_seventh 8)
     \<lparr>block_type = BLOCK_TYPE_PB, block_total_length = 36\<rparr>
     (sample_section [sample_iface 1000000]) sample_wblock False = Inl WTAP_ERR_BAD_FILE \<and>
   pcapng_read_packet_block sample_ext (fh_at epb_first 8)
     \<lparr>block_type = BLOCK_TYPE_EPB, block_total_length = 36\<rparr>
     (sample_section [sample_iface 1000000]) sample_wblock True =
   Inr (sample_wblock\<lparr>wb_rec := sample_packet_rec 4294 967298000,
                      wb_frame_buffer := [0xDE, 0xAD, 0xBE, 0xEF]\<rparr>, fh_at epb_first 32) \<and>
   pcapng_read_packet_block sample_ext (fh_at epb_swapped 8)
     \<lparr>block_type = BLOCK_TYPE_EPB, block_total_length = 36\<rparr> swapped_section_1 sample_wblock True =
   Inr (sample_wblock\<lparr>wb_rec := sample_packet_rec 4294 967298000,
                      wb_frame_buffer := [0xDE, 0xAD, 0xBE, 0xEF]\<rparr>, fh_at epb_swapped 32) \<and>
   pcapng_read_packet_block sample_ext (fh_at pb_first 8)
     \<lparr>block_type = BLOCK_TYPE_PB, block_total_length = 36\<rparr>
     (sample_section [sample_iface 1000000]) sample_wblock False =
   Inr (sample_wblock\<lparr>wb_rec := sample_packet_rec 4294 967298000,
                      wb_frame_buffer := [0xDE, 0xAD, 0xBE, 0xEF]\<rparr>, fh_at pb_first 32) \<and>
   interface_id (sample_packet_rec 4294 967298000) = 0"
  using C4_packet_interface_id [OF epb_seventh_reads, where ext = sample_ext and enhanced = True
      and si = "sample_section [sample_iface 1000000]"
      and bh = "\<lparr>block_type = BLOCK_TYPE_EPB, block_total_length = 36\<rparr>" and wblock = sample_wblock]
    C4_packet_interface_id [OF pb_seventh_reads, where ext = sample_ext and enhanced = False
      and si = "sample_section [sample_iface 1000000]"
      and bh = "\<lparr>block_type = BLOCK_TYPE_PB, block_total_length = 36\<rparr>" and wblock = sample_wblock]
    C4_packet_interface_id [OF epb_first_reads(1), where ext = sample_ext and enhanced = True
      and si = "sample_section [sample_iface 1000000]"
      and bh = "\<lparr>block_type = BLOCK_TYPE_EPB, block_total_length = 36\<rparr>" and wblock = sample_wblock
      and wblock' = "sample_wblock\<lparr>wb_rec := sample_packet_rec 4294 967298000,
                      wb_frame_buffer := [0xDE, 0xAD, 0xBE, 0xEF]\<rparr>"
      and fh' = "fh_at epb_first 32"]
    C4_packet_interface_id [OF epb_swapped_reads(1), where ext = sample_ext and enhanced = True
      and si = swapped_section_1
      and bh = "\<lparr>block_type = BLOCK_TYPE_EPB, block_total_length = 36\<rparr>" and wblock = sample_wblock
      and wblock' = "sample_wblock\<lparr>wb_rec := sample_packet_rec 4294 967298000,
                      wb_frame_buffer := [0xDE, 0xAD, 0xBE, 0xEF]\<rparr>"
      and fh' = "fh_at epb_swapped 32"]
    C4_packet_interface_id [OF pb_first_reads(1), where ext = sample_ext and enhanced = False
      and si = "sample_section [sample_iface 1000000]"
      and bh = "\<lparr>block_type = BLOCK_TYPE_PB, block_total_length = 36\<rparr>" and wblock = sample_wblock
      and wblock' = "sample_wblock\<lparr>wb_rec := sample_packet_rec 4294 967298000,
                      wb_frame_buffer := [0xDE, 0xAD, 0xBE, 0xEF]\<rparr>"
      and fh' = "fh_at pb_first 32"]
    epb_first_reads(2) epb_swapped_reads(2) pb_first_reads(2)
  by (simp add: field32_def field16_def load_host_def swap32_def swap16_def
      GUINT32_SWAP_LE_BE_def)





text \<open>
  C7. Let the four bytes of the fixed part of a simple packet block be read; they
  are the packet length, in the byte order of the section. In a section without
  interfaces the read fails with \<open>WTAP_ERR_BAD_FILE\<close>. If the read succeeds, the
  section has an interface; the captured length is the packet length if the
  snapshot length of the section's first interface is 0, and the smaller of the two
  otherwise; that many bytes of packet data, and their padding, are consumed after
  the pseudo-header of the interface's link-layer type, if it has one; and the
  record's captured length and packet length are those of the block less the length
  of that pseudo-header.
\<close>

theorem C7_simple_packet_cap_len:
  fixes ext :: externals and si :: section_info_t
  assumes rd: "wtap_read_bytes fh 4 = Inr (spb, fh1)"
  defines "plen \<equiv> swap32 (byte_swapped si) (field32 ext spb 0)"
  defines "snap \<equiv> snap_len (interfaces si ! 0)"
  defines "clen \<equiv> (if snap = 0 then plen else min plen snap)"
  shows "(interfaces si = [] \<longrightarrow>
            pcapng_read_simple_packet_block ext fh bh si wblock = Inl WTAP_ERR_BAD_FILE) \<and>
         (pcapng_read_simple_packet_block ext fh bh si wblock = Inr (wblock', fh') \<longrightarrow>
            interfaces si \<noteq> [] \<and>
            (\<exists>phl phdr.
               pcap_process_pseudo_header ext (wtap_encap (interfaces si ! 0)) clen
                 (drop (pos fh1) (contents fh1)) = Inr (phl, phdr) \<and>
               caplen (wb_rec wblock') = clen - of_nat phl \<and>
               pkt_len (wb_rec wblock') = plen - of_nat phl \<and>
               pos fh' = pos fh1 + phl + unat clen + unat (pad4 clen)))"
proof -
  have "spb_cap_len plen (interfaces si ! 0) = clen"
    by (auto simp: clen_def snap_def spb_cap_len_def min_def)
  then show ?thesis
    using pcapng_read_simple_packet_block_body [OF rd, of si ext bh wblock]
      pcapng_read_simple_packet_block_Inr [OF _ rd, of ext bh si wblock wblock' fh']
    by (auto simp: plen_def)
qed

theorem C7_simple_packet_cap_len_witness:
  "pcapng_read_simple_packet_block sample_ext (fh_at spb_cut 8)
     \<lparr>block_type = BLOCK_TYPE_SPB, block_total_length = 20\<rparr> (section_snap False 4) sample_wblock =
   Inr (sample_wblock\<lparr>wb_rec := sample_simple_rec 4,
                      wb_frame_buffer := [0xDE, 0xAD, 0xBE, 0xEF]\<rparr>, fh_at spb_cut 16) \<and>
   pcapng_read_simple_packet_block sample_ext (fh_at spb_swapped 8)
     \<lparr>block_type = BLOCK_TYPE_SPB, block_total_length = 20\<rparr> (section_snap True 4) sample_wblock =
   Inr (sample_wblock\<lparr>wb_rec := sample_simple_rec 4,
                      wb_frame_buffer := [0xDE, 0xAD, 0xBE, 0xEF]\<rparr>, fh_at spb_swapped 16) \<and>
   caplen (sample_simple_rec 4) = min 8 4 \<and>
   pcapng_read_simple_packet_block sample_ext (fh_at spb_whole 8)
     \<lparr>block_type = BLOCK_TYPE_SPB, block_total_length = 24\<rparr> (section_snap False 0) sample_wblock =
   Inr (sample_wblock\<lparr>wb_rec := sample_simple_rec 8,
                      wb_frame_buffer := [0xDE, 0xAD, 0xBE, 0xEF, 0xCA, 0xFE, 0xBA, 0xBE]\<rparr>,
        fh_at spb_whole 20) \<and>
   caplen (sample_simple_rec 8) = 8 \<and>
   pcapng_read_simple_packet_block sample_ext (fh_at spb_cut 8)
     \<lparr>block_type = BLOCK_TYPE_SPB, block_total_length = 20\<rparr> (sample_section []) sample_wblock =
   Inl WTAP_ERR_BAD_FILE"
  using C7_simple_packet_cap_len [OF spb_cut_reads(1), where ext = sample_ext
      and si = "section_snap False 4"
      and bh = "\<lparr>block_type = BLOCK_TYPE_SPB, block_total_length = 20\<rparr>" and wblock = sample_wblock
      and wblock' = "sample_wblock\<lparr>wb_rec := sample_simple_rec 4,
                      wb_frame_buffer := [0xDE, 0xAD, 0xBE, 0xEF]\<rparr>"
      and fh' = "fh_at spb_cut 16"]
    C7_simple_packet_cap_len [OF spb_swapped_reads(1), where ext = sample_ext
      and si = "section_snap True 4"
      and bh = "\<lparr>block_type = BLOCK_TYPE_SPB, block_total_length = 20\<rparr>" and wblock = sample_wblock
      and wblock' = "sample_wblock\<lparr>wb_rec := sample_simple_rec 4,
                      wb_frame_buffer := [0xDE, 0xAD, 0xBE, 0xEF]\<rparr>"
      and fh' = "fh_at spb_swapped 16"]
    C7_simple_packet_cap_len [OF spb_whole_reads(1), where ext = sample_ext
      and si = "section_snap False 0"
      and bh = "\<lparr>block_type = BLOCK_TYPE_SPB, block_total_length = 24\<rparr>" and wblock = sample_wblock
      and wblock' = "sample_wblock\<lparr>wb_rec := sample_simple_rec 8,
                      wb_frame_buffer := [0xDE, 0xAD, 0xBE, 0xEF, 0xCA, 0xFE, 0xBA, 0xBE]\<rparr>"
      and fh' = "fh_at spb_whole 20"]
    C7_simple_packet_cap_len [OF spb_cut_reads(1), where ext = sample_ext
      and si = "sample_section []"
      and bh = "\<lparr>block_type = BLOCK_TYPE_SPB, block_total_length = 20\<rparr>" and wblock = sample_wblock]
    spb_cut_reads(2) spb_swapped_reads(2) spb_whole_reads(2)
  by (simp add: field32_def load_host_def swap32_def GUINT32_SWAP_LE_BE_def sample_iface_def
      sample_simple_rec_def sample_rec_def)

section \<open>Interface statistics for an interface that does not exist\<close>

text \<open>
  A file state with one interface, in the section and in the file's list of
  interfaces; an interface statistics block for interface 5; and the files made of
  that block followed by an enhanced packet block on interface 0, and of an enhanced
  packet block on interface 7 alone.
\<close>

definition wth_one_iface :: "guint8 list \<Rightarrow> nat \<Rightarrow> wtap" where
  "wth_one_iface bytes at =
     (sample_wth bytes [sample_iface 1000000])
       \<lparr>wth_fh := fh_at bytes at, interface_data := [sample_idb]\<rparr>"

definition isb_fifth :: "guint8 list" where
  "isb_fifth = [5, 0, 0, 0,  24, 0, 0, 0,  5, 0, 0, 0,  0, 0, 0, 0,  9, 0, 0, 0,  24, 0, 0, 0]"

definition isb_fifth_swapped :: "guint8 list" where
  "isb_fifth_swapped =
     [0, 0, 0, 5,  0, 0, 0, 24,  0, 0, 0, 5,  0, 0, 0, 0,  0, 0, 0, 9,  0, 0, 0, 24]"

definition isb_block :: "guint32 \<Rightarrow> wtapng_block_t" where
  "isb_block iface =
     sample_wblock
       \<lparr>wb_type := BLOCK_TYPE_ISB, wb_internal := True,
        wb_block := Some \<lparr>mandatory = Mand_If_Stats
                            \<lparr>isb_interface_id = iface, isb_ts_high = 0, isb_ts_low = 9\<rparr>,
                          options = []\<rparr>\<rparr>"

lemma isb_process_option_keeps:
  assumes plugins: "\<forall>c parser blk sw l content blk'.
             option_handlers ext BT_INDEX_ISB c = Some parser \<longrightarrow>
             parser blk sw l content = Inr blk' \<longrightarrow> mandatory blk' = mandatory blk"
    and "isb_process_option ext si len oh c t blk = Inr (blk', t')"
  shows "mandatory blk' = mandatory blk"
  using assms(2) plugins [rule_format]
  by (auto simp: isb_process_option_def pcap_process_unhandled_option_def rbind_eq_Inr
           split: if_splits option.splits)

lemma pcapng_read_interface_statistics_block_Inr:
  assumes plugins: "\<forall>c parser blk sw l content blk'.
             option_handlers ext BT_INDEX_ISB c = Some parser \<longrightarrow>
             parser blk sw l content = Inr blk' \<longrightarrow> mandatory blk' = mandatory blk"
    and rd: "pcapng_read_interface_statistics_block ext fh bh si wblock = Inr (wblock', fh')"
    and fixed: "wtap_read_bytes fh 12 = Inr (isb, fh1)"
  shows "\<exists>blk. wblock' = wblock\<lparr>wb_block := Some blk, wb_internal := True\<rparr> \<and>
           mandatory blk =
             Mand_If_Stats \<lparr>isb_interface_id = swap32 (byte_swapped si) (field32 ext isb 0),
                            isb_ts_high = swap32 (byte_swapped si) (field32 ext isb 4),
                            isb_ts_low = swap32 (byte_swapped si) (field32 ext isb 8)\<rparr>"
proof -
  let ?m = "Mand_If_Stats \<lparr>isb_interface_id = swap32 (byte_swapped si) (field32 ext isb 0),
                            isb_ts_high = swap32 (byte_swapped si) (field32 ext isb 4),
                            isb_ts_low = swap32 (byte_swapped si) (field32 ext isb 8)\<rparr>"
  let ?len = "block_total_length bh - (MIN_BLOCK_SIZE + 12)"
  from rd fixed obtain blk
    where loop: "read_options_loop ext si ?len (isb_process_option ext si ?len) fh1 ?len
                   \<lparr>mandatory = ?m, options = []\<rparr> = Inr (blk, fh')"
      and w: "wblock' = wblock\<lparr>wb_block := Some blk, wb_internal := True\<rparr>"
    by (auto simp: pcapng_read_interface_statistics_block_def Let_def rbind_eq_Inr
             split: if_splits)
  have "mandatory blk = ?m"
    by (rule read_options_loop_invariant [OF loop, where P = "\<lambda>b. mandatory b = ?m"])
       (auto dest: isb_process_option_keeps [OF plugins])
  with w show ?thesis
    by blast
qed

lemma pcapng_read_block_isb:
  assumes plugins: "\<forall>c parser blk sw l content blk'.
             option_handlers ext BT_INDEX_ISB c = Some parser \<longrightarrow>
             parser blk sw l content = Inr blk' \<longrightarrow> mandatory blk' = mandatory blk"
    and hd: "wtap_read_bytes_or_eof fh 8 = Inr (hdr, fh0)"
    and ty: "swap32 (byte_swapped si) (field32 ext hdr 0) = BLOCK_TYPE_ISB"
    and fixed: "wtap_read_bytes fh0 12 = Inr (isb, fh1)"
    and rd: "pcapng_read_block ext wth fh pn si ns wblock = Inr (wth1, pn1, ns1, wblock1, bh1, fh')"
  shows "wth1 = wth \<and> pn1 = pn \<and> ns1 = ns \<and> block_type bh1 = BLOCK_TYPE_ISB \<and>
         wb_type wblock1 = BLOCK_TYPE_ISB \<and> wb_internal wblock1 \<and>
         (\<exists>blk. wb_block wblock1 = Some blk \<and>
            mandatory blk =
              Mand_If_Stats \<lparr>isb_interface_id = swap32 (byte_swapped si) (field32 ext isb 0),
                             isb_ts_high = swap32 (byte_swapped si) (field32 ext isb 4),
                             isb_ts_low = swap32 (byte_swapped si) (field32 ext isb 8)\<rparr>)"
proof -
  have "field32 ext hdr 0 \<noteq> BLOCK_TYPE_SHB"
  proof
    assume "field32 ext hdr 0 = BLOCK_TYPE_SHB"
    with ty have "BLOCK_TYPE_SHB = BLOCK_TYPE_ISB"
      by simp
    then show False
      by (simp add: BLOCK_TYPE_ISB_def BLOCK_TYPE_SHB_def)
  qed
  note rb = pcapng_read_block_other [OF hd this, of wth pn si ns wblock]
  let ?bh = "\<lparr>block_type = BLOCK_TYPE_ISB,
              block_total_length = swap32 (byte_swapped si) (field32 ext hdr 4)\<rparr>"
  from rd obtain wblock2 fh2
    where body: "pcapng_read_interface_statistics_block ext fh0 ?bh si
                   (wblock\<lparr>wb_block := None, wb_type := BLOCK_TYPE_ISB\<rparr>) = Inr (wblock2, fh2)"
      and res: "wth1 = wth" "pn1 = pn" "ns1 = ns" "wblock1 = wblock2" "bh1 = ?bh"
    unfolding rb ty Let_def pcapng_read_block_body_def
    by (auto simp: rbind_eq_Inr BLOCK_TYPE_ISB_def BLOCK_TYPE_IDB_def BLOCK_TYPE_PB_def
          BLOCK_TYPE_SPB_def BLOCK_TYPE_EPB_def BLOCK_TYPE_NRB_def split: if_splits)
  from pcapng_read_interface_statistics_block_Inr [OF plugins body fixed] res
  show ?thesis
    by auto
qed

lemma pcapng_process_isb_out_of_range:
  assumes "mandatory blk = Mand_If_Stats m"
    and "length (interface_data wth) \<le> unat (isb_interface_id m)"
  shows "pcapng_process_isb wth blk = wth"
  using assms
  by (simp add: pcapng_process_isb_def)

lemma pcapng_read_block_packet_out_of_range:
  assumes hd: "wtap_read_bytes_or_eof fh 8 = Inr (hdr, fh0)"
    and ty: "swap32 (byte_swapped si) (field32 ext hdr 0) = (if enhanced then BLOCK_TYPE_EPB else BLOCK_TYPE_PB)"
    and fixed: "wtap_read_bytes fh0 20 = Inr (pkt, fh1)"
    and range: "length (interfaces si) \<le>
                  unat (if enhanced then swap32 (byte_swapped si) (field32 ext pkt 0)
                        else ucast (swap16 (byte_swapped si) (field16 ext pkt 0)))"
  shows "pcapng_read_block ext wth fh pn si ns wblock = Inl WTAP_ERR_BAD_FILE"
proof -
  have "field32 ext hdr 0 \<noteq> BLOCK_TYPE_SHB"
  proof
    assume "field32 ext hdr 0 = BLOCK_TYPE_SHB"
    with ty have "BLOCK_TYPE_SHB = (if enhanced then BLOCK_TYPE_EPB else BLOCK_TYPE_PB)"
      by simp
    then show False
      by (simp add: BLOCK_TYPE_EPB_def BLOCK_TYPE_PB_def BLOCK_TYPE_SHB_def split: if_splits)
  qed
  note rb = pcapng_read_block_other [OF hd this, of wth pn si ns wblock]
  have "pcapng_read_packet_block ext fh0 bh si wb enhanced = Inl WTAP_ERR_BAD_FILE" for bh wb
    using range
    unfolding pcapng_read_packet_block_body [OF fixed]
    by (auto simp: decode_epb_def decode_pb_def split: if_splits)
  then show ?thesis
    unfolding rb ty Let_def pcapng_read_block_body_def
    by (cases enhanced)
       (auto simp: rbind_def BLOCK_TYPE_IDB_def BLOCK_TYPE_PB_def
          BLOCK_TYPE_SPB_def BLOCK_TYPE_EPB_def)
qed

lemma isb_fifth_reads:
  "wtap_read_bytes_or_eof (wth_fh (wth_one_iface (isb_fifth @ epb_first) 0)) 8 =
     Inr ([5, 0, 0, 0,  24, 0, 0, 0], fh_at (isb_fifth @ epb_first) 8)"
  "wtap_read_bytes (fh_at (isb_fifth @ epb_first) 8) 12 =
     Inr ([5, 0, 0, 0,  0, 0, 0, 0,  9, 0, 0, 0], fh_at (isb_fifth @ epb_first) 20)"
  "pcapng_read_block sample_ext (wth_one_iface (isb_fifth @ epb_first) 0)
     (wth_fh (wth_one_iface (isb_fifth @ epb_first) 0))
     (priv (wth_one_iface (isb_fifth @ epb_first) 0))
     (sections (priv (wth_one_iface (isb_fifth @ epb_first) 0)) !
        current_section_number (priv (wth_one_iface (isb_fifth @ epb_first) 0)))
     (sample_section []) sample_wblock =
   Inr (wth_one_iface (isb_fifth @ epb_first) 0, sample_pn [sample_iface 1000000],
        sample_section [], isb_block 5, \<lparr>block_type = BLOCK_TYPE_ISB, block_total_length = 24\<rparr>,
        fh_at (isb_fifth @ epb_first) 24)"
  "pcapng_read_loop sample_ext (wth_one_iface (isb_fifth @ epb_first) 24) (sample_section [])
     (isb_block 5) =
   Inr (wth_one_iface (isb_fifth @ epb_first) 60,
        sample_wblock\<lparr>wb_type := BLOCK_TYPE_EPB, wb_rec := sample_packet_rec 4294 967298000,
                      wb_frame_buffer := [0xDE, 0xAD, 0xBE, 0xEF]\<rparr>, 24)"
  by code_simp+

lemma epb_seventh_file_reads:
  "wtap_read_bytes_or_eof (wth_fh (wth_one_iface epb_seventh 0)) 8 =
     Inr ([6, 0, 0, 0,  36, 0, 0, 0], fh_at epb_seventh 8)"
  by code_simp

lemma pb_seventh_file_reads:
  "wtap_read_bytes_or_eof (wth_fh (wth_one_iface pb_seventh 0)) 8 =
     Inr ([2, 0, 0, 0,  36, 0, 0, 0], fh_at pb_seventh 8)"
  by code_simp

lemma wth_one_iface_simps [simp]:
  "(wth_one_iface bytes at)\<lparr>wth_fh := fh_at bytes at'\<rparr> = wth_one_iface bytes at'"
  "interface_data (wth_one_iface bytes at) = [sample_idb]"
  "sections (priv (wth_one_iface bytes at)) ! current_section_number (priv (wth_one_iface bytes at)) =
     sample_section [sample_iface 1000000]"
  "(wth_one_iface bytes at)\<lparr>priv := sample_pn [sample_iface 1000000]\<rparr> = wth_one_iface bytes at"
  "sections (sample_pn ifaces) ! current_section_number (sample_pn ifaces) = sample_section ifaces"
  "pos (fh_at bytes at) = at"
  by (simp_all add: wth_one_iface_def sample_wth_def sample_pn_def fh_at_def)

text \<open>
  C10. Let \<^verbatim>\<open>pcapng_read\<close> be at a block whose eight bytes of header can be read.
  \<^item> If it is an interface statistics block that is read with success, and the
    interface id in the first four bytes of its body is not below the number of
    interfaces of the file, then processing the block leaves the file state as it
    was, but for the stream, which is past the block; nothing is added to the
    statistics of any interface, no error is raised, and the loop goes on to the
    next block: its result is the result of reading on from there.
  \<^item> If it is an enhanced or obsolete packet block whose interface id is not below
    the number of interfaces of the section, the read fails with
    \<open>WTAP_ERR_BAD_FILE\<close>.

  The plugins, if there are any for the options of the block, leave the mandatory
  part of the block alone.
\<close>

theorem C10_statistics_for_missing_interface:
  fixes ext :: externals and wth :: wtap and enhanced :: bool
  defines "si \<equiv> sections (priv wth) ! current_section_number (priv wth)"
  assumes hd: "wtap_read_bytes_or_eof (wth_fh wth) 8 = Inr (hdr, fh0)"
    and plugins: "\<And>c parser blk sw l content blk'.
      option_handlers ext BT_INDEX_ISB c = Some parser \<Longrightarrow> parser blk sw l content = Inr blk' \<Longrightarrow>
      mandatory blk' = mandatory blk"
  shows "(swap32 (byte_swapped si) (field32 ext hdr 0) = BLOCK_TYPE_ISB \<and>
          wtap_read_bytes fh0 12 = Inr (isb, fh1) \<and>
          pcapng_read_block ext wth (wth_fh wth) (priv wth) si ns wblock =
            Inr (wth1, pn1, ns1, wblock1, bh1, fh') \<and>
          length (interface_data wth) \<le> unat (swap32 (byte_swapped si) (field32 ext isb 0)) \<longrightarrow>
            pcapng_process_internal (wth1\<lparr>wth_fh := fh', priv := pn1\<rparr>) ns1 wblock1
              (int (pos (wth_fh wth))) = wth\<lparr>wth_fh := fh'\<rparr> \<and>
            pcapng_read_loop ext wth ns wblock =
              pcapng_read_loop ext (wth\<lparr>wth_fh := fh'\<rparr>) ns wblock1) \<and>
         (swap32 (byte_swapped si) (field32 ext hdr 0) =
            (if enhanced then BLOCK_TYPE_EPB else BLOCK_TYPE_PB) \<and>
          wtap_read_bytes fh0 20 = Inr (pkt, fh2) \<and>
          length (interfaces si) \<le>
            unat (if enhanced then swap32 (byte_swapped si) (field32 ext pkt 0)
                  else ucast (swap16 (byte_swapped si) (field16 ext pkt 0))) \<longrightarrow>
            pcapng_read_loop ext wth ns wblock = Inl WTAP_ERR_BAD_FILE)"
proof (intro conjI impI; (elim conjE)?)
  assume ty: "swap32 (byte_swapped si) (field32 ext hdr 0) = BLOCK_TYPE_ISB"
    and fixed: "wtap_read_bytes fh0 12 = Inr (isb, fh1)"
    and rd: "pcapng_read_block ext wth (wth_fh wth) (priv wth) si ns wblock =
               Inr (wth1, pn1, ns1, wblock1, bh1, fh')"
    and range: "length (interface_data wth) \<le> unat (swap32 (byte_swapped si) (field32 ext isb 0))"
  from plugins have p: "\<forall>c parser blk sw l content blk'.
      option_handlers ext BT_INDEX_ISB c = Some parser \<longrightarrow>
      parser blk sw l content = Inr blk' \<longrightarrow> mandatory blk' = mandatory blk"
    by blast
  from pcapng_read_block_isb [OF p hd ty fixed rd] obtain blk
    where same: "wth1 = wth" "pn1 = priv wth" "ns1 = ns"
      and wb: "wb_type wblock1 = BLOCK_TYPE_ISB" "wb_internal wblock1" "wb_block wblock1 = Some blk"
      and m: "mandatory blk =
                Mand_If_Stats \<lparr>isb_interface_id = swap32 (byte_swapped si) (field32 ext isb 0),
                               isb_ts_high = swap32 (byte_swapped si) (field32 ext isb 4),
                               isb_ts_low = swap32 (byte_swapped si) (field32 ext isb 8)\<rparr>"
    by blast
  have "pcapng_process_isb (wth\<lparr>wth_fh := fh'\<rparr>) blk = wth\<lparr>wth_fh := fh'\<rparr>"
    by (rule pcapng_process_isb_out_of_range [OF m]) (use range in simp)
  then have internal: "pcapng_process_internal (wth1\<lparr>wth_fh := fh', priv := pn1\<rparr>) ns1 wblock1
       (int (pos (wth_fh wth))) = wth\<lparr>wth_fh := fh'\<rparr>"
    using same wb
    by (simp add: pcapng_process_internal_def Let_def BLOCK_TYPE_ISB_def BLOCK_TYPE_SHB_def
        BLOCK_TYPE_IDB_def BLOCK_TYPE_DSB_def BLOCK_TYPE_NRB_def)
  have "pcapng_read_loop ext wth ns wblock =
          pcapng_read_loop ext (pcapng_process_internal (wth1\<lparr>wth_fh := fh', priv := pn1\<rparr>) ns1
            wblock1 (int (pos (wth_fh wth)))) ns1 wblock1"
    using rd wb(2)
    by (subst pcapng_read_loop.simps) (simp add: Let_def si_def)
  with internal same
  show "pcapng_process_internal (wth1\<lparr>wth_fh := fh', priv := pn1\<rparr>) ns1 wblock1
          (int (pos (wth_fh wth))) = wth\<lparr>wth_fh := fh'\<rparr>"
    and "pcapng_read_loop ext wth ns wblock = pcapng_read_loop ext (wth\<lparr>wth_fh := fh'\<rparr>) ns wblock1"
    by simp_all
next
  assume ty: "swap32 (byte_swapped si) (field32 ext hdr 0) =
                (if enhanced then BLOCK_TYPE_EPB else BLOCK_TYPE_PB)"
    and fixed: "wtap_read_bytes fh0 20 = Inr (pkt, fh2)"
    and range: "length (interfaces si) \<le>
                  unat (if enhanced then swap32 (byte_swapped si) (field32 ext pkt 0)
                        else ucast (swap16 (byte_swapped si) (field16 ext pkt 0)))"
  from pcapng_read_block_packet_out_of_range [OF hd ty fixed range]
  show "pcapng_read_loop ext wth ns wblock = Inl WTAP_ERR_BAD_FILE"
    by (subst pcapng_read_loop.simps) (simp add: Let_def si_def)
qed

theorem C10_statistics_for_missing_interface_witness:
  "pcapng_read_block sample_ext (wth_one_iface (isb_fifth @ epb_first) 0)
     (fh_at (isb_fifth @ epb_first) 0) (sample_pn [sample_iface 1000000])
     (sample_section [sample_iface 1000000]) (sample_section []) sample_wblock =
   Inr (wth_one_iface (isb_fifth @ epb_first) 0, sample_pn [sample_iface 1000000],
        sample_section [], isb_block 5, \<lparr>block_type = BLOCK_TYPE_ISB, block_total_length = 24\<rparr>,
        fh_at (isb_fifth @ epb_first) 24) \<and>
   pcapng_process_internal (wth_one_iface (isb_fifth @ epb_first) 24) (sample_section [])
     (isb_block 5) 0 = wth_one_iface (isb_fifth @ epb_first) 24 \<and>
   pcapng_read_loop sample_ext (wth_one_iface (isb_fifth @ epb_first) 0) (sample_section [])
     sample_wblock =
   Inr (wth_one_iface (isb_fifth @ epb_first) 60,
        sample_wblock\<lparr>wb_type := BLOCK_TYPE_EPB, wb_rec := sample_packet_rec 4294 967298000,
                      wb_frame_buffer := [0xDE, 0xAD, 0xBE, 0xEF]\<rparr>, 24) \<and>
   interface_data (wth_one_iface (isb_fifth @ epb_first) 60) = [sample_idb] \<and>
   pcapng_read_loop sample_ext (wth_one_iface epb_seventh 0) (sample_section []) sample_wblock =
     Inl WTAP_ERR_BAD_FILE \<and>
   pcapng_read_loop sample_ext (wth_one_iface pb_seventh 0) (sample_section []) sample_wblock =
     Inl WTAP_ERR_BAD_FILE"
proof -
  note C10 = C10_statistics_for_missing_interface
  have fh: "wth_fh (wth_one_iface bytes at) = fh_at bytes at"
    and pn: "priv (wth_one_iface bytes at) = sample_pn [sample_iface 1000000]" for bytes at
    by (simp_all add: wth_one_iface_def sample_wth_def)
  have a: "pcapng_process_internal (wth_one_iface (isb_fifth @ epb_first) 24) (sample_section [])
             (isb_block 5) 0 = wth_one_iface (isb_fifth @ epb_first) 24 \<and>
           pcapng_read_loop sample_ext (wth_one_iface (isb_fifth @ epb_first) 0) (sample_section [])
             sample_wblock =
           pcapng_read_loop sample_ext (wth_one_iface (isb_fifth @ epb_first) 24) (sample_section [])
             (isb_block 5)"
    using C10 [where ext = sample_ext and wth = "wth_one_iface (isb_fifth @ epb_first) 0"
        and ns = "sample_section []" and wblock = sample_wblock and ?fh' = "fh_at (isb_fifth @ epb_first) 24"
        and ?wth1.0 = "wth_one_iface (isb_fifth @ epb_first) 0" and ?pn1.0 = "sample_pn [sample_iface 1000000]"
        and ?ns1.0 = "sample_section []" and ?wblock1.0 = "isb_block 5"
        and ?bh1.0 = "\<lparr>block_type = BLOCK_TYPE_ISB, block_total_length = 24\<rparr>"
        and isb = "[5, 0, 0, 0,  0, 0, 0, 0,  9, 0, 0, 0]"
        and ?fh1.0 = "fh_at (isb_fifth @ epb_first) 20",
        OF isb_fifth_reads(1), THEN conjunct1]
      isb_fifth_reads(2) isb_fifth_reads(3)
    by (simp add: field32_def load_host_def swap32_def BLOCK_TYPE_ISB_def fh pn
        wth_one_iface_def [symmetric])
  have b: "pcapng_read_loop sample_ext (wth_one_iface epb_seventh 0) (sample_section [])
             sample_wblock = Inl WTAP_ERR_BAD_FILE"
    using C10 [where ext = sample_ext and wth = "wth_one_iface epb_seventh 0"
        and ns = "sample_section []" and wblock = sample_wblock and enhanced = True
        and pkt = "[7, 0, 0, 0,  1, 0, 0, 0,  2, 0, 0, 0,  4, 0, 0, 0,  4, 0, 0, 0]"
        and ?fh2.0 = "fh_at epb_seventh 28",
        OF epb_seventh_file_reads, THEN conjunct2]
      epb_seventh_reads
    by (simp add: field32_def load_host_def swap32_def BLOCK_TYPE_EPB_def)
  have c: "pcapng_read_loop sample_ext (wth_one_iface pb_seventh 0) (sample_section [])
             sample_wblock = Inl WTAP_ERR_BAD_FILE"
    using C10 [where ext = sample_ext and wth = "wth_one_iface pb_seventh 0"
        and ns = "sample_section []" and wblock = sample_wblock and enhanced = False
        and pkt = "[7, 0,  5, 0,  1, 0, 0, 0,  2, 0, 0, 0,  4, 0, 0, 0,  4, 0, 0, 0]"
        and ?fh2.0 = "fh_at pb_seventh 28",
        OF pb_seventh_file_reads, THEN conjunct2]
      pb_seventh_reads
    by (simp add: field32_def field16_def load_host_def swap32_def swap16_def BLOCK_TYPE_PB_def)
  show ?thesis
    using a b c isb_fifth_reads(3) isb_fifth_reads(4)
    by (simp add: fh pn)
qed

end
